theory Spec2Isabelle
  imports Complex_Main "HOL-Library.Log_Nat"
begin

section \<open>Tool definitions and their wire format (tools/types.ts, client.ts)\<close>

text \<open>
  The closed set of tool categories, \<^verbatim>\<open>ErpNextToolCategory\<close> of tools/types.ts.
\<close>

datatype ErpNextToolCategory =
  Sales | Inventory | Accounting | Hr | Project | Operations | Purchasing
  | Delivery | Manufacturing | Crm | Assets | Setup | Analytics

text \<open>
  \<^verbatim>\<open>_meta?: { ui: { resourceUri: string } }\<close>: an object holding one string; the
  optional field is an \<open>option\<close>.
\<close>

datatype UiMeta = UiMeta (resourceUri: string)

text \<open>
  \<^verbatim>\<open>interface ErpNextTool\<close>. The input schema (an open JSON object) and the handler
  (a function) are type parameters: the projection to the wire format copies the first
  and drops the second, whatever they are.
\<close>

record ('s, 'h) ErpNextTool =
  name :: string
  description :: string
  category :: ErpNextToolCategory
  inputSchema :: 's
  meta :: "UiMeta option"
  handler :: 'h

text \<open>\<^verbatim>\<open>interface MCPToolWireFormat\<close>.\<close>

record 's MCPToolWireFormat =
  wire_name :: string
  wire_description :: string
  wire_inputSchema :: 's
  wire_meta :: "UiMeta option"

text \<open>
  \<^verbatim>\<open>toMCPWireFormat(tool)\<close>: builds the wire object from the three mandatory fields, then
  \<^verbatim>\<open>if (tool._meta) wire._meta = tool._meta\<close>. A present \<^verbatim>\<open>_meta\<close> is an object and so
  truthy; an absent one leaves the wire field absent.
\<close>

definition toMCPWireFormat :: "('s, 'h) ErpNextTool \<Rightarrow> 's MCPToolWireFormat" where
  "toMCPWireFormat tool =
     (let wire = \<lparr> wire_name = name tool, wire_description = description tool,
                   wire_inputSchema = inputSchema tool, wire_meta = None \<rparr>
      in case meta tool of
           Some m \<Rightarrow> wire \<lparr> wire_meta := Some m \<rparr>
         | None \<Rightarrow> wire)"

text \<open>
  \<^verbatim>\<open>ErpNextToolsClient.toMCPFormat()\<close> of client.ts: the same projection, written out
  again inside \<^verbatim>\<open>this.tools.map\<close>.
\<close>

definition toMCPFormat :: "('s, 'h) ErpNextTool list \<Rightarrow> 's MCPToolWireFormat list" where
  "toMCPFormat tools =
     map (\<lambda>t.
       (let wire = \<lparr> wire_name = name t, wire_description = description t,
                     wire_inputSchema = inputSchema t, wire_meta = None \<rparr>
        in case meta t of
             Some m \<Rightarrow> wire \<lparr> wire_meta := Some m \<rparr>
           | None \<Rightarrow> wire)) tools"

section \<open>The generic operations bucket (tools/operations.ts)\<close>

text \<open>
  One entry of \<^verbatim>\<open>operationsTools\<close>, reduced to what identifies the operation: its name,
  its category, the property names of its input schema, the schema's \<^verbatim>\<open>required\<close> list and
  the optional UI metadata. Descriptions are prose and are left out; handlers are modelled
  separately below.
\<close>

record OperationEntry =
  op_name :: string
  op_category :: ErpNextToolCategory
  op_properties :: "string list"
  op_required :: "string list"
  op_meta :: "UiMeta option"

definition operationsTools :: "OperationEntry list" where
  "operationsTools =
    [ \<lparr> op_name = ''erpnext_doc_create'', op_category = Operations,
        op_properties = [''doctype'', ''data''],
        op_required = [''doctype'', ''data''], op_meta = None \<rparr>,
      \<lparr> op_name = ''erpnext_doc_update'', op_category = Operations,
        op_properties = [''doctype'', ''name'', ''data''],
        op_required = [''doctype'', ''name'', ''data''], op_meta = None \<rparr>,
      \<lparr> op_name = ''erpnext_doc_delete'', op_category = Operations,
        op_properties = [''doctype'', ''name''],
        op_required = [''doctype'', ''name''], op_meta = None \<rparr>,
      \<lparr> op_name = ''erpnext_doc_submit'', op_category = Operations,
        op_properties = [''doctype'', ''name''],
        op_required = [''doctype'', ''name''], op_meta = None \<rparr>,
      \<lparr> op_name = ''erpnext_doc_cancel'', op_category = Operations,
        op_properties = [''doctype'', ''name''],
        op_required = [''doctype'', ''name''], op_meta = None \<rparr>,
      \<lparr> op_name = ''erpnext_doc_get'', op_category = Operations,
        op_properties = [''doctype'', ''name''],
        op_required = [''doctype'', ''name''], op_meta = None \<rparr>,
      \<lparr> op_name = ''erpnext_doc_list'', op_category = Operations,
        op_properties = [''doctype'', ''fields'', ''filters'', ''limit'', ''order_by''],
        op_required = [''doctype''],
        op_meta = Some (UiMeta ''ui://mcp-erpnext/doclist-viewer'') \<rparr> ]"

section \<open>JavaScript numbers\<close>

text \<open>
  Amounts, counts and rates are JavaScript Numbers, IEEE 754 binary64 values. They are
  modelled by the rationals they denote, every arithmetic operation rounding its exact
  result to the nearest representable value.
\<close>

text \<open>
  The binary exponent of a positive rational: \<open>ilog2 x\<close> is the integer \<open>k\<close> with
  \<open>2^k \<le> x < 2^(k+1)\<close>, found from the bit lengths of numerator and denominator.
\<close>

definition ilog2 :: "rat \<Rightarrow> int" where
  "ilog2 x = (let (a, b) = quotient_of x; d = bitlen a - bitlen b
              in if 2 powi d \<le> x then d else d - 1)"

text \<open>
  Rounding a rational to the nearest integer, ties to the even one (the IEEE 754 default).
\<close>

definition round_half_even :: "rat \<Rightarrow> int" where
  "round_half_even y =
     (let f = \<lfloor>y\<rfloor>; r = y - of_int f
      in if r < 1 / 2 then f
         else if 1 / 2 < r then f + 1
         else if even f then f else f + 1)"

text \<open>
  The binary64 value nearest to a rational: 53 significant bits above the subnormal
  range, multiples of \<open>2^-1074\<close> inside it, ties to even. The exponent is not bounded
  above here; \<open>to_double\<close> adds the overflow to infinity.
\<close>

definition fl :: "rat \<Rightarrow> rat" where
  "fl x = (if x = 0 then 0
           else let e = max (ilog2 \<bar>x\<bar> - 52) (- 1074)
                in of_int (round_half_even (x / 2 powi e)) * 2 powi e)"

text \<open>
  A JavaScript Number: a finite binary64 value (as the rational it denotes), the two
  infinities, or NaN. The sign of zero is not modelled: \<open>-0\<close> is \<open>Fin 0\<close>.
\<close>

datatype jsnum = Fin rat | PInf | NInf | NaN

text \<open>
  Rounding the exact result of an operation to a Number: a result that rounds to
  \<open>2^1024\<close> or beyond in magnitude (binary exponent 1024 or more) overflows to an
  infinity.
\<close>

definition to_double :: "rat \<Rightarrow> jsnum" where
  "to_double x = (let y = fl x
                  in if y = 0 then Fin 0
                     else if 1024 \<le> ilog2 \<bar>y\<bar> then (if 0 < y then PInf else NInf)
                     else Fin y)"

text \<open>
  \<^verbatim>\<open>a < b\<close> on Numbers; every comparison with NaN is false.
\<close>

fun js_less :: "jsnum \<Rightarrow> jsnum \<Rightarrow> bool" where
  "js_less (Fin a) (Fin b) = (a < b)"
| "js_less NaN _ = False"
| "js_less _ NaN = False"
| "js_less PInf _ = False"
| "js_less _ PInf = True"
| "js_less _ NInf = False"
| "js_less NInf _ = True"

text \<open>
  \<^verbatim>\<open>a <= b\<close> on Numbers.
\<close>

fun js_le :: "jsnum \<Rightarrow> jsnum \<Rightarrow> bool" where
  "js_le (Fin a) (Fin b) = (a \<le> b)"
| "js_le NaN _ = False"
| "js_le _ NaN = False"
| "js_le _ PInf = True"
| "js_le PInf _ = False"
| "js_le NInf _ = True"
| "js_le _ NInf = False"

text \<open>
  Unary minus.
\<close>

fun js_neg :: "jsnum \<Rightarrow> jsnum" where
  "js_neg (Fin a) = Fin (- a)"
| "js_neg PInf = NInf"
| "js_neg NInf = PInf"
| "js_neg NaN = NaN"

text \<open>
  \<^verbatim>\<open>a + b\<close> on Numbers.
\<close>

fun js_add :: "jsnum \<Rightarrow> jsnum \<Rightarrow> jsnum" where
  "js_add (Fin a) (Fin b) = to_double (a + b)"
| "js_add NaN _ = NaN"
| "js_add _ NaN = NaN"
| "js_add PInf NInf = NaN"
| "js_add NInf PInf = NaN"
| "js_add PInf _ = PInf"
| "js_add _ PInf = PInf"
| "js_add NInf _ = NInf"
| "js_add _ NInf = NInf"

text \<open>
  \<^verbatim>\<open>a - b\<close> on Numbers.
\<close>

definition js_sub :: "jsnum \<Rightarrow> jsnum \<Rightarrow> jsnum" where
  "js_sub a b = js_add a (js_neg b)"

text \<open>
  \<^verbatim>\<open>a * b\<close> on Numbers.
\<close>

fun js_mul :: "jsnum \<Rightarrow> jsnum \<Rightarrow> jsnum" where
  "js_mul (Fin a) (Fin b) = to_double (a * b)"
| "js_mul NaN _ = NaN"
| "js_mul _ NaN = NaN"
| "js_mul (Fin a) PInf = (if a = 0 then NaN else if 0 < a then PInf else NInf)"
| "js_mul (Fin a) NInf = (if a = 0 then NaN else if 0 < a then NInf else PInf)"
| "js_mul PInf (Fin b) = (if b = 0 then NaN else if 0 < b then PInf else NInf)"
| "js_mul NInf (Fin b) = (if b = 0 then NaN else if 0 < b then NInf else PInf)"
| "js_mul PInf PInf = PInf"
| "js_mul NInf NInf = PInf"
| "js_mul PInf NInf = NInf"
| "js_mul NInf PInf = NInf"

text \<open>
  \<^verbatim>\<open>a / b\<close> on Numbers; a zero divisor is \<open>+0\<close>.
\<close>

fun js_div :: "jsnum \<Rightarrow> jsnum \<Rightarrow> jsnum" where
  "js_div (Fin a) (Fin b) =
     (if b = 0 then (if a = 0 then NaN else if 0 < a then PInf else NInf)
      else to_double (a / b))"
| "js_div NaN _ = NaN"
| "js_div _ NaN = NaN"
| "js_div (Fin a) _ = Fin 0"
| "js_div PInf (Fin b) = (if 0 \<le> b then PInf else NInf)"
| "js_div NInf (Fin b) = (if 0 \<le> b then NInf else PInf)"
| "js_div _ _ = NaN"

text \<open>
  \<^verbatim>\<open>Math.round\<close>: the nearest integer, ties towards \<open>+\<infinity>\<close>; exact on finite values.
\<close>

fun Math_round :: "jsnum \<Rightarrow> jsnum" where
  "Math_round (Fin x) = Fin (of_int \<lfloor>x + 1 / 2\<rfloor>)"
| "Math_round v = v"

text \<open>
  \<^verbatim>\<open>Math.floor\<close>.
\<close>

fun Math_floor :: "jsnum \<Rightarrow> jsnum" where
  "Math_floor (Fin x) = Fin (of_int \<lfloor>x\<rfloor>)"
| "Math_floor v = v"

text \<open>
  \<^verbatim>\<open>Math.max\<close> of two Numbers: NaN if either is NaN.
\<close>

fun Math_max :: "jsnum \<Rightarrow> jsnum \<Rightarrow> jsnum" where
  "Math_max NaN _ = NaN"
| "Math_max _ NaN = NaN"
| "Math_max a b = (if js_less a b then b else a)"

text \<open>
  \<^verbatim>\<open>xs.length\<close> as a Number (an array length is below \<open>2^32\<close>, hence exact).
\<close>

definition number_of_length :: "'a list \<Rightarrow> jsnum" where
  "number_of_length xs = Fin (of_nat (length xs))"

section \<open>Fetched records\<close>

text \<open>
  A field of a fetched record: absent (\<^verbatim>\<open>undefined\<close>), \<^verbatim>\<open>null\<close>, or a value of the type
  the remote system sends for that field (text fields as strings, Currency, Float and
  Int fields as JSON numbers).
\<close>

datatype 'a field = Undefined | Null | Value 'a

text \<open>\<^verbatim>\<open>x ?? d\<close>: the default replaces \<^verbatim>\<open>undefined\<close> and \<^verbatim>\<open>null\<close> only.\<close>

fun nullish_or :: "'a field \<Rightarrow> 'a \<Rightarrow> 'a" where
  "nullish_or (Value v) d = v"
| "nullish_or _ d = d"

text \<open>\<^verbatim>\<open>Number(x)\<close> on a numeric field: \<^verbatim>\<open>undefined\<close> is NaN, \<^verbatim>\<open>null\<close> is 0.\<close>

fun Number :: "jsnum field \<Rightarrow> jsnum" where
  "Number Undefined = NaN"
| "Number Null = Fin 0"
| "Number (Value v) = v"

text \<open>\<^verbatim>\<open>v || 0\<close> on a Number: the falsy Numbers are 0 and NaN.\<close>

definition or_zero :: "jsnum \<Rightarrow> jsnum" where
  "or_zero v = (if v = NaN \<or> v = Fin 0 then Fin 0 else v)"

text \<open>
  \<^verbatim>\<open>xs.reduce((s, o) => s + (Number(o.f) || 0), 0)\<close>, the sum every aggregation uses,
  for the field selector \<open>f\<close>.
\<close>

definition sum_field :: "('r \<Rightarrow> jsnum field) \<Rightarrow> 'r list \<Rightarrow> jsnum" where
  "sum_field f xs = foldl (\<lambda>s r. js_add s (or_zero (Number (f r)))) (Fin 0) xs"

text \<open>
  A Sales Order as the analytics handlers fetch it; a handler that does not ask for a
  field sees it as \<open>Undefined\<close>.
\<close>

record SalesOrder =
  so_name :: "string field"
  so_customer :: "string field"
  so_customer_name :: "string field"
  so_status :: "string field"
  so_grand_total :: "jsnum field"
  so_transaction_date :: "string field"
  so_delivery_date :: "string field"

text \<open>Opportunities and Quotations, as the funnel fetches them.\<close>

record Opportunity =
  opp_name :: "string field"
  opportunity_amount :: "jsnum field"

record Quotation =
  quot_name :: "string field"
  quot_grand_total :: "jsnum field"

section \<open>The sales funnel (erpnext\_sales\_funnel, tools/analytics.ts)\<close>

text \<open>
  One funnel stage. The first stage has neither \<^verbatim>\<open>value\<close> nor \<^verbatim>\<open>conversionRate\<close>.
\<close>

record FunnelStage =
  stage_label :: string
  stage_count :: nat
  stage_value :: "jsnum option"
  stage_color :: string
  conversionRate :: "jsnum option"

text \<open>
  The expression the handler writes for each stage after the first,
  \<^verbatim>\<open>prev.length > 0 ? Math.round((this.length / prev.length) * 100) : 0\<close>,
  on the two array lengths.
\<close>

definition conversion_rate :: "nat \<Rightarrow> nat \<Rightarrow> jsnum" where
  "conversion_rate this_length prev_length =
     (if js_less (Fin 0) (Fin (of_nat prev_length))
      then Math_round (js_mul (js_div (Fin (of_nat this_length)) (Fin (of_nat prev_length)))
                              (Fin 100))
      else Fin 0)"

text \<open>
  The \<^verbatim>\<open>stages\<close> array of the handler's result, from the four fetched lists. The period
  argument only shapes the filters of the four queries; title, subtitle and currency are
  display constants.
\<close>

definition erpnext_sales_funnel ::
  "'l list \<Rightarrow> Opportunity list \<Rightarrow> Quotation list \<Rightarrow> SalesOrder list \<Rightarrow> FunnelStage list" where
  "erpnext_sales_funnel leads opps quots orders =
     [ \<lparr> stage_label = ''Leads'', stage_count = length leads, stage_value = None,
         stage_color = ''#818cf8'', conversionRate = None \<rparr>,
       \<lparr> stage_label = ''Opportunities'', stage_count = length opps,
         stage_value = Some (sum_field opportunity_amount opps),
         stage_color = ''#60a5fa'',
         conversionRate = Some (conversion_rate (length opps) (length leads)) \<rparr>,
       \<lparr> stage_label = ''Quotations'', stage_count = length quots,
         stage_value = Some (sum_field quot_grand_total quots),
         stage_color = ''#4ade80'',
         conversionRate = Some (conversion_rate (length quots) (length opps)) \<rparr>,
       \<lparr> stage_label = ''Orders'', stage_count = length orders,
         stage_value = Some (sum_field so_grand_total orders),
         stage_color = ''#fbbf24'',
         conversionRate = Some (conversion_rate (length orders) (length quots)) \<rparr> ]"

text \<open>
  What the amended claim C4 says of one stage after the first, given the previous count,
  the stage's count and the stage's rate: the rate is 0 after an empty stage; otherwise it
  is the integer \<open>round (100 * this / prev)\<close> (ties upwards), except that at an exact tie
  it may also be that integer less one.
\<close>

definition rate_as_amended :: "nat \<Rightarrow> nat \<Rightarrow> jsnum option \<Rightarrow> bool" where
  "rate_as_amended prev this rate =
     (let x = (100 * of_nat this / of_nat prev :: rat); r = \<lfloor>x + 1 / 2\<rfloor>
      in if prev = 0 then rate = Some (Fin 0)
         else (rate = Some (Fin (of_int r)) \<or> rate = Some (Fin (of_int (r - 1))))
              \<and> (of_int r \<noteq> x + 1 / 2 \<longrightarrow> rate = Some (Fin (of_int r))))"

section \<open>JSON values\<close>

text \<open>
  A value as \<^verbatim>\<open>JSON.parse\<close> yields it or as a caller passes it in a tool's arguments
  (\<^verbatim>\<open>unknown\<close> in the source), with \<^verbatim>\<open>undefined\<close> for an absent property. An object is
  the list of its own properties in insertion order.
\<close>

datatype jsval =
  JUndefined | JNull | JBool bool | JNum jsnum | JStr string
  | JArr "jsval list" | JObj "(string \<times> jsval) list"

text \<open>Truthiness, as \<^verbatim>\<open>!x\<close> and \<^verbatim>\<open>if (x)\<close> test it.\<close>

fun truthy :: "jsval \<Rightarrow> bool" where
  "truthy JUndefined = False"
| "truthy JNull = False"
| "truthy (JBool b) = b"
| "truthy (JNum n) = (n \<noteq> Fin 0 \<and> n \<noteq> NaN)"
| "truthy (JStr s) = (s \<noteq> [])"
| "truthy (JArr xs) = True"
| "truthy (JObj kvs) = True"

text \<open>
  Reading a property of a parsed object: the last occurrence of a key wins, as in
  \<^verbatim>\<open>JSON.parse\<close>; an absent key reads as \<^verbatim>\<open>undefined\<close>.
\<close>

definition get_prop :: "(string \<times> jsval) list \<Rightarrow> string \<Rightarrow> jsval" where
  "get_prop kvs k = (case map_of (rev kvs) k of Some v \<Rightarrow> v | None \<Rightarrow> JUndefined)"

text \<open>
  Writing an own property, as \<^verbatim>\<open>obj[k] = v\<close> does, and as the object literal
  \<^verbatim>\<open>{ ...doc, doctype: d }\<close> does after the spread: an existing key keeps its place
  and takes the new value, a new key is appended.
\<close>

fun set_prop :: "string \<Rightarrow> 'v \<Rightarrow> (string \<times> 'v) list \<Rightarrow> (string \<times> 'v) list" where
  "set_prop k v [] = [(k, v)]"
| "set_prop k v ((k', v') # kvs) =
     (if k' = k then (k, v) # kvs else (k', v') # set_prop k v kvs)"

text \<open>\<^verbatim>\<open>s.includes(sub)\<close> on strings.\<close>

fun starts_with :: "string \<Rightarrow> string \<Rightarrow> bool" where
  "starts_with s [] = True"
| "starts_with [] (c # cs) = False"
| "starts_with (d # ds) (c # cs) = (d = c \<and> starts_with ds cs)"

fun str_includes :: "string \<Rightarrow> string \<Rightarrow> bool" where
  "str_includes [] sub = (sub = [])"
| "str_includes (d # ds) sub = (starts_with (d # ds) sub \<or> str_includes ds sub)"

section \<open>The REST client's request (api/frappe-client.ts)\<close>

text \<open>
  A thrown value: whether it is an \<^verbatim>\<open>Error\<close> instance, and its \<^verbatim>\<open>name\<close> and \<^verbatim>\<open>message\<close>.
  An abort of the request's signal makes \<^verbatim>\<open>fetch\<close> reject with an error named
  \<^verbatim>\<open>AbortError\<close>.
\<close>

record Thrown =
  is_Error :: bool
  error_name :: string
  error_message :: string

definition abort_error :: "string \<Rightarrow> Thrown" where
  "abort_error msg = \<lparr> is_Error = True, error_name = ''AbortError'', error_message = msg \<rparr>"

text \<open>
  The HTTP response as \<^verbatim>\<open>request\<close> reads it: status and status text, the
  \<^verbatim>\<open>content-type\<close> header (\<open>None\<close> when the header is absent), and what \<^verbatim>\<open>response.json()\<close>
  and \<^verbatim>\<open>response.text()\<close> would resolve to, or reject with.
\<close>

record Response =
  resp_status :: nat
  resp_statusText :: string
  resp_content_type :: "string option"
  resp_json :: "Thrown + jsval"
  resp_text :: "Thrown + string"

text \<open>\<^verbatim>\<open>response.ok\<close>: the status is in the range 200 to 299.\<close>

definition resp_ok :: "Response \<Rightarrow> bool" where
  "resp_ok r = (200 \<le> resp_status r \<and> resp_status r \<le> 299)"

text \<open>What \<^verbatim>\<open>await fetch(...)\<close> does: it rejects with a thrown value or resolves to a response.\<close>

datatype fetch_outcome = Rejected Thrown | Resolved Response

text \<open>
  The message of a \<^verbatim>\<open>FrappeAPIError\<close>, kept as its parts rather than as the formatted
  text: timeout (the timeout, method and path), network error (method, path and the thrown
  value's message), or a failed request (method, path and the interpolated detail).
\<close>

datatype api_message =
  TimedOut nat string string
  | NetworkError string string string
  | Failed string string jsval

text \<open>\<^verbatim>\<open>class FrappeAPIError\<close>: message, status and raw body.\<close>

record FrappeAPIError =
  api_message :: api_message
  api_status :: nat
  api_body :: jsval

text \<open>
  What \<^verbatim>\<open>request\<close> throws: a \<^verbatim>\<open>FrappeAPIError\<close> it builds, or the value that reading the
  body rejected with, which it does not catch.
\<close>

datatype request_error = APIError FrappeAPIError | Uncaught Thrown

text \<open>
  The body as \<^verbatim>\<open>request\<close> reads it: \<^verbatim>\<open>response.json()\<close> when the content type includes
  \<^verbatim>\<open>application/json\<close>, \<^verbatim>\<open>response.text()\<close> otherwise.
\<close>

definition read_body :: "Response \<Rightarrow> Thrown + jsval" where
  "read_body response =
     (let contentType = (case resp_content_type response of Some s \<Rightarrow> s | None \<Rightarrow> [])
      in if str_includes contentType ''application/json'' then resp_json response
         else (case resp_text response of Inl e \<Rightarrow> Inl e | Inr s \<Rightarrow> Inr (JStr s)))"

text \<open>
  The detail of a failed request: \<^verbatim>\<open>body.message ?? body.exc_type ?? statusText\<close> for an
  object body (an array is an object too, without these properties), the status text
  otherwise.
\<close>

definition failure_detail :: "jsval \<Rightarrow> string \<Rightarrow> jsval" where
  "failure_detail responseBody statusText =
     (case responseBody of
        JObj kvs \<Rightarrow>
          (if get_prop kvs ''message'' \<noteq> JUndefined \<and> get_prop kvs ''message'' \<noteq> JNull
           then get_prop kvs ''message''
           else if get_prop kvs ''exc_type'' \<noteq> JUndefined \<and> get_prop kvs ''exc_type'' \<noteq> JNull
           then get_prop kvs ''exc_type''
           else JStr statusText)
      | JArr xs \<Rightarrow> JStr statusText
      | _ \<Rightarrow> JStr statusText)"

text \<open>
  \<^verbatim>\<open>FrappeClient.request(method, path, body)\<close>, as a function of what \<^verbatim>\<open>fetch\<close> did. The
  timer only decides whether the abort fires, which is part of the outcome.
\<close>

definition request :: "nat \<Rightarrow> string \<Rightarrow> string \<Rightarrow> fetch_outcome \<Rightarrow> request_error + jsval" where
  "request timeoutMs method path outcome =
     (case outcome of
        Rejected err \<Rightarrow>
          (if is_Error err \<and> error_name err = ''AbortError''
           then Inl (APIError \<lparr> api_message = TimedOut timeoutMs method path,
                                 api_status = 408, api_body = JNull \<rparr>)
           else Inl (APIError \<lparr> api_message = NetworkError method path (error_message err),
                                 api_status = 0, api_body = JNull \<rparr>))
      | Resolved response \<Rightarrow>
          (case read_body response of
             Inl e \<Rightarrow> Inl (Uncaught e)
           | Inr responseBody \<Rightarrow>
               (if \<not> resp_ok response
                then Inl (APIError
                       \<lparr> api_message =
                           Failed method path
                             (failure_detail responseBody (resp_statusText response)),
                         api_status = resp_status response,
                         api_body = responseBody \<rparr>)
                else Inr responseBody)))"

text \<open>The status a caller reads off a failed request, when it failed with a \<^verbatim>\<open>FrappeAPIError\<close>.\<close>

definition error_status :: "request_error + jsval \<Rightarrow> nat option" where
  "error_status res = (case res of Inl (APIError e) \<Rightarrow> Some (api_status e) | _ \<Rightarrow> None)"

section \<open>The submit handlers (tools/sales.ts, tools/operations.ts)\<close>

text \<open>
  The client as a handler sees it (\<^verbatim>\<open>ctx.client\<close>; the tests inject a mock): \<^verbatim>\<open>get\<close> and
  \<^verbatim>\<open>callMethod\<close>, each a function of the remote system's state \<open>'r\<close> that resolves to a
  value or rejects with an error \<open>'e\<close>, and leaves the remote system in a new state.
\<close>

record ('r, 'e) Client =
  client_get :: "jsval \<Rightarrow> jsval \<Rightarrow> 'r \<Rightarrow> ('e + (string \<times> jsval) list) \<times> 'r"
  client_callMethod :: "string \<Rightarrow> (string \<times> jsval) list \<Rightarrow> 'r \<Rightarrow> ('e + jsval) \<times> 'r"

text \<open>The calls a handler made on the client, in order.\<close>

datatype client_call =
  GetCall jsval jsval
  | CallMethodCall string "(string \<times> jsval) list"

text \<open>
  A call as a handler makes it, \<^verbatim>\<open>await ctx.client.get(doctype, name)\<close> and
  \<^verbatim>\<open>await ctx.client.callMethod(method, args)\<close>: the client's function is applied to the
  remote state, and this very call goes on record. The handler's state is the record of
  calls so far together with the remote state; a call is recorded only by being made.
\<close>

definition call_get ::
  "('r, 'e) Client \<Rightarrow> jsval \<Rightarrow> jsval \<Rightarrow> client_call list \<times> 'r
     \<Rightarrow> ('e + (string \<times> jsval) list) \<times> client_call list \<times> 'r" where
  "call_get client doctype docname st =
     (case client_get client doctype docname (snd st) of
        (outcome, r) \<Rightarrow> (outcome, fst st @ [GetCall doctype docname], r))"

definition call_callMethod ::
  "('r, 'e) Client \<Rightarrow> string \<Rightarrow> (string \<times> jsval) list \<Rightarrow> client_call list \<times> 'r
     \<Rightarrow> ('e + jsval) \<times> client_call list \<times> 'r" where
  "call_callMethod client method args st =
     (case client_callMethod client method args (snd st) of
        (outcome, r) \<Rightarrow> (outcome, fst st @ [CallMethodCall method args], r))"

text \<open>
  What a handler throws: its own missing-field error (tool name and field), or the
  rejection of a client call, passed on unchanged.
\<close>

datatype 'e handler_error = MissingField string string | ClientRejected 'e

text \<open>
  The outcome of a handler run: the result or the error, the client calls it made, and the
  remote state it left.
\<close>

record ('r, 'e) Run =
  run_result :: "'e handler_error + (string \<times> jsval) list"
  run_calls :: "client_call list"
  run_remote :: 'r

text \<open>
  \<^verbatim>\<open>erpnext_sales_order_submit\<close>: the name check, then \<^verbatim>\<open>get("Sales Order", name)\<close>, then
  \<^verbatim>\<open>callMethod("frappe.client.submit", { doc: { ...doc, doctype: "Sales Order" } })\<close>. The
  result object's message text is left out.
\<close>

definition erpnext_sales_order_submit ::
  "(string \<times> jsval) list \<Rightarrow> ('r, 'e) Client \<Rightarrow> 'r \<Rightarrow> ('r, 'e) Run" where
  "erpnext_sales_order_submit input client r0 =
     (if \<not> truthy (get_prop input ''name'')
      then \<lparr> run_result = Inl (MissingField ''erpnext_sales_order_submit'' ''name''),
             run_calls = [], run_remote = r0 \<rparr>
      else
        (case call_get client (JStr ''Sales Order'') (get_prop input ''name'') ([], r0) of
           (Inl e, calls, r1) \<Rightarrow>
             \<lparr> run_result = Inl (ClientRejected e), run_calls = calls, run_remote = r1 \<rparr>
         | (Inr doc, st1) \<Rightarrow>
             (case call_callMethod client ''frappe.client.submit''
                     [(''doc'', JObj (set_prop ''doctype'' (JStr ''Sales Order'') doc))] st1 of
                (Inl e, calls, r2) \<Rightarrow>
                  \<lparr> run_result = Inl (ClientRejected e), run_calls = calls, run_remote = r2 \<rparr>
              | (Inr result, calls, r2) \<Rightarrow>
                  \<lparr> run_result = Inr [(''data'', result)], run_calls = calls,
                    run_remote = r2 \<rparr>)))"

text \<open>\<^verbatim>\<open>erpnext_sales_invoice_submit\<close>: the same steps for \<^verbatim>\<open>"Sales Invoice"\<close>.\<close>

definition erpnext_sales_invoice_submit ::
  "(string \<times> jsval) list \<Rightarrow> ('r, 'e) Client \<Rightarrow> 'r \<Rightarrow> ('r, 'e) Run" where
  "erpnext_sales_invoice_submit input client r0 =
     (if \<not> truthy (get_prop input ''name'')
      then \<lparr> run_result = Inl (MissingField ''erpnext_sales_invoice_submit'' ''name''),
             run_calls = [], run_remote = r0 \<rparr>
      else
        (case call_get client (JStr ''Sales Invoice'') (get_prop input ''name'') ([], r0) of
           (Inl e, calls, r1) \<Rightarrow>
             \<lparr> run_result = Inl (ClientRejected e), run_calls = calls, run_remote = r1 \<rparr>
         | (Inr doc, st1) \<Rightarrow>
             (case call_callMethod client ''frappe.client.submit''
                     [(''doc'', JObj (set_prop ''doctype'' (JStr ''Sales Invoice'') doc))] st1 of
                (Inl e, calls, r2) \<Rightarrow>
                  \<lparr> run_result = Inl (ClientRejected e), run_calls = calls, run_remote = r2 \<rparr>
              | (Inr result, calls, r2) \<Rightarrow>
                  \<lparr> run_result = Inr [(''data'', result)], run_calls = calls,
                    run_remote = r2 \<rparr>)))"

text \<open>
  \<^verbatim>\<open>erpnext_doc_submit\<close>: the doctype comes from the input and is checked first; the
  result echoes doctype and name.
\<close>

definition erpnext_doc_submit ::
  "(string \<times> jsval) list \<Rightarrow> ('r, 'e) Client \<Rightarrow> 'r \<Rightarrow> ('r, 'e) Run" where
  "erpnext_doc_submit input client r0 =
     (if \<not> truthy (get_prop input ''doctype'')
      then \<lparr> run_result = Inl (MissingField ''erpnext_doc_submit'' ''doctype''),
             run_calls = [], run_remote = r0 \<rparr>
      else if \<not> truthy (get_prop input ''name'')
      then \<lparr> run_result = Inl (MissingField ''erpnext_doc_submit'' ''name''),
             run_calls = [], run_remote = r0 \<rparr>
      else
        (case call_get client (get_prop input ''doctype'') (get_prop input ''name'') ([], r0) of
           (Inl e, calls, r1) \<Rightarrow>
             \<lparr> run_result = Inl (ClientRejected e), run_calls = calls, run_remote = r1 \<rparr>
         | (Inr doc, st1) \<Rightarrow>
             (case call_callMethod client ''frappe.client.submit''
                     [(''doc'', JObj (set_prop ''doctype'' (get_prop input ''doctype'') doc))]
                     st1 of
                (Inl e, calls, r2) \<Rightarrow>
                  \<lparr> run_result = Inl (ClientRejected e), run_calls = calls, run_remote = r2 \<rparr>
              | (Inr result, calls, r2) \<Rightarrow>
                  \<lparr> run_result =
                      Inr [(''data'', result),
                           (''doctype'', get_prop input ''doctype''),
                           (''name'', get_prop input ''name'')],
                    run_calls = calls, run_remote = r2 \<rparr>)))"

text \<open>
  What claim C1 asks of a run of a submit handler for the document type \<open>dt\<close> and the
  document name \<open>nm\<close>, started in the remote state \<open>r0\<close>, in terms of the client's own two
  functions. The fetch is applied to \<open>r0\<close>. If it is rejected, it is the only call, the
  remote state is the one it left, and its error is the run's error. If it returns the
  record \<open>doc\<close>, the second and last call is \<^verbatim>\<open>frappe.client.submit\<close> with the document
  \<open>doc\<close> carrying the doctype \<open>dt\<close>, applied to the state the fetch left; the run leaves the
  remote state that this submit leaves, and its result is the submit's result under
  \<^verbatim>\<open>data\<close> (followed by the fields \<open>echo\<close>), or the submit's error.
\<close>

definition fetch_then_submit ::
  "('r, 'e) Client \<Rightarrow> 'r \<Rightarrow> jsval \<Rightarrow> jsval \<Rightarrow> (string \<times> jsval) list \<Rightarrow> ('r, 'e) Run \<Rightarrow> bool" where
  "fetch_then_submit client r0 dt nm echo run =
     (case client_get client dt nm r0 of
        (Inl e, r1) \<Rightarrow>
          run_calls run = [GetCall dt nm] \<and> run_remote run = r1
          \<and> run_result run = Inl (ClientRejected e)
      | (Inr doc, r1) \<Rightarrow>
          (let args = [(''doc'', JObj (set_prop ''doctype'' dt doc))];
               submitted = client_callMethod client ''frappe.client.submit'' args r1
           in run_calls run = [GetCall dt nm, CallMethodCall ''frappe.client.submit'' args]
              \<and> run_remote run = snd submitted
              \<and> run_result run =
                  (case fst submitted of
                     Inl e \<Rightarrow> Inl (ClientRejected e)
                   | Inr result \<Rightarrow> Inr ((''data'', result) # echo))))"

text \<open>
  The invariant of claim C1 on the calls of a run: whatever \<^verbatim>\<open>callMethod\<close> call occurs is
  the second of exactly two calls, it calls \<^verbatim>\<open>frappe.client.submit\<close>, the first call is the
  fetch of (\<open>dt\<close>, \<open>nm\<close>), that fetch returned a record, and the submitted document is that
  record with the doctype \<open>dt\<close>.
\<close>

definition submit_only_after_fetch ::
  "('r, 'e) Client \<Rightarrow> 'r \<Rightarrow> jsval \<Rightarrow> jsval \<Rightarrow> client_call list \<Rightarrow> bool" where
  "submit_only_after_fetch client r0 dt nm calls =
     (\<forall>m args. CallMethodCall m args \<in> set calls \<longrightarrow>
        (\<exists>doc r1. client_get client dt nm r0 = (Inr doc, r1)
           \<and> m = ''frappe.client.submit''
           \<and> args = [(''doc'', JObj (set_prop ''doctype'' dt doc))]
           \<and> calls = [GetCall dt nm, CallMethodCall m args]))"

section \<open>The prototype that all plain objects share\<close>

text \<open>The exceptions of the language itself that the handlers can run into.\<close>

datatype js_error = TypeError | RangeError

text \<open>
  The handlers keep their tables in plain objects (\<^verbatim>\<open>const grouped = {}\<close>). Reading a key
  that is not an own property of such an object gives what the object inherits from
  \<^verbatim>\<open>Object.prototype\<close>, and there is one \<^verbatim>\<open>Object.prototype\<close> for the whole process. It has
  built-in properties, listed here (functions, and the accessor \<^verbatim>\<open>__proto__\<close>, which reads
  as \<^verbatim>\<open>Object.prototype\<close> itself and ignores an assigned Number or string).
\<close>

definition object_prototype_keys :: "string list" where
  "object_prototype_keys =
     [''constructor'', ''__defineGetter__'', ''__defineSetter__'', ''hasOwnProperty'',
      ''__lookupGetter__'', ''__lookupSetter__'', ''isPrototypeOf'',
      ''propertyIsEnumerable'', ''toString'', ''valueOf'', ''__proto__'',
      ''toLocaleString'']"

text \<open>
  A cell of a table filled by sums. It is a Number, or a text: a sum with a function, an
  object or a text operand is a string concatenation, and its result is a non-empty string.
\<close>

datatype jscell = Num jsnum | Text

text \<open>
  \<^verbatim>\<open>cell + v\<close> for a Number \<open>v\<close>, \<^verbatim>\<open>a + b\<close> for two cells, the Number a cell converts to, and
  a cell's truthiness.
\<close>

fun cell_plus :: "jscell \<Rightarrow> jsnum \<Rightarrow> jscell" where
  "cell_plus (Num a) v = Num (js_add a v)"
| "cell_plus Text v = Text"

fun cell_add :: "jscell \<Rightarrow> jscell \<Rightarrow> jscell" where
  "cell_add (Num a) (Num b) = Num (js_add a b)"
| "cell_add _ _ = Text"

fun cell_number :: "jscell \<Rightarrow> jsnum" where
  "cell_number (Num a) = a"
| "cell_number Text = NaN"

fun cell_truthy :: "jscell \<Rightarrow> bool" where
  "cell_truthy (Num a) = (a \<noteq> Fin 0 \<and> a \<noteq> NaN)"
| "cell_truthy Text = True"

text \<open>
  The handlers themselves can write to \<^verbatim>\<open>Object.prototype\<close>: for the key \<^verbatim>\<open>__proto__\<close>,
  \<^verbatim>\<open>tbl[key]\<close> is \<^verbatim>\<open>Object.prototype\<close>, and \<^verbatim>\<open>tbl[key][k] = ...\<close> stores a sum there, where it
  stays for every later read in the process. The state of \<^verbatim>\<open>Object.prototype\<close> is therefore
  an argument of every handler modelled with it: \<open>proto\<close> lists the properties that such
  writes have put there so far (Numbers and texts, the last write of a name replacing
  what the name held, built-in or not). A process in which no such write has happened
  has the empty list. The built-in functions themselves are taken to be as the language
  defines them.
\<close>

type_synonym prototype = "(string \<times> jscell) list"

text \<open>
  What \<^verbatim>\<open>tbl[k]\<close> reads for a key \<open>k\<close> that is not an own property of the plain object
  \<^verbatim>\<open>tbl\<close>: nothing (\<^verbatim>\<open>undefined\<close>), a cell written to the prototype, a built-in function, or
  \<^verbatim>\<open>Object.prototype\<close> itself.
\<close>

datatype inherited = Nothing | Cell jscell | BuiltIn | ThePrototype

definition inherited_at :: "prototype \<Rightarrow> string \<Rightarrow> inherited" where
  "inherited_at proto k =
     (if k = ''__proto__'' then ThePrototype
      else (case map_of proto k of
              Some c \<Rightarrow> Cell c
            | None \<Rightarrow> if k \<in> set object_prototype_keys then BuiltIn else Nothing))"

text \<open>Whether \<^verbatim>\<open>!tbl[k]\<close> is false for a key that is not an own property.\<close>

definition inherited_truthy :: "prototype \<Rightarrow> string \<Rightarrow> bool" where
  "inherited_truthy proto k =
     (case inherited_at proto k of
        Nothing \<Rightarrow> False
      | Cell c \<Rightarrow> cell_truthy c
      | BuiltIn \<Rightarrow> True
      | ThePrototype \<Rightarrow> True)"

text \<open>
  Whether \<^verbatim>\<open>tbl[k]?.length > 0\<close> holds for a key \<open>k\<close> that is not an own property and is
  not a built-in name: an inherited text has a positive length of its own; an inherited
  Number has the length that \<^verbatim>\<open>Object.prototype\<close> holds under the name \<^verbatim>\<open>length\<close>, if any.
\<close>

definition inherited_length_positive :: "prototype \<Rightarrow> string \<Rightarrow> bool" where
  "inherited_length_positive proto k =
     (case map_of proto k of
        None \<Rightarrow> False
      | Some Text \<Rightarrow> True
      | Some (Num a) \<Rightarrow>
          (case map_of proto ''length'' of
             Some (Num l) \<Rightarrow> js_less (Fin 0) l
           | _ \<Rightarrow> False))"

section \<open>The kanban pipelines (erpnext\_order\_pipeline, erpnext\_purchase\_pipeline)\<close>

text \<open>\<^verbatim>\<open>a ?? b\<close> where \<open>b\<close> is itself a field.\<close>

fun nullish_else :: "'a field \<Rightarrow> 'a field \<Rightarrow> 'a field" where
  "nullish_else (Value v) b = Value v"
| "nullish_else _ b = b"

text \<open>A Purchase Order as the purchase pipeline fetches it.\<close>

record PurchaseOrder =
  po_name :: "string field"
  po_supplier :: "string field"
  po_supplier_name :: "string field"
  po_status :: "string field"
  po_grand_total :: "jsnum field"
  po_transaction_date :: "string field"
  po_schedule_date :: "string field"

text \<open>One card of a pipeline column, and one column.\<close>

record PipelineCard =
  card_name :: "string field"
  card_customer :: "string field"
  card_amount :: jsnum
  card_date :: "string field"
  card_delivery_date :: "string field"

record PipelineColumn =
  col_status :: string
  col_label :: string
  col_color :: string
  col_count :: nat
  col_total :: jsnum
  col_orders :: "PipelineCard list"

text \<open>
  The grouping loop of both pipelines, for the status selector \<open>status_of\<close>:
  \<^verbatim>\<open>
  const grouped = {};
  for (const order of orders) {
    const status = (order.status as string) ?? "Draft";
    if (!grouped[status]) grouped[status] = [];
    grouped[status].push(order);
  }
  \<close>
  \<open>grouped\<close> holds the own properties. For a status that is not yet an own property and
  reads as a truthy inherited value, no array is stored, \<^verbatim>\<open>grouped[status]\<close> is that
  inherited value, and \<^verbatim>\<open>.push\<close> is not a function on it: the handler throws a TypeError.
\<close>

fun group_by_status ::
  "prototype \<Rightarrow> ('r \<Rightarrow> string field) \<Rightarrow> 'r list \<Rightarrow> (string \<rightharpoonup> 'r list)
     \<Rightarrow> js_error + (string \<rightharpoonup> 'r list)" where
  "group_by_status proto status_of [] grouped = Inr grouped"
| "group_by_status proto status_of (order # orders) grouped =
     (let status = nullish_or (status_of order) ''Draft''
      in case grouped status of
           Some xs \<Rightarrow> group_by_status proto status_of orders (grouped(status \<mapsto> xs @ [order]))
         | None \<Rightarrow>
             (if inherited_truthy proto status then Inl TypeError
              else group_by_status proto status_of orders (grouped(status \<mapsto> [order]))))"

text \<open>
  The columns of both pipelines, for a status map (status, label, colour in source order),
  the amount selector and the card builder:
  \<^verbatim>\<open>
  Object.entries(STATUS_MAP)
    .filter(([status]) => grouped[status]?.length > 0)
    .map(([status, { label, color }]) => {
      const statusOrders = grouped[status] ?? [];
      return { status, label, color, count: statusOrders.length,
               total: statusOrders.reduce((sum, o) => sum + (Number(o.grand_total) || 0), 0),
               orders: statusOrders.map(...) };
    })
  \<close>
  An own property of \<open>grouped\<close> is a non-empty array. A key of the map that is not an own
  property reads as the inherited value: if that has a positive length it passes the
  filter, and \<^verbatim>\<open>.reduce\<close> is not a function on it, a TypeError.
\<close>

definition pipeline_columns ::
  "prototype \<Rightarrow> (string \<times> string \<times> string) list \<Rightarrow> ('r \<Rightarrow> jsnum field)
     \<Rightarrow> ('r \<Rightarrow> PipelineCard) \<Rightarrow> (string \<rightharpoonup> 'r list) \<Rightarrow> js_error + PipelineColumn list" where
  "pipeline_columns proto status_map total_of make_card grouped =
     (if list_ex (\<lambda>(status, label, color).
                    grouped status = None \<and> inherited_length_positive proto status)
                 status_map
      then Inl TypeError
      else Inr (map (\<lambda>(status, label, color).
                       (let statusOrders = (case grouped status of Some xs \<Rightarrow> xs | None \<Rightarrow> [])
                        in \<lparr> col_status = status, col_label = label, col_color = color,
                             col_count = length statusOrders,
                             col_total = sum_field total_of statusOrders,
                             col_orders = map make_card statusOrders \<rparr>))
                    (filter (\<lambda>(status, label, color).
                               (case grouped status of
                                  Some xs \<Rightarrow> 0 < length xs
                                | None \<Rightarrow> False))
                            status_map)))"

text \<open>The two status maps, in the order of their object literals.\<close>

definition SO_STATUS_MAP :: "(string \<times> string \<times> string) list" where
  "SO_STATUS_MAP =
     [(''Draft'', ''Draft'', ''#78716c''),
      (''Open'', ''Open'', ''#fbbf24''),
      (''To Deliver and Bill'', ''To Deliver'', ''#60a5fa''),
      (''To Bill'', ''To Bill'', ''#c084fc''),
      (''Completed'', ''Completed'', ''#4ade80''),
      (''Cancelled'', ''Cancelled'', ''#f87171'')]"

definition PO_STATUS_MAP :: "(string \<times> string \<times> string) list" where
  "PO_STATUS_MAP =
     [(''Draft'', ''Draft'', ''#78716c''),
      (''To Receive and Bill'', ''To Receive'', ''#60a5fa''),
      (''To Receive'', ''To Receive Only'', ''#fbbf24''),
      (''To Bill'', ''To Bill'', ''#c084fc''),
      (''Completed'', ''Completed'', ''#4ade80''),
      (''Cancelled'', ''Cancelled'', ''#f87171'')]"

text \<open>The card of a Sales Order and of a Purchase Order.\<close>

definition so_card :: "SalesOrder \<Rightarrow> PipelineCard" where
  "so_card o' =
     \<lparr> card_name = so_name o',
       card_customer = nullish_else (so_customer_name o') (so_customer o'),
       card_amount = or_zero (Number (so_grand_total o')),
       card_date = so_transaction_date o',
       card_delivery_date = so_delivery_date o' \<rparr>"

definition po_card :: "PurchaseOrder \<Rightarrow> PipelineCard" where
  "po_card o' =
     \<lparr> card_name = po_name o',
       card_customer = nullish_else (po_supplier_name o') (po_supplier o'),
       card_amount = or_zero (Number (po_grand_total o')),
       card_date = po_transaction_date o',
       card_delivery_date = po_schedule_date o' \<rparr>"

text \<open>
  The \<^verbatim>\<open>columns\<close> of the two handlers' results, from the state of \<^verbatim>\<open>Object.prototype\<close> and
  the fetched orders, or the error thrown on the way. Title, currency and timestamp of the
  result are not modelled; the arguments only shape the query.
\<close>

definition erpnext_order_pipeline ::
  "prototype \<Rightarrow> SalesOrder list \<Rightarrow> js_error + PipelineColumn list" where
  "erpnext_order_pipeline proto orders =
     (case group_by_status proto so_status orders Map.empty of
        Inl e \<Rightarrow> Inl e
      | Inr grouped \<Rightarrow> pipeline_columns proto SO_STATUS_MAP so_grand_total so_card grouped)"

definition erpnext_purchase_pipeline ::
  "prototype \<Rightarrow> PurchaseOrder list \<Rightarrow> js_error + PipelineColumn list" where
  "erpnext_purchase_pipeline proto orders =
     (case group_by_status proto po_status orders Map.empty of
        Inl e \<Rightarrow> Inl e
      | Inr grouped \<Rightarrow> pipeline_columns proto PO_STATUS_MAP po_grand_total po_card grouped)"

text \<open>
  Vocabulary for the claims: the status a record is grouped under, whether a status map
  has that status as a key, and whether a record counts as a draft (no status, a null
  status, or the status \<^verbatim>\<open>Draft\<close>).
\<close>

definition grouping_status :: "string field \<Rightarrow> string" where
  "grouping_status s = nullish_or s ''Draft''"

definition mapped_status :: "(string \<times> string \<times> string) list \<Rightarrow> string field \<Rightarrow> bool" where
  "mapped_status status_map s = (grouping_status s \<in> fst ` set status_map)"

definition counts_as_draft :: "string field \<Rightarrow> bool" where
  "counts_as_draft s = (s = Undefined \<or> s = Null \<or> s = Value ''Draft'')"

text \<open>
  When a pipeline returns columns at all, for the statuses of the fetched records: no
  status reads as a truthy inherited value, and every key of the status map either is the
  status of a record or does not read as an inherited value of positive length.
\<close>

definition pipeline_runs ::
  "prototype \<Rightarrow> (string \<times> string \<times> string) list \<Rightarrow> string field list \<Rightarrow> bool" where
  "pipeline_runs proto status_map statuses =
     (list_all (\<lambda>s. \<not> inherited_truthy proto (grouping_status s)) statuses
      \<and> list_all (\<lambda>(k, label, color).
                    k \<in> grouping_status ` set statuses \<or> \<not> inherited_length_positive proto k)
                  status_map)"

text \<open>
  The columns in terms of the fetched list alone: one column for each key of the status
  map that is the status of some record, in the order of the map, with the records of
  that status in fetched order.
\<close>

definition columns_of ::
  "(string \<times> string \<times> string) list \<Rightarrow> ('r \<Rightarrow> string field) \<Rightarrow> ('r \<Rightarrow> jsnum field)
     \<Rightarrow> ('r \<Rightarrow> PipelineCard) \<Rightarrow> 'r list \<Rightarrow> PipelineColumn list" where
  "columns_of status_map status_of total_of make_card orders =
     map (\<lambda>(status, label, color).
            \<lparr> col_status = status, col_label = label, col_color = color,
              col_count = length (filter (\<lambda>r. grouping_status (status_of r) = status) orders),
              col_total = sum_field total_of
                            (filter (\<lambda>r. grouping_status (status_of r) = status) orders),
              col_orders = map make_card
                            (filter (\<lambda>r. grouping_status (status_of r) = status) orders) \<rparr>)
         (filter (\<lambda>(status, label, color).
                    filter (\<lambda>r. grouping_status (status_of r) = status) orders \<noteq> [])
                 status_map)"

section \<open>Objects used as tables, sorting and slicing\<close>

text \<open>
  The handlers accumulate into plain objects (\<^verbatim>\<open>const byCustomer = {}\<close>). Such a table is
  the list of its own properties in insertion order; \<open>map_of\<close> reads an own property.
  \<^verbatim>\<open>Object.entries\<close> lists the keys that are array indices first, in ascending numeric
  order, then the other keys in insertion order.
\<close>

definition digit_of :: "char \<Rightarrow> int option" where
  "digit_of c = (let n = (of_char c :: int) in if 48 \<le> n \<and> n \<le> 57 then Some (n - 48) else None)"

text \<open>
  The array index a key denotes, if any: a canonical decimal numeral (no leading zero
  unless it is \<^verbatim>\<open>0\<close> itself) of a value up to \<open>2^32 - 2\<close>.
\<close>

definition array_index :: "string \<Rightarrow> int option" where
  "array_index s =
     (if s = [] \<or> (\<exists>c \<in> set s. digit_of c = None) \<or> (hd s = CHR ''0'' \<and> s \<noteq> ''0'') then None
      else (let n = foldl (\<lambda>n c. 10 * n + the (digit_of c)) 0 s
            in if n \<le> 4294967294 then Some n else None))"

fun insert_by_index :: "int \<times> string \<times> 'v \<Rightarrow> (int \<times> string \<times> 'v) list \<Rightarrow> (int \<times> string \<times> 'v) list" where
  "insert_by_index x [] = [x]"
| "insert_by_index x (y # ys) = (if fst x \<le> fst y then x # y # ys else y # insert_by_index x ys)"

definition Object_entries :: "(string \<times> 'v) list \<Rightarrow> (string \<times> 'v) list" where
  "Object_entries tbl =
     map snd (foldr insert_by_index
                (map (\<lambda>(k, v). (the (array_index k), k, v))
                     (filter (\<lambda>(k, v). array_index k \<noteq> None) tbl)) [])
     @ filter (\<lambda>(k, v). array_index k = None) tbl"

text \<open>
  The property key a string-typed field is coerced to when it indexes a table without a
  default: \<^verbatim>\<open>undefined\<close> and \<^verbatim>\<open>null\<close> become the strings of these names.
\<close>

fun prop_key :: "string field \<Rightarrow> string" where
  "prop_key Undefined = ''undefined''"
| "prop_key Null = ''null''"
| "prop_key (Value s) = s"

text \<open>
  The pattern \<^verbatim>\<open>if (!tbl[k]) tbl[k] = init; ...update tbl[k] in place...\<close>, where the
  stored values are objects or arrays (always truthy), for a handler that starts with the
  built-in properties of \<^verbatim>\<open>Object.prototype\<close> only. For a key that is not an own property
  but names an inherited one, \<^verbatim>\<open>tbl[k]\<close> is the inherited object: nothing is stored, and
  the update writes to that object, outside the table; what it leaves there is not
  followed up.
\<close>

definition upsert :: "string \<Rightarrow> 'v \<Rightarrow> ('v \<Rightarrow> 'v) \<Rightarrow> (string \<times> 'v) list \<Rightarrow> (string \<times> 'v) list" where
  "upsert k init upd tbl =
     (case map_of tbl k of
        Some v \<Rightarrow> set_prop k (upd v) tbl
      | None \<Rightarrow> if k \<in> set object_prototype_keys then tbl else set_prop k (upd init) tbl)"

text \<open>
  The decimal text of an integer, \<^verbatim>\<open>n.toString()\<close>; it is also the property name that
  an integer index denotes.
\<close>

fun digits_of :: "nat \<Rightarrow> nat \<Rightarrow> string" where
  "digits_of 0 n = []"
| "digits_of (Suc fuel) n =
     (if n < 10 then [char_of (48 + n)]
      else digits_of fuel (n div 10) @ [char_of (48 + n mod 10)])"

definition int_to_string :: "int \<Rightarrow> string" where
  "int_to_string i =
     (if i < 0 then CHR ''-'' # digits_of (Suc (nat (- i))) (nat (- i))
      else digits_of (Suc (nat i)) (nat i))"

text \<open>
  \<^verbatim>\<open>Object.prototype[key] += v\<close> for a Number \<open>v\<close> and a key that is an array index or
  \<^verbatim>\<open>NaN\<close> (never a built-in name): a property that is not there reads as \<^verbatim>\<open>undefined\<close>, and
  the sum is NaN.
\<close>

definition prototype_add_assign :: "string \<Rightarrow> jsnum \<Rightarrow> prototype \<Rightarrow> prototype" where
  "prototype_add_assign key v proto =
     set_prop key (case map_of proto key of Some c \<Rightarrow> cell_plus c v | None \<Rightarrow> Num NaN) proto"

text \<open>
  The pattern
  \<^verbatim>\<open>
  if (!tbl[k]) tbl[k] = new Array(n).fill(0);
  tbl[k][key] += v;
  \<close>
  on a table of rows of Numbers, with the state of \<^verbatim>\<open>Object.prototype\<close> threaded through.
  \<open>fresh\<close> is the new row or the error that creating it throws. \<open>target\<close> is \<open>None\<close> when the
  second statement is not executed; otherwise it is the property name \<open>key\<close> written,
  together with the element it denotes when it is an index within the row.

  An own row is updated in place. Otherwise \<^verbatim>\<open>tbl[k]\<close> reads the inherited value. If there
  is none, or it is falsy, the row is created and updated. A truthy Number or text is kept,
  and writing a property of it throws a TypeError (the modules run in strict mode). A
  built-in function is kept and the sum lands on that function, outside the table. For
  \<^verbatim>\<open>__proto__\<close> the sum lands on \<^verbatim>\<open>Object.prototype\<close> itself.
\<close>

definition upsert_add ::
  "string \<Rightarrow> js_error + jsnum list \<Rightarrow> (string \<times> nat option) option \<Rightarrow> jsnum
     \<Rightarrow> (string \<times> jsnum list) list \<times> prototype
     \<Rightarrow> js_error + (string \<times> jsnum list) list \<times> prototype" where
  "upsert_add k fresh target v state =
     (let tbl = fst state;
          proto = snd state;
          add = (\<lambda>row. case target of
                          Some (key, Some i) \<Rightarrow> row[i := js_add (row ! i) v]
                        | _ \<Rightarrow> row);
          create = (case fresh of
                      Inl e \<Rightarrow> Inl e
                    | Inr row \<Rightarrow> Inr (set_prop k (add row) tbl, proto))
      in case map_of tbl k of
           Some row \<Rightarrow> Inr (set_prop k (add row) tbl, proto)
         | None \<Rightarrow>
             (case inherited_at proto k of
                Nothing \<Rightarrow> create
              | Cell c \<Rightarrow>
                  if \<not> cell_truthy c then create
                  else (case target of None \<Rightarrow> Inr state | Some t \<Rightarrow> Inl TypeError)
              | BuiltIn \<Rightarrow> Inr state
              | ThePrototype \<Rightarrow>
                  (case target of
                     None \<Rightarrow> Inr state
                   | Some (key, elem) \<Rightarrow> Inr (tbl, prototype_add_assign key v proto))))"

text \<open>
  \<^verbatim>\<open>for (const x of xs) { ... }\<close> with a body that updates a state and can throw: the loop
  stops at the first error.
\<close>

fun fold_err :: "('a \<Rightarrow> 's \<Rightarrow> js_error + 's) \<Rightarrow> 'a list \<Rightarrow> 's \<Rightarrow> js_error + 's" where
  "fold_err body [] state = Inr state"
| "fold_err body (x # xs) state =
     (case body x state of
        Inl e \<Rightarrow> Inl e
      | Inr state' \<Rightarrow> fold_err body xs state')"

text \<open>
  What a table of rows built by such a loop holds after the records \<open>done\<close>, for rows of
  length \<open>n\<close>, where a record is skipped or has a customer, a target and an amount: the
  keys are distinct and no more than the records; each row belongs to the customer of some
  record, has length \<open>n\<close>, and holds at \<open>i\<close> the sum, in fetched order, of the amounts of
  that customer's records with target \<open>i\<close>; and a record with a target whose customer has
  no row is one whose customer reads as a built-in function or is \<^verbatim>\<open>__proto__\<close>.
\<close>

definition rows_hold ::
  "nat \<Rightarrow> ('x \<Rightarrow> bool) \<Rightarrow> ('x \<Rightarrow> string) \<Rightarrow> ('x \<Rightarrow> (string \<times> nat option) option) \<Rightarrow> ('x \<Rightarrow> jsnum)
     \<Rightarrow> (string \<times> jsnum list) list \<times> prototype \<Rightarrow> 'x list \<Rightarrow> bool" where
  "rows_hold n skip cust target amt state done =
     (distinct (map fst (fst state))
      \<and> length (fst state) \<le> length (filter (\<lambda>x. \<not> skip x) done)
      \<and> (\<forall>k row. (k, row) \<in> set (fst state) \<longrightarrow>
            (\<exists>y \<in> set done. \<not> skip y \<and> cust y = k)
            \<and> length row = n
            \<and> (\<forall>i<n. row ! i
                  = foldl (\<lambda>s x. js_add s (amt x)) (Fin 0)
                      (filter (\<lambda>x. \<not> skip x \<and> cust x = k
                                    \<and> (\<exists>key. target x = Some (key, Some i))) done)))
      \<and> (\<forall>x \<in> set done. \<not> skip x \<and> target x \<noteq> None \<and> cust x \<notin> fst ` set (fst state) \<longrightarrow>
            cust x = ''__proto__'' \<or> inherited_at (snd state) (cust x) = BuiltIn))"

text \<open>
  \<^verbatim>\<open>xs.sort(cmp)\<close>: the sort is stable, and \<open>a\<close> goes after \<open>b\<close> only when \<open>cmp a b > 0\<close> (a
  NaN result counts as 0). This is the stable insertion sort; for a comparator that is not
  a consistent ordering the language leaves the order to the implementation.
\<close>

fun insert_sorted :: "('a \<Rightarrow> 'a \<Rightarrow> jsnum) \<Rightarrow> 'a \<Rightarrow> 'a list \<Rightarrow> 'a list" where
  "insert_sorted cmp x [] = [x]"
| "insert_sorted cmp x (y # ys) =
     (if js_less (Fin 0) (cmp x y) then y # insert_sorted cmp x ys else x # y # ys)"

definition js_sort :: "('a \<Rightarrow> 'a \<Rightarrow> jsnum) \<Rightarrow> 'a list \<Rightarrow> 'a list" where
  "js_sort cmp xs = foldr (insert_sorted cmp) xs []"

text \<open>
  \<^verbatim>\<open>xs.slice(0, end)\<close> for a Number \<open>end\<close>: NaN counts as 0, a fraction is truncated towards
  zero, a negative end counts from the end of the array.
\<close>

fun slice0 :: "jsnum \<Rightarrow> 'a list \<Rightarrow> 'a list" where
  "slice0 NaN xs = []"
| "slice0 PInf xs = xs"
| "slice0 NInf xs = []"
| "slice0 (Fin r) xs =
     (let e = (if 0 \<le> r then \<lfloor>r\<rfloor> else \<lceil>r\<rceil>)
      in if e < 0 then take (nat (int (length xs) + e)) xs else take (nat e) xs)"

text \<open>\<^verbatim>\<open>input.limit ?? d\<close> and \<^verbatim>\<open>input.type ?? d\<close> use \<open>nullish_or\<close> on the input's field.\<close>

section \<open>Chart payloads\<close>

text \<open>
  A chart payload, reduced to what the claims speak of: title, chart type, the category
  labels and the datasets, each dataset with its label and its values. Colours, stack
  groups, axis assignments and the tree and scatter side channels are left out. The type
  of a value is a parameter: most handlers emit Numbers.
\<close>

record 'v Dataset =
  ds_label :: string
  ds_values :: "'v list"

record 'v ChartPayload =
  chart_title :: string
  chart_type :: string
  labels :: "string list"
  datasets :: "'v Dataset list"

text \<open>The invariant of claim C8: every dataset has as many values as there are labels.\<close>

definition aligned :: "'v ChartPayload \<Rightarrow> bool" where
  "aligned c = list_all (\<lambda>d. length (ds_values d) = length (labels c)) (datasets c)"

section \<open>Accounts receivable aging (erpnext\_ar\_aging)\<close>

text \<open>A Sales Invoice as the analytics handlers fetch it.\<close>

record SalesInvoice =
  si_name :: "string field"
  si_customer :: "string field"
  si_customer_name :: "string field"
  si_status :: "string field"
  si_grand_total :: "jsnum field"
  si_outstanding_amount :: "jsnum field"
  si_due_date :: "string field"
  si_posting_date :: "string field"

text \<open>\<^verbatim>\<open>BUCKETS\<close>: label, lower and upper bound in days (colours left out).\<close>

definition BUCKETS :: "(string \<times> jsnum \<times> jsnum) list" where
  "BUCKETS =
     [(''0-30 days'', Fin 0, Fin 30),
      (''31-60 days'', Fin 31, Fin 60),
      (''61-90 days'', Fin 61, Fin 90),
      (''90+ days'', Fin 91, Fin 99999)]"

text \<open>
  \<^verbatim>\<open>const dateStr = (inv.due_date as string) ?? (inv.posting_date as string)\<close>: the date
  the aging refers to.
\<close>

definition reference_date :: "SalesInvoice \<Rightarrow> string field" where
  "reference_date invoice = nullish_else (si_due_date invoice) (si_posting_date invoice)"

text \<open>
  \<^verbatim>\<open>
  const dueDate = dateStr ? new Date(dateStr) : today;
  const agingDays = Math.max(0, Math.floor((today.getTime() - dueDate.getTime()) / 86400000));
  \<close>
  \<open>date_time\<close> is \<^verbatim>\<open>new Date(s).getTime()\<close>, the time value in milliseconds the string parses
  to or NaN for an invalid date; \<open>today\<close> is \<^verbatim>\<open>today.getTime()\<close>. An empty, null or absent
  date string is falsy and gives today.
\<close>

definition aging_days :: "(string \<Rightarrow> jsnum) \<Rightarrow> jsnum \<Rightarrow> SalesInvoice \<Rightarrow> jsnum" where
  "aging_days date_time today invoice =
     (let dueDate = (case reference_date invoice of
                       Value s \<Rightarrow> if s \<noteq> [] then date_time s else today
                     | _ \<Rightarrow> today)
      in Math_max (Fin 0) (Math_floor (js_div (js_sub today dueDate) (Fin 86400000))))"

text \<open>\<^verbatim>\<open>BUCKETS.findIndex((b) => agingDays >= b.min && agingDays <= b.max)\<close>; \<open>None\<close> is \<open>-1\<close>.\<close>

fun find_bucket :: "jsnum \<Rightarrow> (string \<times> jsnum \<times> jsnum) list \<Rightarrow> nat option" where
  "find_bucket agingDays [] = None"
| "find_bucket agingDays ((label, lo, hi) # bs) =
     (if js_le lo agingDays \<and> js_le agingDays hi then Some 0
      else map_option Suc (find_bucket agingDays bs))"

text \<open>
  The loop body: the customer's row of four sums is created if need be, and the
  outstanding amount is added to the bucket found, if one is found:
  \<^verbatim>\<open>
  if (!byCustomer[customer]) byCustomer[customer] = new Array(BUCKETS.length).fill(0);
  const bucketIdx = BUCKETS.findIndex(...);
  if (bucketIdx >= 0) byCustomer[customer][bucketIdx] += Number(inv.outstanding_amount) || 0;
  \<close>
  The state is the table with the state of \<^verbatim>\<open>Object.prototype\<close>.
\<close>

definition add_invoice ::
  "(string \<Rightarrow> jsnum) \<Rightarrow> jsnum \<Rightarrow> SalesInvoice \<Rightarrow> (string \<times> jsnum list) list \<times> prototype
     \<Rightarrow> js_error + (string \<times> jsnum list) list \<times> prototype" where
  "add_invoice date_time today invoice state =
     (let customer = nullish_or (si_customer_name invoice) ''Unknown'';
          agingDays = aging_days date_time today invoice;
          bucketIdx = find_bucket agingDays BUCKETS
      in upsert_add customer (Inr (replicate (length BUCKETS) (Fin 0)))
           (map_option (\<lambda>i. (int_to_string (int i), Some i)) bucketIdx)
           (or_zero (Number (si_outstanding_amount invoice)))
           state)"

text \<open>
  The handler's payload from the state of \<^verbatim>\<open>Object.prototype\<close> and the fetched invoices, or
  the error thrown in the loop: rows sorted by total, the top \<open>limit\<close> kept. The treemap
  variant carries its data in the tree side channel and has neither labels nor datasets.
\<close>

definition erpnext_ar_aging ::
  "prototype \<Rightarrow> (string \<Rightarrow> jsnum) \<Rightarrow> jsnum \<Rightarrow> jsnum field \<Rightarrow> string field \<Rightarrow> SalesInvoice list
     \<Rightarrow> js_error + jsnum ChartPayload" where
  "erpnext_ar_aging proto date_time today input_limit input_type invoices =
     (let limit = nullish_or input_limit (Fin 10);
          chartType = nullish_or input_type ''stacked-bar''
      in case fold_err (add_invoice date_time today) invoices ([], proto) of
           Inl e \<Rightarrow> Inl e
         | Inr (byCustomer, proto') \<Rightarrow>
             (let sorted =
                    slice0 limit
                      (js_sort (\<lambda>a b. js_sub (snd (snd b)) (snd (snd a)))
                         (map (\<lambda>(name, buckets). (name, buckets, foldl js_add (Fin 0) buckets))
                              (Object_entries byCustomer)))
              in if chartType = ''treemap''
                 then Inr \<lparr> chart_title = ''Accounts Receivable by Customer'',
                            chart_type = ''treemap'', labels = [], datasets = [] \<rparr>
                 else Inr \<lparr> chart_title = ''Accounts Receivable Aging'', chart_type = chartType,
                            labels = map fst sorted,
                            datasets =
                              map (\<lambda>bi. \<lparr> ds_label = fst (BUCKETS ! bi),
                                         ds_values = map (\<lambda>(name, buckets, total). buckets ! bi)
                                                         sorted \<rparr>)
                                  [0 ..< length BUCKETS] \<rparr>))"

section \<open>Calendar months\<close>

text \<open>
  \<^verbatim>\<open>new Date(year, monthIndex, 1)\<close> as the local calendar year and month index it denotes:
  a year from 0 to 99 means 1900 + year, and a month index outside 0 to 11 carries into
  the year.
\<close>

definition Date_ym :: "int \<Rightarrow> int \<Rightarrow> int \<times> int" where
  "Date_ym year monthIndex =
     (let y = (if 0 \<le> year \<and> year \<le> 99 then 1900 + year else year)
      in (y + monthIndex div 12, monthIndex mod 12))"

text \<open>
  Whether the first day of a month is a valid Date: time values reach from 20 April
  -271821 to 13 September 275760. \<^verbatim>\<open>toISOString\<close> throws a RangeError on an invalid Date.
\<close>

definition valid_date :: "int \<times> int \<Rightarrow> bool" where
  "valid_date d =
     ((- 271821 < fst d \<or> (fst d = - 271821 \<and> 4 \<le> snd d))
      \<and> (fst d < 275760 \<or> (fst d = 275760 \<and> snd d \<le> 8)))"

text \<open>
  A month label,
  \<^verbatim>\<open>`${d.toLocaleString("en", { month: "short" })} ${d.getFullYear().toString().slice(2)}`\<close>.
\<close>

definition month_short :: "int \<Rightarrow> string" where
  "month_short m =
     [''Jan'', ''Feb'', ''Mar'', ''Apr'', ''May'', ''Jun'',
      ''Jul'', ''Aug'', ''Sep'', ''Oct'', ''Nov'', ''Dec''] ! nat m"

definition month_label :: "int \<times> int \<Rightarrow> string" where
  "month_label d =
     (if valid_date d then month_short (snd d) @ '' '' @ drop 2 (int_to_string (fst d))
      else ''Invalid Date N'')"

text \<open>
  The labels loop shared by the revenue trend and the profit and loss chart:
  \<^verbatim>\<open>
  for (let m = 0; m < monthsBack; m++) {
    const d = new Date(now.getFullYear(), now.getMonth() - monthsBack + 1 + m, 1);
    months.push(...);
  }
  \<close>
  \<open>now\<close> is the pair of \<^verbatim>\<open>now.getFullYear()\<close> and \<^verbatim>\<open>now.getMonth()\<close>; \<open>monthsBack\<close> is an
  integer (a fractional \<^verbatim>\<open>months\<close> argument is outside the model).
\<close>

definition month_labels :: "int \<times> int \<Rightarrow> int \<Rightarrow> string list" where
  "month_labels now monthsBack =
     map (\<lambda>m. month_label (Date_ym (fst now) (snd now - monthsBack + 1 + int m)))
         [0 ..< nat monthsBack]"

text \<open>
  The month index of a record in the window,
  \<^verbatim>\<open>(d.getFullYear() - startDate.getFullYear()) * 12 + d.getMonth() - startDate.getMonth()\<close>,
  where \<open>d\<close> is the local year and month of the record's date, or \<open>None\<close> when the date is
  invalid and the index is NaN.
\<close>

definition month_index :: "int \<times> int \<Rightarrow> (int \<times> int) option \<Rightarrow> int option" where
  "month_index startDate d =
     map_option (\<lambda>(y, m). (y - fst startDate) * 12 + m - snd startDate) d"

text \<open>
  \<^verbatim>\<open>new Array(n).fill(0)\<close>: a RangeError unless \<open>n\<close> is an array length.
\<close>

definition zero_array :: "int \<Rightarrow> js_error + jsnum list" where
  "zero_array n = (if n < 0 \<or> 4294967296 \<le> n then Inl RangeError
                   else Inr (replicate (nat n) (Fin 0)))"

text \<open>
  \<^verbatim>\<open>if (mIdx >= 0 && mIdx < monthsBack) totals[mIdx] += Number(x) || 0\<close>, the monthly
  accumulation of the single-series charts.
\<close>

definition add_to_month :: "int \<Rightarrow> int option \<Rightarrow> jsnum field \<Rightarrow> jsnum list \<Rightarrow> jsnum list" where
  "add_to_month monthsBack mIdx amount totals =
     (case mIdx of
        Some i \<Rightarrow>
          (if 0 \<le> i \<and> i < monthsBack
           then totals[nat i := js_add (totals ! nat i) (or_zero (Number amount))]
           else totals)
      | None \<Rightarrow> totals)"

section \<open>Revenue trend (erpnext\_revenue\_trend)\<close>

text \<open>
  The loop body of the per-customer variant:
  \<^verbatim>\<open>
  if (mIdx < 0 || mIdx >= monthsBack) continue;
  const cust = (order.customer_name as string) ?? "Unknown";
  if (!byCustomerMonth[cust]) byCustomerMonth[cust] = new Array(monthsBack).fill(0);
  byCustomerMonth[cust][mIdx] += Number(order.grand_total) || 0;
  \<close>
  A record outside the window is skipped (an invalid date is not: both comparisons with
  NaN are false). The customer's row is created on first use, which throws if
  \<open>monthsBack\<close> is not an array length. Adding at a NaN index sets a property named
  \<^verbatim>\<open>NaN\<close> and leaves the elements alone; an index at or beyond the length cannot occur
  here. The state is the table with the state of \<^verbatim>\<open>Object.prototype\<close>.
\<close>

definition add_customer_month ::
  "int \<Rightarrow> int \<times> int \<Rightarrow> (string field \<Rightarrow> (int \<times> int) option) \<Rightarrow> SalesOrder
     \<Rightarrow> (string \<times> jsnum list) list \<times> prototype
     \<Rightarrow> js_error + (string \<times> jsnum list) list \<times> prototype" where
  "add_customer_month monthsBack startDate date_month order' state =
     (let mIdx = month_index startDate (date_month (so_transaction_date order'));
          skip = (case mIdx of Some i \<Rightarrow> i < 0 \<or> monthsBack \<le> i | None \<Rightarrow> False);
          cust = nullish_or (so_customer_name order') ''Unknown''
      in if skip then Inr state
         else upsert_add cust (zero_array monthsBack)
                (Some (case mIdx of
                         Some i \<Rightarrow> (int_to_string i, Some (nat i))
                       | None \<Rightarrow> (''NaN'', None)))
                (or_zero (Number (so_grand_total order')))
                state)"

text \<open>
  The handler's payload, or the error it throws. \<open>proto\<close> is the state of
  \<^verbatim>\<open>Object.prototype\<close>; \<open>date_month\<close> gives the local year and month index of
  \<^verbatim>\<open>new Date(order.transaction_date)\<close>, \<open>None\<close> for an invalid date; \<open>now\<close> is the current
  local year and month index.
\<close>

definition erpnext_revenue_trend ::
  "prototype \<Rightarrow> (string field \<Rightarrow> (int \<times> int) option) \<Rightarrow> int \<times> int \<Rightarrow> int field
     \<Rightarrow> string field \<Rightarrow> string field \<Rightarrow> SalesOrder list \<Rightarrow> js_error + jsnum ChartPayload" where
  "erpnext_revenue_trend proto date_month now input_months input_type input_group_by orders =
     (let monthsBack = nullish_or input_months 6;
          chartType = nullish_or input_type ''line'';
          groupBy = nullish_or input_group_by ''total'';
          startDate = Date_ym (fst now) (snd now - monthsBack + 1)
      in if \<not> valid_date startDate then Inl RangeError
         else
           (let months = month_labels now monthsBack
            in if groupBy = ''customer''
               then (case fold_err (add_customer_month monthsBack startDate date_month)
                            orders ([], proto) of
                       Inl e \<Rightarrow> Inl e
                     | Inr (byCustomerMonth, proto') \<Rightarrow>
                         (let sorted =
                                slice0 (Fin 5)
                                  (js_sort (\<lambda>a b. js_sub (foldl js_add (Fin 0) (snd b))
                                                          (foldl js_add (Fin 0) (snd a)))
                                     (Object_entries byCustomerMonth))
                          in Inr \<lparr> chart_title = ''Revenue by Customer'',
                                   chart_type = chartType, labels = months,
                                   datasets = map (\<lambda>(name, values).
                                                     \<lparr> ds_label = name, ds_values = values \<rparr>)
                                                  sorted \<rparr>))
               else (case zero_array monthsBack of
                       Inl e \<Rightarrow> Inl e
                     | Inr zeros \<Rightarrow>
                         (let monthlyTotals =
                                foldl (\<lambda>totals order'.
                                         add_to_month monthsBack
                                           (month_index startDate
                                              (date_month (so_transaction_date order')))
                                           (so_grand_total order') totals)
                                      zeros orders
                          in Inr \<lparr> chart_title = ''Revenue Trend'', chart_type = chartType,
                                   labels = months,
                                   datasets = [\<lparr> ds_label = ''Revenue'',
                                                 ds_values = monthlyTotals \<rparr>] \<rparr>))))"

section \<open>More fetched records and table patterns\<close>

text \<open>Stock bins, invoice and order lines, and item prices, as the handlers fetch them.\<close>

record Bin =
  bin_item_code :: "string field"
  bin_warehouse :: "string field"
  bin_actual_qty :: "jsnum field"
  bin_stock_value :: "jsnum field"
  bin_valuation_rate :: "jsnum field"

record SalesInvoiceItem =
  sii_parent :: "string field"
  sii_item_code :: "string field"
  sii_item_name :: "string field"
  sii_amount :: "jsnum field"
  sii_qty :: "jsnum field"

record SalesOrderItem =
  soi_item_code :: "string field"
  soi_qty :: "jsnum field"
  soi_amount :: "jsnum field"

record ItemPrice =
  ip_item_code :: "string field"
  ip_price_list_rate :: "jsnum field"

text \<open>
  \<^verbatim>\<open>tbl[k] = (tbl[k] ?? 0) + v\<close>. Assigning a string to \<^verbatim>\<open>__proto__\<close> does nothing; any other
  inherited name becomes an own property holding a text.
\<close>

definition accumulate :: "string \<Rightarrow> jsnum \<Rightarrow> (string \<times> jscell) list \<Rightarrow> (string \<times> jscell) list" where
  "accumulate k v tbl =
     (case map_of tbl k of
        Some c \<Rightarrow> set_prop k (cell_plus c v) tbl
      | None \<Rightarrow>
          if k = ''__proto__'' then tbl
          else if k \<in> set object_prototype_keys then set_prop k Text tbl
          else set_prop k (Num (js_add (Fin 0) v)) tbl)"

section \<open>Stock levels (erpnext\_stock\_chart)\<close>

definition erpnext_stock_chart ::
  "jsnum field \<Rightarrow> string field \<Rightarrow> Bin list \<Rightarrow> jsnum ChartPayload" where
  "erpnext_stock_chart input_limit input_type bins =
     (let limit = nullish_or input_limit (Fin 20);
          byItem = foldl (\<lambda>tbl bin.
                            upsert (prop_key (bin_item_code bin)) (Fin 0, Fin 0)
                              (\<lambda>(qty, value).
                                 (js_add qty (or_zero (Number (bin_actual_qty bin))),
                                  js_add value (or_zero (Number (bin_stock_value bin)))))
                              tbl)
                         [] bins;
          sorted = slice0 limit
                     (js_sort (\<lambda>a b. js_sub (fst (snd b)) (fst (snd a)))
                              (Object_entries byItem));
          chartType = nullish_or input_type
                        (if 6 < length sorted then ''horizontal-bar'' else ''bar'')
      in \<lparr> chart_title = ''Stock Levels'', chart_type = chartType,
           labels = map fst sorted,
           datasets = [\<lparr> ds_label = ''Qty on Hand'',
                         ds_values = map (\<lambda>(item, qty, value). qty) sorted \<rparr>] \<rparr>)"

section \<open>Sales by status, item or customer (erpnext\_sales\_chart)\<close>

text \<open>
  Each branch runs its own query; the three fetched lists are arguments, and a branch
  reads only its own.
\<close>

definition erpnext_sales_chart ::
  "jsnum field \<Rightarrow> string field \<Rightarrow> SalesInvoice list \<Rightarrow> SalesInvoiceItem list
     \<Rightarrow> SalesInvoice list \<Rightarrow> jscell ChartPayload" where
  "erpnext_sales_chart input_limit input_group_by status_invoices items invoices =
     (let limit = nullish_or input_limit (Fin 10);
          groupBy = nullish_or input_group_by ''customer''
      in if groupBy = ''status''
         then (let byStatus =
                     foldl (\<lambda>tbl invoice.
                              accumulate (nullish_or (si_status invoice) ''Unknown'')
                                (or_zero (Number (si_grand_total invoice))) tbl)
                           [] status_invoices;
                   sorted = js_sort (\<lambda>a b. js_sub (cell_number (snd b)) (cell_number (snd a)))
                                    (Object_entries byStatus)
               in \<lparr> chart_title = ''Invoice Revenue by Status'', chart_type = ''donut'',
                    labels = map fst sorted,
                    datasets = [\<lparr> ds_label = ''Revenue'', ds_values = map snd sorted \<rparr>] \<rparr>)
         else if groupBy = ''item''
         then (let byItem =
                     foldl (\<lambda>tbl row.
                              (let code = nullish_or (sii_item_code row) ''Unknown''
                               in upsert code (nullish_or (sii_item_name row) code, Fin 0)
                                    (\<lambda>(name, total).
                                       (name, js_add total (or_zero (Number (sii_amount row)))))
                                    tbl))
                           [] items;
                   sorted = slice0 limit
                              (js_sort (\<lambda>a b. js_sub (snd (snd b)) (snd (snd a)))
                                       (Object_entries byItem))
               in \<lparr> chart_title = ''Top Items by Revenue'', chart_type = ''horizontal-bar'',
                    labels = map (\<lambda>(code, name, total). name) sorted,
                    datasets = [\<lparr> ds_label = ''Revenue'',
                                  ds_values = map (\<lambda>(code, name, total). Num total) sorted \<rparr>] \<rparr>)
         else (let byCustomer =
                     foldl (\<lambda>tbl invoice.
                              (let code = nullish_or (si_customer invoice) ''Unknown''
                               in upsert code (nullish_or (si_customer_name invoice) code, Fin 0)
                                    (\<lambda>(name, total).
                                       (name, js_add total
                                                (or_zero (Number (si_grand_total invoice)))))
                                    tbl))
                           [] invoices;
                   sorted = slice0 limit
                              (js_sort (\<lambda>a b. js_sub (snd (snd b)) (snd (snd a)))
                                       (Object_entries byCustomer))
               in \<lparr> chart_title = ''Top Customers by Revenue'',
                    chart_type = ''horizontal-bar'',
                    labels = map (\<lambda>(code, name, total). name) sorted,
                    datasets = [\<lparr> ds_label = ''Revenue'',
                                  ds_values = map (\<lambda>(code, name, total). Num total) sorted \<rparr>] \<rparr>))"

section \<open>Order breakdown (erpnext\_order\_breakdown)\<close>

text \<open>
  This handler is modelled with the state of \<^verbatim>\<open>Object.prototype\<close>, which it reads and, for a
  customer named \<^verbatim>\<open>__proto__\<close>, writes. It can also write properties of a built-in function
  (for a customer named like one): \<open>written\<close> lists these writes of the current run as pairs
  of the function's name and the property. A function that has been given a text or a
  Number as its \<^verbatim>\<open>toString\<close> can no longer be converted to a string: adding to it throws a
  TypeError. So does adding to \<^verbatim>\<open>Object.prototype\<close> itself once its \<^verbatim>\<open>toString\<close> is a
  text or a Number.
\<close>

definition STATUS_ORDER :: "string list" where
  "STATUS_ORDER = [''Draft'', ''To Deliver and Bill'', ''To Bill'', ''Completed'', ''Cancelled'']"

text \<open>
  \<^verbatim>\<open>tbl[k] = (tbl[k] ?? 0) + v\<close> on a plain object \<^verbatim>\<open>tbl\<close> of cells. A key that is not an own
  property reads the inherited value: a cell takes part in the sum, a built-in function
  makes the sum a text. Assigning a text to \<^verbatim>\<open>__proto__\<close> does nothing.
\<close>

definition accumulate_in ::
  "prototype \<Rightarrow> (string \<times> string) list \<Rightarrow> string \<Rightarrow> jsnum \<Rightarrow> (string \<times> jscell) list
     \<Rightarrow> js_error + (string \<times> jscell) list" where
  "accumulate_in proto written k v tbl =
     (if k = ''__proto__''
      then (if map_of proto ''toString'' = None then Inr tbl else Inl TypeError)
      else (case map_of tbl k of
              Some c \<Rightarrow> Inr (set_prop k (cell_plus c v) tbl)
            | None \<Rightarrow>
                (case inherited_at proto k of
                   Nothing \<Rightarrow> Inr (set_prop k (Num (js_add (Fin 0) v)) tbl)
                 | Cell c \<Rightarrow> Inr (set_prop k (cell_plus c v) tbl)
                 | BuiltIn \<Rightarrow>
                     if (k, ''toString'') \<in> set written then Inl TypeError
                     else Inr (set_prop k Text tbl)
                 | ThePrototype \<Rightarrow> Inr tbl)))"

text \<open>
  \<^verbatim>\<open>Object.prototype[s] = (Object.prototype[s] ?? 0) + v\<close>, what the loop body of the stacked
  variant does for a customer named \<^verbatim>\<open>__proto__\<close>. \<^verbatim>\<open>Object.prototype.__proto__\<close> is null and
  ignores the Number assigned to it.
\<close>

definition prototype_accumulate ::
  "(string \<times> string) list \<Rightarrow> string \<Rightarrow> jsnum \<Rightarrow> prototype \<Rightarrow> js_error + prototype" where
  "prototype_accumulate written s v proto =
     (if s = ''__proto__'' then Inr proto
      else (case map_of proto s of
              Some c \<Rightarrow> Inr (set_prop s (cell_plus c v) proto)
            | None \<Rightarrow>
                if s \<in> set object_prototype_keys
                then (if (s, ''toString'') \<in> set written then Inl TypeError
                      else Inr (set_prop s Text proto))
                else Inr (set_prop s (Num (js_add (Fin 0) v)) proto)))"

text \<open>
  \<^verbatim>\<open>f[s] = (f[s] ?? 0) + v\<close> where \<^verbatim>\<open>f\<close> is the built-in function that \<^verbatim>\<open>Object.prototype\<close> holds
  under the name \<open>c\<close> (\<^verbatim>\<open>Object\<close> for \<^verbatim>\<open>constructor\<close>). Reading \<^verbatim>\<open>caller\<close> or \<^verbatim>\<open>arguments\<close> of a
  built-in function throws. The value read is itself one of these built-in functions when
  \<open>s\<close> names one that is neither shadowed by \<^verbatim>\<open>Function.prototype\<close> (\<^verbatim>\<open>constructor\<close>,
  \<^verbatim>\<open>toString\<close>) nor written before. \<^verbatim>\<open>length\<close> and \<^verbatim>\<open>name\<close> of a function, and \<^verbatim>\<open>prototype\<close>
  of \<^verbatim>\<open>Object\<close>, are read-only: assigning throws in strict mode. The result is the new list
  of writes.
\<close>

definition write_on_builtin ::
  "prototype \<Rightarrow> (string \<times> string) list \<Rightarrow> string \<Rightarrow> string \<Rightarrow> js_error + (string \<times> string) list" where
  "write_on_builtin proto written c s =
     (if s = ''caller'' \<or> s = ''arguments'' then Inl TypeError
      else if (c, s) \<notin> set written \<and> inherited_at proto s = BuiltIn
              \<and> s \<noteq> ''constructor'' \<and> s \<noteq> ''toString''
              \<and> (s, ''toString'') \<in> set written
      then Inl TypeError
      else if s = ''length'' \<or> s = ''name'' \<or> (c = ''constructor'' \<and> s = ''prototype'')
      then Inl TypeError
      else if s = ''__proto__'' \<or> (c, s) \<in> set written then Inr written
      else Inr (written @ [(c, s)]))"

text \<open>The state of the stacked variant's loop.\<close>

record BreakdownState =
  bd_rows :: "(string \<times> (string \<times> jscell) list) list"
  bd_proto :: prototype
  bd_written :: "(string \<times> string) list"

text \<open>
  The loop body of the stacked variant:
  \<^verbatim>\<open>
  const c = (o.customer_name as string) ?? "Unknown";
  const s = (o.status as string) ?? "Draft";
  if (!byCustomerStatus[c]) byCustomerStatus[c] = {};
  byCustomerStatus[c][s] = (byCustomerStatus[c][s] ?? 0) + (Number(o.grand_total) || 0);
  \<close>
  An own inner object is updated. Otherwise \<^verbatim>\<open>byCustomerStatus[c]\<close> reads the inherited
  value: if there is none, or it is falsy, a new inner object is stored and updated; on a
  truthy Number or text the assignment throws a TypeError; on a built-in function and on
  \<^verbatim>\<open>Object.prototype\<close> the sum is stored on that object.
\<close>

definition add_order_status :: "SalesOrder \<Rightarrow> BreakdownState \<Rightarrow> js_error + BreakdownState" where
  "add_order_status o' state =
     (let c = nullish_or (so_customer_name o') ''Unknown'';
          s = nullish_or (so_status o') ''Draft'';
          v = or_zero (Number (so_grand_total o'));
          store = (\<lambda>inner. case accumulate_in (bd_proto state) (bd_written state) s v inner of
                             Inl e \<Rightarrow> Inl e
                           | Inr inner' \<Rightarrow>
                               Inr (state \<lparr> bd_rows := set_prop c inner' (bd_rows state) \<rparr>))
      in case map_of (bd_rows state) c of
           Some inner \<Rightarrow> store inner
         | None \<Rightarrow>
             (case inherited_at (bd_proto state) c of
                Nothing \<Rightarrow> store []
              | Cell cell \<Rightarrow> if cell_truthy cell then Inl TypeError else store []
              | BuiltIn \<Rightarrow>
                  (case write_on_builtin (bd_proto state) (bd_written state) c s of
                     Inl e \<Rightarrow> Inl e
                   | Inr written \<Rightarrow> Inr (state \<lparr> bd_written := written \<rparr>))
              | ThePrototype \<Rightarrow>
                  (case prototype_accumulate (bd_written state) s v (bd_proto state) of
                     Inl e \<Rightarrow> Inl e
                   | Inr proto \<Rightarrow> Inr (state \<lparr> bd_proto := proto \<rparr>))))"

text \<open>
  \<^verbatim>\<open>tbl[c]?.[s] ?? 0\<close> for an own key \<open>c\<close> and a status \<open>s\<close> of the fixed status order, which
  holds no built-in name: a status that is not an own property of the inner object reads
  what \<^verbatim>\<open>Object.prototype\<close> holds under that name.
\<close>

definition cell_at_in ::
  "prototype \<Rightarrow> (string \<times> (string \<times> jscell) list) list \<Rightarrow> string \<Rightarrow> string \<Rightarrow> jscell" where
  "cell_at_in proto tbl c s =
     (case map_of tbl c of
        Some inner \<Rightarrow>
          (case map_of inner s of
             Some v \<Rightarrow> v
           | None \<Rightarrow> (case map_of proto s of Some v \<Rightarrow> v | None \<Rightarrow> Num (Fin 0)))
      | None \<Rightarrow> Num (Fin 0))"

text \<open>
  The handler's payload from the state of \<^verbatim>\<open>Object.prototype\<close> and the fetched orders, or the
  error it throws. After the loop of the stacked variant, \<^verbatim>\<open>Object.entries\<close> is called, and
  \<^verbatim>\<open>Object.values\<close> once for every row: a run that has overwritten one of them (for a
  customer named \<^verbatim>\<open>constructor\<close>) throws there.
\<close>

definition erpnext_order_breakdown ::
  "prototype \<Rightarrow> string field \<Rightarrow> jsnum field \<Rightarrow> SalesOrder list \<Rightarrow> js_error + jscell ChartPayload" where
  "erpnext_order_breakdown proto input_type input_limit orders =
     (let chartType = nullish_or input_type ''stacked-bar'';
          limit = nullish_or input_limit (Fin 8)
      in if chartType = ''pie'' \<or> chartType = ''donut''
         then (case fold_err (\<lambda>o'. accumulate_in proto []
                                       (nullish_or (so_customer_name o') ''Unknown'')
                                       (or_zero (Number (so_grand_total o'))))
                      orders [] of
                 Inl e \<Rightarrow> Inl e
               | Inr byCustomer \<Rightarrow>
                   (let sorted =
                          slice0 limit
                            (js_sort (\<lambda>a b. js_sub (cell_number (snd b)) (cell_number (snd a)))
                                     (Object_entries byCustomer))
                    in Inr \<lparr> chart_title = ''Orders by Customer'', chart_type = chartType,
                             labels = map fst sorted,
                             datasets = [\<lparr> ds_label = ''Total'',
                                           ds_values = map snd sorted \<rparr>] \<rparr>))
         else (case fold_err add_order_status orders
                      \<lparr> bd_rows = [], bd_proto = proto, bd_written = [] \<rparr> of
                 Inl e \<Rightarrow> Inl e
               | Inr state \<Rightarrow>
                   (let byCustomerStatus = bd_rows state
                    in if (''constructor'', ''entries'') \<in> set (bd_written state)
                          \<or> ((''constructor'', ''values'') \<in> set (bd_written state)
                              \<and> byCustomerStatus \<noteq> [])
                       then Inl TypeError
                       else
                         (let customerTotals =
                                slice0 limit
                                  (js_sort (\<lambda>a b. js_sub (cell_number (snd b))
                                                          (cell_number (snd a)))
                                     (map (\<lambda>(c, statuses).
                                             (c, foldl cell_add (Num (Fin 0))
                                                   (map snd (Object_entries statuses))))
                                          (Object_entries byCustomerStatus)));
                              customers = map fst customerTotals;
                              activeStatuses =
                                filter (\<lambda>s. list_ex
                                             (\<lambda>c. js_less (Fin 0)
                                                    (cell_number
                                                       (cell_at_in (bd_proto state)
                                                          byCustomerStatus c s)))
                                             customers)
                                       STATUS_ORDER
                          in Inr \<lparr> chart_title = ''Order Value by Customer & Status'',
                                   chart_type = ''stacked-bar'',
                                   labels = customers,
                                   datasets =
                                     map (\<lambda>s. \<lparr> ds_label = (if s = ''To Deliver and Bill''
                                                             then ''To Deliver'' else s),
                                                 ds_values =
                                                   map (\<lambda>c. cell_at_in (bd_proto state)
                                                                byCustomerStatus c s)
                                                       customers \<rparr>)
                                         activeStatuses \<rparr>))))"

section \<open>Revenue against order count (erpnext\_revenue\_vs\_orders)\<close>

definition erpnext_revenue_vs_orders :: "jsnum field \<Rightarrow> SalesOrder list \<Rightarrow> jsnum ChartPayload" where
  "erpnext_revenue_vs_orders input_limit orders =
     (let limit = nullish_or input_limit (Fin 8);
          byCustomer =
            foldl (\<lambda>tbl o'.
                     upsert (nullish_or (so_customer_name o') ''Unknown'') (Fin 0, Fin 0)
                       (\<lambda>(total, count).
                          (js_add total (or_zero (Number (so_grand_total o'))),
                           js_add count (Fin 1)))
                       tbl)
                  [] orders;
          sorted = slice0 limit
                     (js_sort (\<lambda>a b. js_sub (fst (snd b)) (fst (snd a)))
                              (Object_entries byCustomer))
      in \<lparr> chart_title = ''Revenue vs Order Count'', chart_type = ''composed'',
           labels = map fst sorted,
           datasets =
             [\<lparr> ds_label = ''Revenue'', ds_values = map (\<lambda>(c, total, count). total) sorted \<rparr>,
              \<lparr> ds_label = ''Orders'', ds_values = map (\<lambda>(c, total, count). count) sorted \<rparr>] \<rparr>)"

section \<open>Treemap and scatter charts\<close>

text \<open>
  The stock treemap and the price scatter carry their data in the tree and scatter side
  channels; both always emit an empty label list and no dataset. The scatter's title
  depends on whether any priced item has orders.
\<close>

definition erpnext_stock_treemap :: "string field \<Rightarrow> Bin list \<Rightarrow> jsnum ChartPayload" where
  "erpnext_stock_treemap input_group_by bins =
     (let groupBy = nullish_or input_group_by ''item''
      in \<lparr> chart_title = ''Stock Value by ''
                           @ (if groupBy = ''warehouse'' then ''Warehouse'' else ''Item''),
           chart_type = ''treemap'', labels = [], datasets = [] \<rparr>)"

text \<open>
  \<^verbatim>\<open>if (!priceMap[code]) priceMap[code] = Number(ip.price_list_rate) || 0\<close>: a stored 0 is
  falsy and is overwritten; an inherited name reads as truthy and is skipped.
\<close>

definition set_price :: "string \<Rightarrow> jsnum \<Rightarrow> (string \<times> jsnum) list \<Rightarrow> (string \<times> jsnum) list" where
  "set_price code v priceMap =
     (case map_of priceMap code of
        Some p \<Rightarrow> if p = Fin 0 \<or> p = NaN then set_prop code v priceMap else priceMap
      | None \<Rightarrow> if code \<in> set object_prototype_keys then priceMap
                else set_prop code v priceMap)"

definition erpnext_price_vs_qty ::
  "jsnum field \<Rightarrow> ItemPrice list \<Rightarrow> SalesOrderItem list \<Rightarrow> jsnum ChartPayload" where
  "erpnext_price_vs_qty input_limit items soItems =
     (let limit = nullish_or input_limit (Fin 30);
          priceMap = foldl (\<lambda>tbl ip.
                              set_price (prop_key (ip_item_code ip))
                                (or_zero (Number (ip_price_list_rate ip))) tbl)
                           [] items;
          qtyMap = foldl (\<lambda>tbl row.
                            accumulate (prop_key (soi_item_code row))
                              (or_zero (Number (soi_qty row))) tbl)
                         [] soItems;
          allItems = filter (\<lambda>c. map_of qtyMap c \<noteq> None \<or> c \<in> set object_prototype_keys)
                            (map fst (Object_entries priceMap));
          limited = slice0 limit allItems
      in if length limited = 0
         then \<lparr> chart_title = ''Valuation Rate vs Stock Qty'', chart_type = ''scatter'',
                labels = [], datasets = [] \<rparr>
         else \<lparr> chart_title = ''Price vs Quantity Ordered'', chart_type = ''scatter'',
                labels = [], datasets = [] \<rparr>)"

section \<open>Product radar (erpnext\_product\_radar)\<close>

text \<open>
  \<open>bins_for code\<close> is the list the handler fetches for one item code. The table \<open>raw\<close> is
  only ever read by key, for keys that were assigned before; under that use the key
  \<^verbatim>\<open>__proto__\<close> behaves like any other (the assigned array becomes the prototype and is
  what the read returns). An absent item code is keyed and labelled by its text.
\<close>

definition erpnext_product_radar ::
  "string list field \<Rightarrow> Bin list \<Rightarrow> (string field \<Rightarrow> Bin list) \<Rightarrow> SalesOrderItem list
     \<Rightarrow> jsnum ChartPayload" where
  "erpnext_product_radar input_items topBins bins_for soItems =
     (let given = map Value (nullish_or input_items []);
          itemCodes = (if length given = 0 then map bin_item_code topBins else given)
      in if length itemCodes < 2
         then \<lparr> chart_title = ''Product Comparison'', chart_type = ''radar'',
                labels = [], datasets = [] \<rparr>
         else
           (let dimensions = [''Stock Qty'', ''Stock Value'', ''Order Lines'', ''Revenue''];
                raw0 = foldl (\<lambda>raw code.
                                set_prop (prop_key code)
                                  [sum_field bin_actual_qty (bins_for code),
                                   sum_field bin_stock_value (bins_for code),
                                   Fin 0, Fin 0]
                                  raw)
                             [] itemCodes;
                raw = foldl (\<lambda>raw row.
                               (if soi_item_code row \<in> set itemCodes
                                then (case map_of raw (prop_key (soi_item_code row)) of
                                        Some arr \<Rightarrow>
                                          set_prop (prop_key (soi_item_code row))
                                            (arr[2 := js_add (arr ! 2) (Fin 1),
                                                 3 := js_add (arr ! 3)
                                                        (or_zero (Number (soi_amount row)))])
                                            raw
                                      | None \<Rightarrow> raw)
                                else raw))
                            raw0 soItems;
                raw_at = (\<lambda>code di. case map_of raw (prop_key code) of
                                    Some arr \<Rightarrow> arr ! di
                                  | None \<Rightarrow> Fin 0);
                maxPerDim = map (\<lambda>di. foldl Math_max (Fin 1) (map (\<lambda>c. raw_at c di) itemCodes))
                                [0 ..< length dimensions]
            in \<lparr> chart_title = ''Product Comparison'', chart_type = ''radar'',
                 labels = dimensions,
                 datasets =
                   map (\<lambda>code.
                          \<lparr> ds_label = prop_key code,
                            ds_values =
                              map (\<lambda>di. Math_round
                                           (js_mul (js_div (raw_at code di) (maxPerDim ! di))
                                                   (Fin 100)))
                                  [0 ..< length dimensions] \<rparr>)
                       itemCodes \<rparr>))"

section \<open>Gross profit (erpnext\_gross\_profit)\<close>

text \<open>
  \<^verbatim>\<open>costMap[code] = Math.max(costMap[code] ?? 0, Number(bin.valuation_rate) || 0)\<close>: for an
  inherited name the first operand is a function and the maximum is NaN (and assigning a
  Number to \<^verbatim>\<open>__proto__\<close> does nothing).
\<close>

definition set_cost :: "string \<Rightarrow> jsnum \<Rightarrow> (string \<times> jsnum) list \<Rightarrow> (string \<times> jsnum) list" where
  "set_cost code v costMap =
     (case map_of costMap code of
        Some c \<Rightarrow> set_prop code (Math_max c v) costMap
      | None \<Rightarrow>
          if code = ''__proto__'' then costMap
          else if code \<in> set object_prototype_keys then set_prop code NaN costMap
          else set_prop code (Math_max (Fin 0) v) costMap)"

text \<open>
  \<^verbatim>\<open>costMap[code] ?? 0\<close> as the factor of \<^verbatim>\<open>qty * unitCost\<close>: an inherited function there is
  NaN as a Number.
\<close>

definition unit_cost :: "(string \<times> jsnum) list \<Rightarrow> string \<Rightarrow> jsnum" where
  "unit_cost costMap code =
     (case map_of costMap code of
        Some c \<Rightarrow> c
      | None \<Rightarrow> if code \<in> set object_prototype_keys then NaN else Fin 0)"

text \<open>
  \<^verbatim>\<open>custMap[row.parent] ?? "Unknown"\<close> as a property key. An inherited name reads as the
  inherited object, whose text (as V8 renders it) is the key.
\<close>

definition customer_of :: "(string \<times> string) list \<Rightarrow> string \<Rightarrow> string" where
  "customer_of custMap parent =
     (case map_of custMap parent of
        Some c \<Rightarrow> c
      | None \<Rightarrow>
          if parent = ''__proto__'' then ''[object Object]''
          else if parent = ''constructor'' then ''function Object() { [native code] }''
          else if parent \<in> set object_prototype_keys
          then ''function '' @ parent @ ''() { [native code] }''
          else ''Unknown'')"

text \<open>
  The margin of a row,
  \<^verbatim>\<open>revenue > 0 ? Math.round(((revenue - cost) / revenue) * 10000) / 100 : 0\<close>.
\<close>

definition margin_percent :: "jsnum \<Rightarrow> jsnum \<Rightarrow> jsnum" where
  "margin_percent revenue cost =
     (if js_less (Fin 0) revenue
      then js_div (Math_round (js_mul (js_div (js_sub revenue cost) revenue) (Fin 10000)))
                  (Fin 100)
      else Fin 0)"

definition erpnext_gross_profit ::
  "jsnum field \<Rightarrow> string field \<Rightarrow> SalesInvoiceItem list \<Rightarrow> Bin list \<Rightarrow> SalesInvoice list
     \<Rightarrow> jsnum ChartPayload" where
  "erpnext_gross_profit input_limit input_group_by siItems bins invoices =
     (let limit = nullish_or input_limit (Fin 10);
          groupBy = nullish_or input_group_by ''item'';
          costMap = foldl (\<lambda>tbl bin.
                             set_cost (prop_key (bin_item_code bin))
                               (or_zero (Number (bin_valuation_rate bin))) tbl)
                          [] bins
      in if groupBy = ''customer''
         then (let custMap =
                     foldl (\<lambda>tbl invoice.
                              (if prop_key (si_name invoice) = ''__proto__'' then tbl
                               else set_prop (prop_key (si_name invoice))
                                      (nullish_or (si_customer_name invoice) ''Unknown'') tbl))
                           [] invoices;
                   byCustomer =
                     foldl (\<lambda>tbl row.
                              upsert (customer_of custMap (prop_key (sii_parent row)))
                                (Fin 0, Fin 0)
                                (\<lambda>(revenue, cost).
                                   (js_add revenue (or_zero (Number (sii_amount row))),
                                    js_add cost
                                      (js_mul (or_zero (Number (sii_qty row)))
                                              (unit_cost costMap (prop_key (sii_item_code row))))))
                                tbl)
                           [] siItems;
                   sorted = slice0 limit
                              (js_sort (\<lambda>a b. js_sub (fst (snd b)) (fst (snd a)))
                                       (Object_entries byCustomer))
               in \<lparr> chart_title = ''Gross Profit by Customer'', chart_type = ''composed'',
                    labels = map fst sorted,
                    datasets =
                      [\<lparr> ds_label = ''Revenue'',
                         ds_values = map (\<lambda>(name, revenue, cost). Math_round revenue) sorted \<rparr>,
                       \<lparr> ds_label = ''Margin %'',
                         ds_values = map (\<lambda>(name, revenue, cost). margin_percent revenue cost)
                                         sorted \<rparr>] \<rparr>)
         else (let byItem =
                     foldl (\<lambda>tbl row.
                              (let code = nullish_or (sii_item_code row) ''Unknown''
                               in upsert code (nullish_or (sii_item_name row) code, Fin 0, Fin 0)
                                    (\<lambda>(name, revenue, cost).
                                       (name,
                                        js_add revenue (or_zero (Number (sii_amount row))),
                                        js_add cost
                                          (js_mul (or_zero (Number (sii_qty row)))
                                                  (unit_cost costMap code))))
                                    tbl))
                           [] siItems;
                   sorted = slice0 limit
                              (js_sort (\<lambda>a b. js_sub (fst (snd (snd b))) (fst (snd (snd a))))
                                       (Object_entries byItem))
               in \<lparr> chart_title = ''Gross Profit by Item'', chart_type = ''composed'',
                    labels = map (\<lambda>(code, name, revenue, cost). name) sorted,
                    datasets =
                      [\<lparr> ds_label = ''Revenue'',
                         ds_values = map (\<lambda>(code, name, revenue, cost). Math_round revenue)
                                         sorted \<rparr>,
                       \<lparr> ds_label = ''Margin %'',
                         ds_values = map (\<lambda>(code, name, revenue, cost).
                                            margin_percent revenue cost) sorted \<rparr>] \<rparr>))"

section \<open>Profit and loss (erpnext\_profit\_loss)\<close>

definition erpnext_profit_loss ::
  "(string field \<Rightarrow> (int \<times> int) option) \<Rightarrow> int \<times> int \<Rightarrow> int field \<Rightarrow> string field
     \<Rightarrow> SalesOrder list \<Rightarrow> PurchaseOrder list \<Rightarrow> js_error + jsnum ChartPayload" where
  "erpnext_profit_loss date_month now input_months input_type salesOrders purchaseOrders =
     (let monthsBack = nullish_or input_months 6;
          chartType = nullish_or input_type ''composed'';
          startDate = Date_ym (fst now) (snd now - monthsBack + 1)
      in if \<not> valid_date startDate then Inl RangeError
         else
           (let months = month_labels now monthsBack
            in case zero_array monthsBack of
                 Inl e \<Rightarrow> Inl e
               | Inr zeros \<Rightarrow>
                   (let income =
                          foldl (\<lambda>totals so.
                                   add_to_month monthsBack
                                     (month_index startDate
                                        (date_month (so_transaction_date so)))
                                     (so_grand_total so) totals)
                                zeros salesOrders;
                        expenses =
                          foldl (\<lambda>totals po.
                                   add_to_month monthsBack
                                     (month_index startDate
                                        (date_month (po_transaction_date po)))
                                     (po_grand_total po) totals)
                                zeros purchaseOrders;
                        netProfit = map (\<lambda>i. Math_round (js_sub (income ! i) (expenses ! i)))
                                        [0 ..< length income];
                        datasets0 =
                          [\<lparr> ds_label = ''Income'', ds_values = map Math_round income \<rparr>,
                           \<lparr> ds_label = ''Expenses'', ds_values = map Math_round expenses \<rparr>]
                    in Inr \<lparr> chart_title = ''Profit & Loss'', chart_type = chartType,
                             labels = months,
                             datasets =
                               (if chartType = ''composed''
                                then datasets0 @ [\<lparr> ds_label = ''Net Profit'',
                                                    ds_values = netProfit \<rparr>]
                                else datasets0) \<rparr>)))"

section \<open>Properties of the rounding\<close>


lemma round_half_even_error: "\<bar>of_int (round_half_even y) - y\<bar> \<le> 1 / 2"
proof -
  have "of_int \<lfloor>y\<rfloor> \<le> y" "y < of_int \<lfloor>y\<rfloor> + 1" by linarith+
  then show ?thesis
    by (auto simp: round_half_even_def Let_def)
qed

lemma ilog2_bounds:
  assumes "0 < x"
  shows "2 powi (ilog2 x) \<le> x \<and> x < 2 powi (ilog2 x + 1)"
proof -
  obtain a b where q: "quotient_of x = (a, b)" by (cases "quotient_of x")
  have b: "0 < b" using q quotient_of_denom_pos by blast
  have x: "x = of_int a / of_int b" using q quotient_of_div by blast
  have a: "0 < a" using assms b x by (simp add: zero_less_divide_iff)
  define la lb where "la = bitlen a" and "lb = bitlen b"
  have la1: "1 \<le> la" and lb1: "1 \<le> lb"
    using a b bitlen_eq_zero_iff[of a] bitlen_eq_zero_iff[of b] bitlen_nonneg[of a] bitlen_nonneg[of b]
    unfolding la_def lb_def by linarith+
  have ba: "2 ^ nat (la - 1) \<le> a" "a < 2 ^ nat la"
    using bitlen_bounds[OF a] unfolding la_def by auto
  have bb: "2 ^ nat (lb - 1) \<le> b" "b < 2 ^ nat lb"
    using bitlen_bounds[OF b] unfolding lb_def by auto
  have ra: "(2::rat) powi (la - 1) \<le> of_int a" "of_int a < (2::rat) powi la"
  proof -
    have "(of_int (2 ^ nat (la - 1)) :: rat) \<le> of_int a" using ba(1) by (simp only: of_int_le_iff)
    then show "(2::rat) powi (la - 1) \<le> of_int a" using la1 by (simp add: power_int_def)
    have "(of_int a :: rat) < of_int (2 ^ nat la)" using ba(2) by (simp only: of_int_less_iff)
    then show "of_int a < (2::rat) powi la" using la1 by (simp add: power_int_def)
  qed
  have rb: "(2::rat) powi (lb - 1) \<le> of_int b" "of_int b < (2::rat) powi lb"
  proof -
    have "(of_int (2 ^ nat (lb - 1)) :: rat) \<le> of_int b" using bb(1) by (simp only: of_int_le_iff)
    then show "(2::rat) powi (lb - 1) \<le> of_int b" using lb1 by (simp add: power_int_def)
    have "(of_int b :: rat) < of_int (2 ^ nat lb)" using bb(2) by (simp only: of_int_less_iff)
    then show "of_int b < (2::rat) powi lb" using lb1 by (simp add: power_int_def)
  qed
  have bpos: "(0::rat) < of_int b" using b by simp
  have up: "x < 2 powi (la - lb + 1)"
  proof -
    have "of_int a < (2::rat) powi la" by (rule ra(2))
    also have "\<dots> = 2 powi (la - lb + 1) * 2 powi (lb - 1)"
      by (simp add: power_int_add[symmetric])
    also have "\<dots> \<le> 2 powi (la - lb + 1) * of_int b"
      using rb(1) by (simp add: mult_left_mono)
    finally show ?thesis using bpos by (simp add: x pos_divide_less_eq)
  qed
  have lo: "2 powi (la - lb - 1) < x"
  proof -
    have "2 powi (la - lb - 1) * of_int b < (2::rat) powi (la - lb - 1) * 2 powi lb"
      using rb(2) by (simp add: mult_strict_left_mono)
    also have "\<dots> = 2 powi (la - 1)"
      by (simp add: power_int_add[symmetric])
    also have "\<dots> \<le> of_int a" by (rule ra(1))
    finally show ?thesis using bpos by (simp add: x pos_less_divide_eq)
  qed
  show ?thesis
  proof (cases "2 powi (la - lb) \<le> x")
    case True
    then have "ilog2 x = la - lb" by (simp add: ilog2_def q la_def lb_def)
    then show ?thesis using True up by simp
  next
    case False
    then have "ilog2 x = la - lb - 1" by (simp add: ilog2_def q la_def lb_def)
    then show ?thesis using False lo by (simp add: less_imp_le)
  qed
qed

lemma powi2_less_iff: "(2::rat) powi m < 2 powi n \<longleftrightarrow> m < n"
proof
  assume "(2::rat) powi m < 2 powi n"
  show "m < n"
  proof (rule ccontr)
    assume "\<not> m < n"
    then have "n \<le> m" by simp
    then have "(2::rat) powi n \<le> 2 powi m" by (intro power_int_increasing) auto
    with \<open>(2::rat) powi m < 2 powi n\<close> show False by simp
  qed
next
  assume "m < n"
  then show "(2::rat) powi m < 2 powi n" by (intro power_int_strict_increasing) auto
qed

lemma ilog2_lower:
  assumes "2 powi k \<le> x"
  shows "k \<le> ilog2 x"
proof -
  have "0 < x" using assms zero_less_power_int[of "2::rat" k] by linarith
  then have "x < 2 powi (ilog2 x + 1)" using ilog2_bounds by blast
  with assms have "(2::rat) powi k < 2 powi (ilog2 x + 1)" by linarith
  then show ?thesis by (simp add: powi2_less_iff)
qed

lemma ilog2_upper:
  assumes "0 < x" "x < 2 powi k"
  shows "ilog2 x < k"
proof -
  have "2 powi (ilog2 x) \<le> x" using assms(1) ilog2_bounds by blast
  with assms have "(2::rat) powi (ilog2 x) < 2 powi k" by linarith
  then show ?thesis by (simp add: powi2_less_iff)
qed

lemma fl_error_normal:
  assumes "2 powi (- 1022) \<le> \<bar>x\<bar>"
  shows "\<bar>fl x - x\<bar> \<le> \<bar>x\<bar> * 2 powi (- 53)"
proof -
  define L where "L = ilog2 \<bar>x\<bar>"
  have xpos: "0 < \<bar>x\<bar>" using assms zero_less_power_int[of "2::rat" "- 1022"] by linarith
  then have x0: "x \<noteq> 0" by auto
  have L: "- 1022 \<le> L" unfolding L_def using assms by (rule ilog2_lower)
  have Lx: "2 powi L \<le> \<bar>x\<bar>" unfolding L_def using xpos ilog2_bounds by blast
  define e where "e = L - 52"
  have e: "max (ilog2 \<bar>x\<bar> - 52) (- 1074) = e" using L by (simp add: e_def L_def)
  define m where "m = round_half_even (x / 2 powi e)"
  have flx: "fl x = of_int m * 2 powi e"
    using x0 e by (simp add: fl_def m_def Let_def)
  have p: "(0::rat) < 2 powi e" by simp
  have "fl x - x = (of_int m - x / 2 powi e) * 2 powi e"
    using p by (simp add: flx field_simps)
  then have "\<bar>fl x - x\<bar> = \<bar>of_int m - x / 2 powi e\<bar> * 2 powi e"
    using p by (simp add: abs_mult)
  also have "\<dots> \<le> (1 / 2) * 2 powi e"
    using round_half_even_error[of "x / 2 powi e"] p
    unfolding m_def by (intro mult_right_mono) auto
  also have "\<dots> = 2 powi L * 2 powi (- 53)"
    by (simp add: e_def power_int_add[symmetric] power_int_diff)
  also have "\<dots> \<le> \<bar>x\<bar> * 2 powi (- 53)"
    using Lx by (intro mult_right_mono) auto
  finally show ?thesis .
qed


lemma to_double_finite:
  assumes "\<bar>fl x\<bar> < 2 ^ 1024"
  shows "to_double x = Fin (fl x)"
proof (cases "fl x = 0")
  case True
  then show ?thesis by (simp add: to_double_def)
next
  case False
  then have "0 < \<bar>fl x\<bar>" by simp
  moreover have "\<bar>fl x\<bar> < 2 powi 1024" using assms by (simp add: power_int_def)
  ultimately have "ilog2 \<bar>fl x\<bar> < 1024" by (rule ilog2_upper)
  then show ?thesis using False by (simp add: to_double_def Let_def)
qed

lemma to_double_normal:
  assumes "2 powi (- 1022) \<le> \<bar>x\<bar>" "\<bar>x\<bar> < 2 ^ 1023"
  shows "to_double x = Fin (fl x)"
proof -
  have "\<bar>fl x - x\<bar> \<le> \<bar>x\<bar> * 2 powi (- 53)" using assms(1) by (rule fl_error_normal)
  also have "\<dots> \<le> \<bar>x\<bar> * 1"
    by (intro mult_left_mono) (auto simp: power_int_def divide_simps)
  finally have "\<bar>fl x\<bar> \<le> 2 * \<bar>x\<bar>" by linarith
  also have "\<dots> < 2 * 2 ^ 1023" using assms(2) by linarith
  also have "\<dots> = (2::rat) ^ 1024" by simp
  finally have "\<bar>fl x\<bar> < 2 ^ 1024" .
  then show ?thesis by (rule to_double_finite)
qed


section \<open>Results about the tool catalogue\<close>

text \<open>
  Claim C9. Projecting a tool definition to the wire format keeps its name, its
  description and its input schema unchanged, and carries the optional UI metadata over
  exactly as it is (present with the same value, or absent); this holds for the
  stand-alone \<^verbatim>\<open>toMCPWireFormat\<close> and, element by element and in order, for the client's
  \<^verbatim>\<open>toMCPFormat\<close>.
\<close>

theorem toMCPWireFormat_preserves:
  "wire_name (toMCPWireFormat tool) = name tool
   \<and> wire_description (toMCPWireFormat tool) = description tool
   \<and> wire_inputSchema (toMCPWireFormat tool) = inputSchema tool
   \<and> wire_meta (toMCPWireFormat tool) = meta tool
   \<and> toMCPFormat tools = map toMCPWireFormat tools"
  by (cases "meta tool") (simp_all add: toMCPWireFormat_def toMCPFormat_def Let_def)

text \<open>
  Claim C2, as stated: the operations bucket holds exactly six tools. It does not: the
  list has seven entries.
\<close>

theorem operationsTools_not_six: "length operationsTools \<noteq> 6"
  by (simp add: operationsTools_def)

text \<open>
  Claim C2, amended. The operations bucket holds exactly seven tools, one for each of
  create, update, delete, submit, cancel, get and list (in the order of the source);
  their names are pairwise different, each is in the operations category, and each
  declares \<^verbatim>\<open>doctype\<close> as a property and lists it as required.
\<close>

theorem operationsTools_seven:
  "length operationsTools = 7
   \<and> map op_name operationsTools =
       [''erpnext_doc_create'', ''erpnext_doc_update'', ''erpnext_doc_delete'',
        ''erpnext_doc_submit'', ''erpnext_doc_cancel'', ''erpnext_doc_get'',
        ''erpnext_doc_list'']
   \<and> distinct (map op_name operationsTools)
   \<and> list_all (\<lambda>t. op_category t = Operations) operationsTools
   \<and> list_all (\<lambda>t. ''doctype'' \<in> set (op_properties t)) operationsTools
   \<and> list_all (\<lambda>t. ''doctype'' \<in> set (op_required t)) operationsTools"
  by (simp add: operationsTools_def)

section \<open>The sales funnel's conversion rate\<close>

lemma conversion_rate_zero_prev: "conversion_rate c 0 = Fin 0"
  by (simp add: conversion_rate_def)

lemma floor_half: "\<lfloor>(1::rat) / 2\<rfloor> = 0"
  by (rule floor_unique) simp_all

lemma conversion_rate_zero_this: "conversion_rate 0 p = Fin 0"
  by (simp add: conversion_rate_def to_double_def fl_def floor_half)

lemma double_product_error:
  fixes c p :: nat
  assumes c: "0 < c" "c < 2 ^ 32" and p: "0 < p" "p < 2 ^ 32"
  shows "\<exists>y. js_mul (js_div (Fin (of_nat c)) (Fin (of_nat p))) (Fin 100) = Fin y
             \<and> \<bar>y - 100 * of_nat c / of_nat p\<bar> < 1 / (2 * of_nat p)"
proof -
  define q :: rat where "q = of_nat c / of_nat p"
  have cr: "(1::rat) \<le> of_nat c" "(of_nat c :: rat) < 2 ^ 32"
    using c by (simp_all add: of_nat_less_numeral_power_cancel_iff Suc_le_eq)
  have pr: "(1::rat) \<le> of_nat p" "(of_nat p :: rat) < 2 ^ 32"
    using p by (simp_all add: of_nat_less_numeral_power_cancel_iff Suc_le_eq)
  have ppos: "(0::rat) < of_nat p" using pr by linarith
  have qlo: "1 / 2 ^ 32 \<le> q"
  proof -
    have "(1::rat) / 2 ^ 32 \<le> 1 / of_nat p" using pr ppos by (simp add: frac_le)
    also have "\<dots> \<le> of_nat c / of_nat p" using cr ppos by (simp add: divide_right_mono)
    finally show ?thesis by (simp add: q_def)
  qed
  have qhi: "q < 2 ^ 32"
  proof -
    have "q \<le> of_nat c / 1" unfolding q_def using pr cr by (intro divide_left_mono) auto
    then show ?thesis using cr by simp
  qed
  have "(0::rat) < 1 / 2 ^ 32" by simp
  with qlo have qpos: "0 < q" by linarith
  have small: "(2::rat) powi (- 1022) \<le> 1 / 2 ^ 32"
  proof -
    have "(2::rat) powi (- 1022) \<le> 2 powi (- 32)" by (intro power_int_increasing) auto
    then show ?thesis by (simp add: power_int_def divide_simps)
  qed
  have big: "(2::rat) ^ 42 \<le> 2 ^ 1023" by (intro power_increasing) auto
  have n1: "2 powi (- 1022) \<le> \<bar>q\<bar>" using small qlo qpos by linarith
  have n2: "\<bar>q\<bar> < 2 ^ 1023" using qhi qpos big by (simp add: abs_if) 
  have d1: "to_double q = Fin (fl q)" using n1 n2 by (rule to_double_normal)
  define u :: rat where "u = 2 powi (- 53)"
  have u: "0 \<le> u" "u \<le> 1 / 2" "300 * 2 ^ 32 * u \<le> 1 / 2"
    by (simp_all add: u_def power_int_def divide_simps)
  have e1: "\<bar>fl q - q\<bar> \<le> q * u"
    using fl_error_normal[OF n1] qpos by (simp add: u_def)
  have "q * u \<le> q * (1 / 2)" using qpos u(2) by (intro mult_left_mono) auto
  with e1 have eh: "\<bar>fl q - q\<bar> \<le> q / 2" by linarith
  then have fq: "q / 2 \<le> fl q" "fl q \<le> 2 * q" by linarith+
  define z where "z = fl q * 100"
  have zlo: "1 / 2 ^ 32 \<le> z" using fq qlo unfolding z_def by linarith
  have zhi: "z < 2 ^ 42" using fq qhi unfolding z_def by simp
  have zpos: "0 < z" using fq qpos unfolding z_def by simp
  have m1: "2 powi (- 1022) \<le> \<bar>z\<bar>" using small zlo zpos by linarith
  have m2: "\<bar>z\<bar> < 2 ^ 1023" using zhi zpos big by (simp add: abs_if)
  have d2: "to_double z = Fin (fl z)" using m1 m2 by (rule to_double_normal)
  have e2: "\<bar>fl z - z\<bar> \<le> z * u"
    using fl_error_normal[OF m1] zpos by (simp add: u_def)
  have "z * u \<le> (200 * q) * u"
    using fq u(1) unfolding z_def by (intro mult_right_mono) auto
  with e2 have e2': "\<bar>fl z - z\<bar> \<le> 200 * (q * u)" by linarith
  have "\<bar>z - 100 * q\<bar> = 100 * \<bar>fl q - q\<bar>" unfolding z_def by (simp add: abs_if)
  also have "\<dots> \<le> 100 * (q * u)" using e1 by (intro mult_left_mono) auto
  finally have e1': "\<bar>z - 100 * q\<bar> \<le> 100 * (q * u)" .
  have tot: "\<bar>fl z - 100 * q\<bar> \<le> 300 * (q * u)"
    using e1' e2' by linarith
  have "300 * (q * u) = (300 * of_nat c * u) / of_nat p"
    by (simp add: q_def)
  also have "\<dots> < (1 / 2) / of_nat p"
  proof -
    have "300 * of_nat c * u \<le> 300 * 2 ^ 32 * u"
      using cr u(1) by (intro mult_right_mono) auto
    also have "\<dots> \<le> 1 / 2" by (rule u(3))
    finally have "300 * of_nat c * u \<le> 1 / 2" .
    moreover have "300 * of_nat c * u \<noteq> 1 / 2" 
    proof
      assume a: "300 * of_nat c * u = 1 / 2"
      have "300 * of_nat c * u < 300 * 2 ^ 32 * u"
        using cr by (simp add: u_def)
      with a u(3) show False by linarith
    qed
    ultimately have "300 * of_nat c * u < 1 / 2" by linarith
    then show ?thesis using ppos by (rule divide_strict_right_mono)
  qed
  finally have bound: "300 * (q * u) < 1 / (2 * of_nat p)" by simp
  have "js_mul (js_div (Fin (of_nat c)) (Fin (of_nat p))) (Fin 100) = Fin (fl z)"
    using ppos d1 d2 by (simp add: q_def z_def)
  moreover have "\<bar>fl z - 100 * of_nat c / of_nat p\<bar> < 1 / (2 * of_nat p)"
    using tot bound by (simp add: q_def)
  ultimately show ?thesis by blast
qed


lemma conversion_rate_value:
  fixes c p :: nat
  assumes c: "c < 2 ^ 32" and p: "0 < p" "p < 2 ^ 32"
  defines "r \<equiv> \<lfloor>100 * of_nat c / of_nat p + (1::rat) / 2\<rfloor>"
  shows "\<exists>k. conversion_rate c p = Fin (of_int k) \<and> (k = r \<or> k = r - 1)
             \<and> (of_int r \<noteq> 100 * of_nat c / of_nat p + (1::rat) / 2 \<longrightarrow> k = r)"
proof (cases "c = 0")
  case True
  then have "r = 0" by (simp add: r_def floor_half)
  then show ?thesis using True by (simp add: conversion_rate_zero_this)
next
  case False
  define x :: rat where "x = 100 * of_nat c / of_nat p"
  have ppos: "(0::rat) < of_nat p" using p by simp
  obtain y where y: "js_mul (js_div (Fin (of_nat c)) (Fin (of_nat p))) (Fin 100) = Fin y"
    and err: "\<bar>y - x\<bar> < 1 / (2 * of_nat p)"
    using double_product_error[of c p] False c p unfolding x_def by auto
  define k where "k = \<lfloor>y + 1 / 2\<rfloor>"
  have rate: "conversion_rate c p = Fin (of_int k)"
    using p y by (simp add: conversion_rate_def k_def)
  have rx: "of_int r \<le> x + 1 / 2" "x + 1 / 2 < of_int r + 1"
    unfolding r_def x_def by linarith+
  define n :: int where "n = 200 * int c + int p - 2 * int p * r"
  have n: "of_int n = 2 * of_nat p * (x + 1 / 2 - of_int r)"
    using ppos by (simp add: n_def x_def field_simps)
  have "0 \<le> 2 * of_nat p * (x + 1 / 2 - of_int r)"
    using rx ppos by (intro mult_nonneg_nonneg) auto
  then have n0: "0 \<le> n" using n by (metis of_int_0_le_iff)
  have "2 * of_nat p * (x + 1 / 2 - of_int r) < 2 * of_nat p * 1"
    using rx ppos by (intro mult_strict_left_mono) auto
  then have "(of_int n :: rat) < of_int (2 * int p)" using n by simp
  then have n1: "n < 2 * int p" by (simp only: of_int_less_iff)
  have d: "x + 1 / 2 - of_int r = of_int n / (2 * of_nat p)"
    using ppos n by (simp add: field_simps)
  have small: "1 / (2 * of_nat p) \<le> (1::rat) / 2"
  proof -
    have "(1::rat) \<le> of_nat p" using p by (simp add: Suc_le_eq)
    then show ?thesis by (simp add: field_simps)
  qed
  have err2: "- (1 / (2 * of_nat p)) < y - x" "y - x < 1 / (2 * of_nat p)"
    using err by linarith+
  show ?thesis
  proof (cases "n = 0")
    case True
    then have tie: "of_int r = x + 1 / 2" using d by simp
    have "of_int (r - 1) \<le> y + 1 / 2" "y + 1 / 2 < of_int (r - 1) + 2"
      using tie err2 small by simp_all
    then have "k = r - 1 \<or> k = r" unfolding k_def by linarith
    then show ?thesis using rate tie unfolding x_def by auto
  next
    case False
    then have "1 \<le> n" "n \<le> 2 * int p - 1" using n0 n1 by linarith+
    then have "(of_int 1 :: rat) \<le> of_int n" "(of_int n :: rat) \<le> of_int (2 * int p - 1)"
      by (simp_all only: of_int_le_iff)
    then have nn: "(1::rat) \<le> of_int n" "(of_int n :: rat) \<le> 2 * of_nat p - 1" by simp_all
    have lo: "1 / (2 * of_nat p) \<le> x + 1 / 2 - of_int r"
      unfolding d using nn(1) ppos by (intro divide_right_mono) auto
    have "(of_int n :: rat) / (2 * of_nat p) \<le> (2 * of_nat p - 1) / (2 * of_nat p)"
      using nn(2) ppos by (intro divide_right_mono) auto
    also have "\<dots> = 1 - 1 / (2 * of_nat p)" using ppos by (simp add: field_simps)
    finally have hi: "x + 1 / 2 - of_int r \<le> 1 - 1 / (2 * of_nat p)" unfolding d .
    have "of_int r \<le> y + 1 / 2" "y + 1 / 2 < of_int r + 1"
      using lo hi err2 by linarith+
    then have "k = r" unfolding k_def by linarith
    then show ?thesis using rate by auto
  qed
qed


text \<open>
  Claim C4, as stated: after a stage with a positive count the rate equals
  \<open>round (100 * this / prev)\<close>. With 40 leads and 23 opportunities the handler's rate is
  57, while \<open>100 * 23 / 40 = 57.5\<close> rounds to 58: the quotient \<open>23 / 40\<close> is rounded to a
  binary64 value just below 0.575 before it is multiplied by 100.
\<close>

theorem sales_funnel_rate_counterexample:
  "stage_count (erpnext_sales_funnel (replicate 40 ()) (replicate 23 \<lparr> opp_name = Undefined, opportunity_amount = Undefined \<rparr>) [] [] ! 0) = 40
   \<and> stage_count (erpnext_sales_funnel (replicate 40 ()) (replicate 23 \<lparr> opp_name = Undefined, opportunity_amount = Undefined \<rparr>) [] [] ! 1) = 23
   \<and> conversionRate (erpnext_sales_funnel (replicate 40 ()) (replicate 23 \<lparr> opp_name = Undefined, opportunity_amount = Undefined \<rparr>) [] [] ! 1) = Some (Fin 57)
   \<and> \<lfloor>100 * 23 / 40 + (1::rat) / 2\<rfloor> = 58"
proof -
  have "conversion_rate 23 40 = Fin 57" by code_simp
  moreover have "\<lfloor>100 * 23 / 40 + (1::rat) / 2\<rfloor> = 58" by (rule floor_unique) simp_all
  ultimately show ?thesis by (simp add: erpnext_sales_funnel_def)
qed

text \<open>
  Claim C4, amended. For fetched lists of array size (fewer than \<open>2^32\<close> elements), the
  funnel has four stages; the first has no rate, and every later stage's rate is 0 when
  the previous stage's count is 0, and otherwise is the integer
  \<open>round (100 * thisCount / previousCount)\<close>, except that when \<open>100 * thisCount / previousCount\<close>
  lies exactly halfway between two integers the rate may be the lower of the two. In every
  case the rate is a finite integer, never NaN or an infinity.
\<close>

theorem sales_funnel_rate_amended:
  assumes "length leads < 2 ^ 32" "length opps < 2 ^ 32"
    and "length quots < 2 ^ 32" "length orders < 2 ^ 32"
  shows "length (erpnext_sales_funnel leads opps quots orders) = 4
    \<and> conversionRate (erpnext_sales_funnel leads opps quots orders ! 0) = None
    \<and> (\<forall>i. 1 \<le> i \<and> i < 4 \<longrightarrow>
          rate_as_amended
            (stage_count (erpnext_sales_funnel leads opps quots orders ! (i - 1)))
            (stage_count (erpnext_sales_funnel leads opps quots orders ! i))
            (conversionRate (erpnext_sales_funnel leads opps quots orders ! i)))"
proof -
  have core: "rate_as_amended p c (Some (conversion_rate c p))"
    if "c < 2 ^ 32" "p < 2 ^ 32" for c p :: nat
  proof (cases "p = 0")
    case True
    then show ?thesis by (simp add: rate_as_amended_def conversion_rate_zero_prev)
  next
    case False
    then have "0 < p" by simp
    from conversion_rate_value[OF that(1) this that(2)] False
    show ?thesis by (auto simp: rate_as_amended_def Let_def)
  qed
  let ?st = "erpnext_sales_funnel leads opps quots orders"
  have s1: "rate_as_amended (stage_count (?st ! 0)) (stage_count (?st ! 1)) (conversionRate (?st ! 1))"
    using core[OF assms(2) assms(1)] by (simp add: erpnext_sales_funnel_def)
  have s2: "rate_as_amended (stage_count (?st ! 1)) (stage_count (?st ! 2)) (conversionRate (?st ! 2))"
    using core[OF assms(3) assms(2)] by (simp add: erpnext_sales_funnel_def)
  have s3: "rate_as_amended (stage_count (?st ! 2)) (stage_count (?st ! 3)) (conversionRate (?st ! 3))"
    using core[OF assms(4) assms(3)] by (simp add: erpnext_sales_funnel_def)
  have all: "rate_as_amended (stage_count (?st ! (i - 1))) (stage_count (?st ! i))
               (conversionRate (?st ! i))" if "1 \<le> i \<and> i < 4" for i
  proof -
    from that consider "i = 1" | "i = 2" | "i = 3" by linarith
    then show ?thesis
    proof cases
      case 1 then show ?thesis using s1 by simp
    next
      case 2 then show ?thesis using s2 by simp
    next
      case 3 then show ?thesis using s3 by simp
    qed
  qed
  have "length ?st = 4" "conversionRate (?st ! 0) = None"
    by (simp_all add: erpnext_sales_funnel_def)
  then show ?thesis using all by blast
qed

theorem sales_funnel_rate_amended_witness:
  "length (erpnext_sales_funnel [(), (), (), ()]
      [\<lparr> opp_name = Undefined, opportunity_amount = Value (Fin 10) \<rparr>,
       \<lparr> opp_name = Undefined, opportunity_amount = Null \<rparr>]
      [\<lparr> quot_name = Undefined, quot_grand_total = Value (Fin 10) \<rparr>] []) = 4
   \<and> rate_as_amended 4 2 (Some (Fin 50))
   \<and> rate_as_amended 2 1 (Some (Fin 50))
   \<and> rate_as_amended 1 0 (Some (Fin 0))"
proof -
  have r: "conversion_rate 2 4 = Fin 50" "conversion_rate (Suc 0) 2 = Fin 50"
    "conversion_rate 0 (Suc 0) = Fin 0" by code_simp+
  have e: "Suc (Suc (Suc (Suc 0))) = 4" "Suc (Suc 0) = 2" by simp_all
  have l: "length [(), (), (), ()] < 2 ^ 32"
    "length [\<lparr> opp_name = Undefined, opportunity_amount = Value (Fin 10) \<rparr>,
       \<lparr> opp_name = Undefined, opportunity_amount = Null \<rparr>] < 2 ^ 32"
    "length [\<lparr> quot_name = Undefined, quot_grand_total = Value (Fin 10) \<rparr>] < 2 ^ 32"
    "length ([] :: SalesOrder list) < 2 ^ 32" by simp_all
  from sales_funnel_rate_amended[OF l]
  have "\<forall>i. 1 \<le> i \<and> i < 4 \<longrightarrow>
          rate_as_amended
            (stage_count (erpnext_sales_funnel [(), (), (), ()]
      [\<lparr> opp_name = Undefined, opportunity_amount = Value (Fin 10) \<rparr>,
       \<lparr> opp_name = Undefined, opportunity_amount = Null \<rparr>]
      [\<lparr> quot_name = Undefined, quot_grand_total = Value (Fin 10) \<rparr>] [] ! (i - 1)))
            (stage_count (erpnext_sales_funnel [(), (), (), ()]
      [\<lparr> opp_name = Undefined, opportunity_amount = Value (Fin 10) \<rparr>,
       \<lparr> opp_name = Undefined, opportunity_amount = Null \<rparr>]
      [\<lparr> quot_name = Undefined, quot_grand_total = Value (Fin 10) \<rparr>] [] ! i))
            (conversionRate (erpnext_sales_funnel [(), (), (), ()]
      [\<lparr> opp_name = Undefined, opportunity_amount = Value (Fin 10) \<rparr>,
       \<lparr> opp_name = Undefined, opportunity_amount = Null \<rparr>]
      [\<lparr> quot_name = Undefined, quot_grand_total = Value (Fin 10) \<rparr>] [] ! i))" by blast
  from this[rule_format, of 1] this[rule_format, of 2] this[rule_format, of 3]
  show ?thesis by (simp add: erpnext_sales_funnel_def e r)
qed

section \<open>The submit handlers fetch before they submit\<close>

text \<open>
  Claim C1. Each of the three submit handlers (\<^verbatim>\<open>erpnext_sales_order_submit\<close>,
  \<^verbatim>\<open>erpnext_sales_invoice_submit\<close> and the generic \<^verbatim>\<open>erpnext_doc_submit\<close>), for every
  input, every client and every remote state: when the input is complete, the handler
  first applies the client's \<^verbatim>\<open>get\<close> for (doctype, name) to the remote state; if that fetch
  is rejected, nothing else is called and the fetch's error is thrown; if it returns a
  record, the handler applies \<^verbatim>\<open>frappe.client.submit\<close> to the state the fetch left, with
  exactly that record carrying the doctype tag as the document, and the run ends in the
  remote state and with the result (or error) of that submit. When the input is
  incomplete, no call is made, the remote state is untouched and the missing field is
  reported. In every run, a \<^verbatim>\<open>callMethod\<close> call occurs only as the second of two calls,
  right after the successful fetch of the same (doctype, name), with the fetched record as
  its document.
\<close>

theorem submit_fetches_first:
  "(truthy (get_prop input ''name'') \<longrightarrow>
      fetch_then_submit client r0 (JStr ''Sales Order'') (get_prop input ''name'') []
        (erpnext_sales_order_submit input client r0)
      \<and> fetch_then_submit client r0 (JStr ''Sales Invoice'') (get_prop input ''name'') []
        (erpnext_sales_invoice_submit input client r0))
   \<and> (truthy (get_prop input ''doctype'') \<and> truthy (get_prop input ''name'') \<longrightarrow>
      fetch_then_submit client r0 (get_prop input ''doctype'') (get_prop input ''name'')
        [(''doctype'', get_prop input ''doctype''), (''name'', get_prop input ''name'')]
        (erpnext_doc_submit input client r0))
   \<and> (\<not> truthy (get_prop input ''name'') \<longrightarrow>
      erpnext_sales_order_submit input client r0
        = \<lparr> run_result = Inl (MissingField ''erpnext_sales_order_submit'' ''name''),
            run_calls = [], run_remote = r0 \<rparr>
      \<and> erpnext_sales_invoice_submit input client r0
        = \<lparr> run_result = Inl (MissingField ''erpnext_sales_invoice_submit'' ''name''),
            run_calls = [], run_remote = r0 \<rparr>)
   \<and> (\<not> (truthy (get_prop input ''doctype'') \<and> truthy (get_prop input ''name'')) \<longrightarrow>
      erpnext_doc_submit input client r0
        = \<lparr> run_result = Inl (MissingField ''erpnext_doc_submit''
                                 (if truthy (get_prop input ''doctype'') then ''name''
                                  else ''doctype'')),
            run_calls = [], run_remote = r0 \<rparr>)
   \<and> submit_only_after_fetch client r0 (JStr ''Sales Order'') (get_prop input ''name'')
        (run_calls (erpnext_sales_order_submit input client r0))
   \<and> submit_only_after_fetch client r0 (JStr ''Sales Invoice'') (get_prop input ''name'')
        (run_calls (erpnext_sales_invoice_submit input client r0))
   \<and> submit_only_after_fetch client r0 (get_prop input ''doctype'') (get_prop input ''name'')
        (run_calls (erpnext_doc_submit input client r0))"
proof -
  have a: "fetch_then_submit client r0 (JStr ''Sales Order'') (get_prop input ''name'') []
             (erpnext_sales_order_submit input client r0)"
    "fetch_then_submit client r0 (JStr ''Sales Invoice'') (get_prop input ''name'') []
             (erpnext_sales_invoice_submit input client r0)"
    if "truthy (get_prop input ''name'')"
    using that
    by (simp_all add: fetch_then_submit_def erpnext_sales_order_submit_def
        erpnext_sales_invoice_submit_def call_get_def call_callMethod_def Let_def
        split: prod.splits sum.splits)
  have b: "fetch_then_submit client r0 (get_prop input ''doctype'') (get_prop input ''name'')
        [(''doctype'', get_prop input ''doctype''), (''name'', get_prop input ''name'')]
        (erpnext_doc_submit input client r0)"
    if "truthy (get_prop input ''doctype'') \<and> truthy (get_prop input ''name'')"
    using that
    by (simp add: fetch_then_submit_def erpnext_doc_submit_def call_get_def
        call_callMethod_def Let_def split: prod.splits sum.splits)
  have c: "erpnext_sales_order_submit input client r0
        = \<lparr> run_result = Inl (MissingField ''erpnext_sales_order_submit'' ''name''),
            run_calls = [], run_remote = r0 \<rparr>"
    "erpnext_sales_invoice_submit input client r0
        = \<lparr> run_result = Inl (MissingField ''erpnext_sales_invoice_submit'' ''name''),
            run_calls = [], run_remote = r0 \<rparr>"
    if "\<not> truthy (get_prop input ''name'')"
    using that
    by (simp_all add: erpnext_sales_order_submit_def erpnext_sales_invoice_submit_def)
  have d: "erpnext_doc_submit input client r0
        = \<lparr> run_result = Inl (MissingField ''erpnext_doc_submit''
                                 (if truthy (get_prop input ''doctype'') then ''name''
                                  else ''doctype'')),
            run_calls = [], run_remote = r0 \<rparr>"
    if "\<not> (truthy (get_prop input ''doctype'') \<and> truthy (get_prop input ''name''))"
    using that by (auto simp: erpnext_doc_submit_def)
  have e: "submit_only_after_fetch client r0 (JStr ''Sales Order'') (get_prop input ''name'')
        (run_calls (erpnext_sales_order_submit input client r0))"
    by (auto simp: submit_only_after_fetch_def erpnext_sales_order_submit_def call_get_def
        call_callMethod_def split: prod.splits sum.splits if_splits)
  have f: "submit_only_after_fetch client r0 (JStr ''Sales Invoice'') (get_prop input ''name'')
        (run_calls (erpnext_sales_invoice_submit input client r0))"
    by (auto simp: submit_only_after_fetch_def erpnext_sales_invoice_submit_def call_get_def
        call_callMethod_def split: prod.splits sum.splits if_splits)
  have g: "submit_only_after_fetch client r0 (get_prop input ''doctype'') (get_prop input ''name'')
        (run_calls (erpnext_doc_submit input client r0))"
    by (auto simp: submit_only_after_fetch_def erpnext_doc_submit_def call_get_def
        call_callMethod_def split: prod.splits sum.splits if_splits)
  show ?thesis using a b c d e f g by blast
qed

theorem submit_fetches_first_witness:
  "truthy (get_prop [(''doctype'', JStr ''Timesheet''), (''name'', JStr ''TS-0001'')] ''doctype'')
   \<and> truthy (get_prop [(''doctype'', JStr ''Timesheet''), (''name'', JStr ''TS-0001'')] ''name'')
   \<and> run_calls (erpnext_doc_submit
        [(''doctype'', JStr ''Timesheet''), (''name'', JStr ''TS-0001'')]
        \<lparr> client_get = (\<lambda>dt nm (r::jsval list).
              (Inr [(''name'', nm), (''fetched_after'', JNum (Fin (of_nat (length r))))]
                 :: unit + (string \<times> jsval) list, r)),
          client_callMethod = (\<lambda>m args r. (Inr (JStr m), r @ [get_prop args ''doc''])) \<rparr> [])
     = [GetCall (JStr ''Timesheet'') (JStr ''TS-0001''),
        CallMethodCall ''frappe.client.submit''
          [(''doc'', JObj [(''name'', JStr ''TS-0001''), (''fetched_after'', JNum (Fin 0)),
                           (''doctype'', JStr ''Timesheet'')])]]
   \<and> run_remote (erpnext_doc_submit
        [(''doctype'', JStr ''Timesheet''), (''name'', JStr ''TS-0001'')]
        \<lparr> client_get = (\<lambda>dt nm (r::jsval list).
              (Inr [(''name'', nm), (''fetched_after'', JNum (Fin (of_nat (length r))))]
                 :: unit + (string \<times> jsval) list, r)),
          client_callMethod = (\<lambda>m args r. (Inr (JStr m), r @ [get_prop args ''doc''])) \<rparr> [])
     = [JObj [(''name'', JStr ''TS-0001''), (''fetched_after'', JNum (Fin 0)),
              (''doctype'', JStr ''Timesheet'')]]
   \<and> run_result (erpnext_doc_submit
        [(''doctype'', JStr ''Timesheet''), (''name'', JStr ''TS-0001'')]
        \<lparr> client_get = (\<lambda>dt nm (r::jsval list).
              (Inr [(''name'', nm), (''fetched_after'', JNum (Fin (of_nat (length r))))]
                 :: unit + (string \<times> jsval) list, r)),
          client_callMethod = (\<lambda>m args r. (Inr (JStr m), r @ [get_prop args ''doc''])) \<rparr> [])
     = Inr [(''data'', JStr ''frappe.client.submit''), (''doctype'', JStr ''Timesheet''),
            (''name'', JStr ''TS-0001'')]"
  using submit_fetches_first
    [of "[(''doctype'', JStr ''Timesheet''), (''name'', JStr ''TS-0001'')]"
        "\<lparr> client_get = (\<lambda>dt nm (r::jsval list).
              (Inr [(''name'', nm), (''fetched_after'', JNum (Fin (of_nat (length r))))]
                 :: unit + (string \<times> jsval) list, r)),
          client_callMethod = (\<lambda>m args r. (Inr (JStr m), r @ [get_prop args ''doc''])) \<rparr>"
        "[]"]
  by (simp add: fetch_then_submit_def get_prop_def Let_def)

section \<open>The error classes of the REST client\<close>

text \<open>
  Claim C3, as stated: the timeout, the network failure and the remote HTTP failure are
  pairwise distinguishable by status. A remote response with HTTP status 408 (Request
  Timeout) gives an error of status 408, the status of the client's own timeout.
\<close>

theorem request_status_408_counterexample:
  "request 30000 ''GET'' ''/api/resource/Item'' (Rejected (abort_error ''aborted''))
     = Inl (APIError \<lparr> api_message = TimedOut 30000 ''GET'' ''/api/resource/Item'',
                        api_status = 408, api_body = JNull \<rparr>)
   \<and> request 30000 ''GET'' ''/api/resource/Item''
       (Resolved \<lparr> resp_status = 408, resp_statusText = ''Request Timeout'',
                   resp_content_type = Some ''text/html'',
                   resp_json = Inr JNull, resp_text = Inr ''busy'' \<rparr>)
     = Inl (APIError \<lparr> api_message = Failed ''GET'' ''/api/resource/Item'' (JStr ''Request Timeout''),
                        api_status = 408, api_body = JStr ''busy'' \<rparr>)"
  by (simp add: request_def abort_error_def read_body_def resp_ok_def failure_detail_def)

text \<open>
  Claim C3, amended. For every request: when the abort signal fires, the thrown
  \<^verbatim>\<open>FrappeAPIError\<close> has status 408 and a null body; when \<^verbatim>\<open>fetch\<close> rejects for any other
  reason, it has status 0 and a null body; when a response with a non-ok status arrives
  and its body is read, it carries exactly the remote status and the body as read. The
  three errors have pairwise different statuses whenever the remote status is neither 408
  nor 0. No failure is turned into a result: the request returns a value only for an ok
  response, and then it is that response's body.
\<close>

theorem request_error_classes:
  assumes "is_Error a \<and> error_name a = ''AbortError''"
    and "\<not> (is_Error n \<and> error_name n = ''AbortError'')"
    and "\<not> resp_ok response" and "read_body response = Inr body"
  shows "request t method path (Rejected a)
           = Inl (APIError \<lparr> api_message = TimedOut t method path,
                              api_status = 408, api_body = JNull \<rparr>)
    \<and> request t method path (Rejected n)
           = Inl (APIError \<lparr> api_message = NetworkError method path (error_message n),
                              api_status = 0, api_body = JNull \<rparr>)
    \<and> request t method path (Resolved response)
           = Inl (APIError \<lparr> api_message = Failed method path
                                  (failure_detail body (resp_statusText response)),
                              api_status = resp_status response, api_body = body \<rparr>)
    \<and> (resp_status response \<noteq> 408 \<and> resp_status response \<noteq> 0 \<longrightarrow>
         distinct [error_status (request t method path (Rejected a)),
                   error_status (request t method path (Rejected n)),
                   error_status (request t method path (Resolved response))])
    \<and> (request t method path outcome = Inr v \<longrightarrow>
         (\<exists>r. outcome = Resolved r \<and> resp_ok r \<and> read_body r = Inr v))"
proof -
  have 1: "request t method path (Rejected a)
           = Inl (APIError \<lparr> api_message = TimedOut t method path,
                              api_status = 408, api_body = JNull \<rparr>)"
    using assms(1) by (simp add: request_def)
  have 2: "request t method path (Rejected n)
           = Inl (APIError \<lparr> api_message = NetworkError method path (error_message n),
                              api_status = 0, api_body = JNull \<rparr>)"
    using assms(2) by (simp add: request_def)
  have 3: "request t method path (Resolved response)
           = Inl (APIError \<lparr> api_message = Failed method path
                                  (failure_detail body (resp_statusText response)),
                              api_status = resp_status response, api_body = body \<rparr>)"
    using assms(3,4) by (simp add: request_def)
  have 4: "distinct [error_status (request t method path (Rejected a)),
                   error_status (request t method path (Rejected n)),
                   error_status (request t method path (Resolved response))]"
    if "resp_status response \<noteq> 408 \<and> resp_status response \<noteq> 0"
    using that by (simp add: 1 2 3 error_status_def)
  have 5: "\<exists>r. outcome = Resolved r \<and> resp_ok r \<and> read_body r = Inr v"
    if "request t method path outcome = Inr v"
    using that by (auto simp: request_def split: fetch_outcome.splits sum.splits if_splits)
  show ?thesis using 1 2 3 4 5 by blast
qed

theorem request_error_classes_witness:
  "request 30000 ''POST'' ''/api/method/frappe.client.submit''
       (Resolved \<lparr> resp_status = 417, resp_statusText = ''Expectation Failed'',
                resp_content_type = Some ''application/json; charset=utf-8'',
                resp_json = Inr (JObj [(''exc_type'', JStr ''ValidationError'')]),
                resp_text = Inr [] \<rparr>)
     = Inl (APIError \<lparr> api_message = Failed ''POST'' ''/api/method/frappe.client.submit''
                                        (JStr ''ValidationError''),
                        api_status = 417,
                        api_body = JObj [(''exc_type'', JStr ''ValidationError'')] \<rparr>)
   \<and> error_status (request 30000 ''POST'' ''/api/method/frappe.client.submit''
        (Rejected (abort_error ''aborted''))) = Some 408
   \<and> error_status (request 30000 ''POST'' ''/api/method/frappe.client.submit''
        (Rejected \<lparr> is_Error = True, error_name = ''TypeError'',
                    error_message = ''refused'' \<rparr>)) = Some 0"
proof -
  let ?resp = "\<lparr> resp_status = 417, resp_statusText = ''Expectation Failed'',
                resp_content_type = Some ''application/json; charset=utf-8'',
                resp_json = Inr (JObj [(''exc_type'', JStr ''ValidationError'')]),
                resp_text = Inr [] \<rparr>"
  let ?n = "\<lparr> is_Error = True, error_name = ''TypeError'', error_message = ''refused'' \<rparr>"
  have a: "is_Error (abort_error ''aborted'') \<and> error_name (abort_error ''aborted'') = ''AbortError''"
    by (simp add: abort_error_def)
  have n: "\<not> (is_Error ?n \<and> error_name ?n = ''AbortError'')" by simp
  have r: "\<not> resp_ok ?resp" by (simp add: resp_ok_def)
  have b: "read_body ?resp = Inr (JObj [(''exc_type'', JStr ''ValidationError'')])"
    by (simp add: read_body_def)
  from request_error_classes[OF a n r b, of 30000 "''POST''"
      "''/api/method/frappe.client.submit''" "Rejected ?n" JNull]
  show ?thesis
    by (simp add: error_status_def failure_detail_def get_prop_def)
qed

section \<open>The pipelines: grouping and omission\<close>

lemma group_by_status_result:
  "group_by_status proto status_of orders grouped = Inr g \<Longrightarrow>
   g s = (case grouped s of
            None \<Rightarrow> (if filter (\<lambda>r. grouping_status (status_of r) = s) orders = [] then None
                     else Some (filter (\<lambda>r. grouping_status (status_of r) = s) orders))
          | Some ys \<Rightarrow> Some (ys @ filter (\<lambda>r. grouping_status (status_of r) = s) orders))"
proof (induction orders arbitrary: grouped)
  case Nil
  then show ?case by (simp split: option.splits)
next
  case (Cons order orders)
  let ?k = "nullish_or (status_of order) ''Draft''"
  show ?case
  proof (cases "grouped ?k")
    case None
    with Cons.prems
    have rest: "group_by_status proto status_of orders (grouped(?k \<mapsto> [order])) = Inr g"
      by (auto simp: Let_def split: if_splits)
    from Cons.IH[OF rest] None show ?thesis
      by (auto simp: grouping_status_def split: option.splits)
  next
    case (Some xs)
    with Cons.prems
    have rest: "group_by_status proto status_of orders (grouped(?k \<mapsto> xs @ [order])) = Inr g"
      by (simp add: Let_def)
    from Cons.IH[OF rest] Some show ?thesis
      by (auto simp: grouping_status_def split: option.splits)
  qed
qed

lemma group_by_status_error:
  "group_by_status proto status_of orders grouped = Inl e \<Longrightarrow> e = TypeError"
  by (induction orders arbitrary: grouped) (auto simp: Let_def split: option.splits if_splits)

text \<open>The grouping loop completes exactly when no new status reads as a truthy inherited value.\<close>

lemma group_by_status_runs:
  "(\<exists>g. group_by_status proto status_of orders grouped = Inr g)
   \<longleftrightarrow> (\<forall>r \<in> set orders. grouping_status (status_of r) \<in> dom grouped
                          \<or> \<not> inherited_truthy proto (grouping_status (status_of r)))"
proof (induction orders arbitrary: grouped)
  case Nil
  show ?case by simp
next
  case (Cons order orders)
  let ?k = "nullish_or (status_of order) ''Draft''"
  show ?case
  proof (cases "grouped ?k")
    case None
    show ?thesis
    proof (cases "inherited_truthy proto ?k")
      case True
      with None show ?thesis by (auto simp: Let_def grouping_status_def)
    next
      case False
      have "(\<exists>g. group_by_status proto status_of (order # orders) grouped = Inr g)
            \<longleftrightarrow> (\<exists>g. group_by_status proto status_of orders (grouped(?k \<mapsto> [order])) = Inr g)"
        using None False by (simp add: Let_def)
      also have "\<dots> \<longleftrightarrow> (\<forall>r \<in> set orders.
                    grouping_status (status_of r) \<in> dom (grouped(?k \<mapsto> [order]))
                    \<or> \<not> inherited_truthy proto (grouping_status (status_of r)))"
        by (rule Cons.IH)
      also have "\<dots> \<longleftrightarrow> (\<forall>r \<in> set (order # orders).
                    grouping_status (status_of r) \<in> dom grouped
                    \<or> \<not> inherited_truthy proto (grouping_status (status_of r)))"
        using False by (auto simp: grouping_status_def)
      finally show ?thesis .
    qed
  next
    case (Some xs)
    have "(\<exists>g. group_by_status proto status_of (order # orders) grouped = Inr g)
          \<longleftrightarrow> (\<exists>g. group_by_status proto status_of orders (grouped(?k \<mapsto> xs @ [order])) = Inr g)"
      using Some by (simp add: Let_def)
    also have "\<dots> \<longleftrightarrow> (\<forall>r \<in> set orders.
                  grouping_status (status_of r) \<in> dom (grouped(?k \<mapsto> xs @ [order]))
                  \<or> \<not> inherited_truthy proto (grouping_status (status_of r)))"
      by (rule Cons.IH)
    also have "\<dots> \<longleftrightarrow> (\<forall>r \<in> set (order # orders).
                  grouping_status (status_of r) \<in> dom grouped
                  \<or> \<not> inherited_truthy proto (grouping_status (status_of r)))"
      using Some by (auto simp: grouping_status_def)
    finally show ?thesis .
  qed
qed

lemma filter_status_empty:
  "filter (\<lambda>r. grouping_status (status_of r) = s) orders = []
   \<longleftrightarrow> s \<notin> grouping_status ` set (map status_of orders)"
  by (auto simp: filter_empty_conv)

text \<open>Both pipelines, as a function of the prototype's state and the fetched list.\<close>

lemma pipeline_eval:
  "(case group_by_status proto status_of orders Map.empty of
      Inl e \<Rightarrow> Inl e
    | Inr g \<Rightarrow> pipeline_columns proto status_map total_of make_card g)
   = (if pipeline_runs proto status_map (map status_of orders)
      then Inr (columns_of status_map status_of total_of make_card orders)
      else Inl TypeError)"
proof (cases "group_by_status proto status_of orders Map.empty")
  case (Inl e)
  then have e: "e = TypeError" by (rule group_by_status_error)
  have "\<not> (\<exists>g. group_by_status proto status_of orders Map.empty = Inr g)"
    using Inl by simp
  then have "\<not> (\<forall>r \<in> set orders. \<not> inherited_truthy proto (grouping_status (status_of r)))"
    unfolding group_by_status_runs by simp
  then have "\<not> pipeline_runs proto status_map (map status_of orders)"
    by (auto simp: pipeline_runs_def list_all_iff)
  with Inl e show ?thesis by simp
next
  case (Inr g)
  have g: "g s = (if filter (\<lambda>r. grouping_status (status_of r) = s) orders = [] then None
                  else Some (filter (\<lambda>r. grouping_status (status_of r) = s) orders))" for s
    using group_by_status_result[OF Inr, of s] by simp
  have "\<exists>g. group_by_status proto status_of orders Map.empty = Inr g" using Inr by blast
  then have ok1: "\<forall>r \<in> set orders. \<not> inherited_truthy proto (grouping_status (status_of r))"
    unfolding group_by_status_runs by simp
  have gN: "g s = None \<longleftrightarrow> s \<notin> grouping_status ` status_of ` set orders" for s
    by (auto simp: g filter_empty_conv)
  have ex: "list_ex (\<lambda>(status, label, color).
                    g status = None \<and> inherited_length_positive proto status) status_map
        \<longleftrightarrow> \<not> pipeline_runs proto status_map (map status_of orders)"
    using ok1
    by (simp add: pipeline_runs_def list_all_iff list_ex_iff gN case_prod_beta)
  have f: "filter (\<lambda>(status, label, color).
                    (case g status of Some xs \<Rightarrow> 0 < length xs | None \<Rightarrow> False)) status_map
         = filter (\<lambda>(status, label, color).
                    filter (\<lambda>r. grouping_status (status_of r) = status) orders \<noteq> []) status_map"
    by (rule filter_cong) (auto simp: g)
  have m: "map (\<lambda>(status, label, color).
                       (let statusOrders = (case g status of Some xs \<Rightarrow> xs | None \<Rightarrow> [])
                        in \<lparr> col_status = status, col_label = label, col_color = color,
                             col_count = length statusOrders,
                             col_total = sum_field total_of statusOrders,
                             col_orders = map make_card statusOrders \<rparr>))
                    (filter (\<lambda>(status, label, color).
                               (case g status of
                                  Some xs \<Rightarrow> 0 < length xs
                                | None \<Rightarrow> False))
                            status_map)
          = columns_of status_map status_of total_of make_card orders"
    unfolding f columns_of_def
    by (rule map_cong) (auto simp: g Let_def)
  show ?thesis
    using ex by (simp add: Inr pipeline_columns_def m)
qed

lemma order_pipeline_eval:
  "erpnext_order_pipeline proto orders
   = (if pipeline_runs proto SO_STATUS_MAP (map so_status orders)
      then Inr (columns_of SO_STATUS_MAP so_status so_grand_total so_card orders)
      else Inl TypeError)"
  unfolding erpnext_order_pipeline_def by (rule pipeline_eval)

lemma purchase_pipeline_eval:
  "erpnext_purchase_pipeline proto orders
   = (if pipeline_runs proto PO_STATUS_MAP (map po_status orders)
      then Inr (columns_of PO_STATUS_MAP po_status po_grand_total po_card orders)
      else Inl TypeError)"
  unfolding erpnext_purchase_pipeline_def by (rule pipeline_eval)

lemma filter_mapped_same:
  assumes "s \<in> fst ` set status_map"
  shows "filter (\<lambda>r. grouping_status (status_of r) = s)
           (filter (\<lambda>r. mapped_status status_map (status_of r)) orders)
         = filter (\<lambda>r. grouping_status (status_of r) = s) orders"
  using assms by (induction orders) (auto simp: mapped_status_def)

lemma filter_mapped_entry:
  assumes "(s, l, c) \<in> set status_map"
  shows "filter (\<lambda>r. grouping_status (status_of r) = s)
           (filter (\<lambda>r. mapped_status status_map (status_of r)) orders)
         = filter (\<lambda>r. grouping_status (status_of r) = s) orders"
proof -
  have "fst (s, l, c) \<in> fst ` set status_map" using assms by (rule imageI)
  then show ?thesis by (simp only: fst_conv filter_mapped_same)
qed

text \<open>Records with a status outside the map change neither the columns nor whether there are any.\<close>

lemma columns_of_drop_unmapped:
  "columns_of status_map status_of total_of make_card
     (filter (\<lambda>r. mapped_status status_map (status_of r)) orders)
   = columns_of status_map status_of total_of make_card orders"
proof -
  let ?orders' = "filter (\<lambda>r. mapped_status status_map (status_of r)) orders"
  have A: "filter (\<lambda>(status, label, color).
              filter (\<lambda>r. grouping_status (status_of r) = status) ?orders' \<noteq> []) status_map
         = filter (\<lambda>(status, label, color).
              filter (\<lambda>r. grouping_status (status_of r) = status) orders \<noteq> []) status_map"
    by (rule filter_cong[OF refl]) (auto simp del: filter_filter simp: filter_mapped_entry)
  show ?thesis
    unfolding columns_of_def A
    by (rule map_cong[OF refl]) (auto simp del: filter_filter simp: filter_mapped_entry)
qed

lemma pipeline_runs_drop_unmapped:
  assumes "pipeline_runs proto status_map (map status_of orders)"
  shows "pipeline_runs proto status_map
           (map status_of (filter (\<lambda>r. mapped_status status_map (status_of r)) orders))"
proof -
  have a: "\<forall>r \<in> set orders. \<not> inherited_truthy proto (grouping_status (status_of r))"
    and b: "\<forall>(k, l, c) \<in> set status_map.
              k \<in> grouping_status ` status_of ` set orders \<or> \<not> inherited_length_positive proto k"
    using assms by (auto simp: pipeline_runs_def list_all_iff)
  have "k \<in> grouping_status ` status_of `
              set (filter (\<lambda>r. mapped_status status_map (status_of r)) orders)
        \<or> \<not> inherited_length_positive proto k"
    if e: "(k, l, c) \<in> set status_map" for k l c
  proof (cases "k \<in> grouping_status ` status_of ` set orders")
    case True
    then obtain r where r: "r \<in> set orders" "grouping_status (status_of r) = k" by auto
    have "fst (k, l, c) \<in> fst ` set status_map" using e by (rule imageI)
    then have "mapped_status status_map (status_of r)" using r by (simp add: mapped_status_def)
    then show ?thesis using r by force
  next
    case False
    with b e show ?thesis by auto
  qed
  with a show ?thesis by (auto simp: pipeline_runs_def list_all_iff)
qed

lemma grouping_status_draft: "grouping_status s = ''Draft'' \<longleftrightarrow> counts_as_draft s"
  by (cases s) (auto simp: grouping_status_def counts_as_draft_def)

lemma inherited_truthy_fresh: "inherited_truthy [] k \<longleftrightarrow> k \<in> set object_prototype_keys"
  by (auto simp: inherited_truthy_def inherited_at_def object_prototype_keys_def)

lemma pipeline_runs_fresh:
  "pipeline_runs [] status_map statuses
   \<longleftrightarrow> (\<forall>s \<in> set statuses. grouping_status s \<notin> set object_prototype_keys)"
  by (auto simp: pipeline_runs_def list_all_iff inherited_truthy_fresh
      inherited_length_positive_def)

text \<open>
  Claim C6. In every state of \<^verbatim>\<open>Object.prototype\<close> in which the handler returns columns
  for them (a process that has not written to \<^verbatim>\<open>Object.prototype\<close> is one), three fetched
  orders with totals 1000, 2000 and 1500 and statuses Draft, Draft and Completed give
  exactly two columns: Draft with count 2 and total 3000, and Completed with count 1 and
  total 1500. The handler returns columns exactly when no status of a fetched record reads
  as a truthy inherited value and no unused key of the status map reads as an inherited
  value of positive length, and throws a TypeError otherwise; in a process that has not
  written to \<^verbatim>\<open>Object.prototype\<close> that is: exactly when no status is the name of a
  built-in property. After a write of 100 to \<^verbatim>\<open>Object.prototype.Draft\<close> the three orders make
  the handler throw. For every state and every fetched list for which the handler returns
  columns: removing every record whose status is not a key of the status map leaves the
  columns unchanged, every column's status is a key of the map, and a column's count,
  total and cards are those of the records with exactly that status; so a record with an
  unmapped status yields no column and adds to no count or total.
\<close>

theorem order_pipeline_columns:
  "(pipeline_runs proto SO_STATUS_MAP [Value ''Draft'', Value ''Draft'', Value ''Completed''] \<longrightarrow>
    erpnext_order_pipeline proto
     [\<lparr> so_name = Value ''SO-1'', so_customer = Value ''C1'', so_customer_name = Value ''Acme'',
        so_status = Value ''Draft'', so_grand_total = Value (Fin 1000),
        so_transaction_date = Value ''2026-01-10'', so_delivery_date = Undefined \<rparr>,
      \<lparr> so_name = Value ''SO-2'', so_customer = Value ''C1'', so_customer_name = Value ''Acme'',
        so_status = Value ''Draft'', so_grand_total = Value (Fin 2000),
        so_transaction_date = Value ''2026-01-11'', so_delivery_date = Undefined \<rparr>,
      \<lparr> so_name = Value ''SO-3'', so_customer = Value ''C2'', so_customer_name = Null,
        so_status = Value ''Completed'', so_grand_total = Value (Fin 1500),
        so_transaction_date = Value ''2026-01-12'', so_delivery_date = Undefined \<rparr>]
    = Inr
     [\<lparr> col_status = ''Draft'', col_label = ''Draft'', col_color = ''#78716c'',
        col_count = 2, col_total = Fin 3000,
        col_orders =
          [\<lparr> card_name = Value ''SO-1'', card_customer = Value ''Acme'', card_amount = Fin 1000,
             card_date = Value ''2026-01-10'', card_delivery_date = Undefined \<rparr>,
           \<lparr> card_name = Value ''SO-2'', card_customer = Value ''Acme'', card_amount = Fin 2000,
             card_date = Value ''2026-01-11'', card_delivery_date = Undefined \<rparr>] \<rparr>,
      \<lparr> col_status = ''Completed'', col_label = ''Completed'', col_color = ''#4ade80'',
        col_count = 1, col_total = Fin 1500,
        col_orders =
          [\<lparr> card_name = Value ''SO-3'', card_customer = Value ''C2'', card_amount = Fin 1500,
             card_date = Value ''2026-01-12'', card_delivery_date = Undefined \<rparr>] \<rparr>])
   \<and> pipeline_runs [] SO_STATUS_MAP [Value ''Draft'', Value ''Draft'', Value ''Completed'']
   \<and> erpnext_order_pipeline [(''Draft'', Num (Fin 100))]
     [\<lparr> so_name = Value ''SO-1'', so_customer = Value ''C1'', so_customer_name = Value ''Acme'',
        so_status = Value ''Draft'', so_grand_total = Value (Fin 1000),
        so_transaction_date = Value ''2026-01-10'', so_delivery_date = Undefined \<rparr>,
      \<lparr> so_name = Value ''SO-2'', so_customer = Value ''C1'', so_customer_name = Value ''Acme'',
        so_status = Value ''Draft'', so_grand_total = Value (Fin 2000),
        so_transaction_date = Value ''2026-01-11'', so_delivery_date = Undefined \<rparr>,
      \<lparr> so_name = Value ''SO-3'', so_customer = Value ''C2'', so_customer_name = Null,
        so_status = Value ''Completed'', so_grand_total = Value (Fin 1500),
        so_transaction_date = Value ''2026-01-12'', so_delivery_date = Undefined \<rparr>]
    = Inl TypeError
   \<and> ((\<exists>cs. erpnext_order_pipeline proto orders = Inr cs)
        \<longleftrightarrow> pipeline_runs proto SO_STATUS_MAP (map so_status orders))
   \<and> (erpnext_order_pipeline proto orders = Inl e \<longrightarrow> e = TypeError)
   \<and> (pipeline_runs [] SO_STATUS_MAP (map so_status orders)
        \<longleftrightarrow> (\<forall>r \<in> set orders. grouping_status (so_status r) \<notin> set object_prototype_keys))
   \<and> (erpnext_order_pipeline proto orders = Inr cols \<longrightarrow>
        erpnext_order_pipeline proto
          (filter (\<lambda>r. mapped_status SO_STATUS_MAP (so_status r)) orders) = Inr cols
        \<and> (\<forall>c \<in> set cols.
              col_status c \<in> fst ` set SO_STATUS_MAP
              \<and> col_count c
                  = length (filter (\<lambda>r. so_status r = Value (col_status c)
                                        \<or> (col_status c = ''Draft'' \<and> counts_as_draft (so_status r)))
                              orders)
              \<and> col_total c
                  = sum_field so_grand_total
                      (filter (\<lambda>r. so_status r = Value (col_status c)
                                        \<or> (col_status c = ''Draft'' \<and> counts_as_draft (so_status r)))
                              orders)
              \<and> col_orders c
                  = map so_card
                      (filter (\<lambda>r. so_status r = Value (col_status c)
                                        \<or> (col_status c = ''Draft'' \<and> counts_as_draft (so_status r)))
                              orders)))"
proof -
  let ?S = "[\<lparr> so_name = Value ''SO-1'', so_customer = Value ''C1'', so_customer_name = Value ''Acme'',
        so_status = Value ''Draft'', so_grand_total = Value (Fin 1000),
        so_transaction_date = Value ''2026-01-10'', so_delivery_date = Undefined \<rparr>,
      \<lparr> so_name = Value ''SO-2'', so_customer = Value ''C1'', so_customer_name = Value ''Acme'',
        so_status = Value ''Draft'', so_grand_total = Value (Fin 2000),
        so_transaction_date = Value ''2026-01-11'', so_delivery_date = Undefined \<rparr>,
      \<lparr> so_name = Value ''SO-3'', so_customer = Value ''C2'', so_customer_name = Null,
        so_status = Value ''Completed'', so_grand_total = Value (Fin 1500),
        so_transaction_date = Value ''2026-01-12'', so_delivery_date = Undefined \<rparr>]"
  let ?C = "[\<lparr> col_status = ''Draft'', col_label = ''Draft'', col_color = ''#78716c'',
        col_count = 2, col_total = Fin 3000,
        col_orders =
          [\<lparr> card_name = Value ''SO-1'', card_customer = Value ''Acme'', card_amount = Fin 1000,
             card_date = Value ''2026-01-10'', card_delivery_date = Undefined \<rparr>,
           \<lparr> card_name = Value ''SO-2'', card_customer = Value ''Acme'', card_amount = Fin 2000,
             card_date = Value ''2026-01-11'', card_delivery_date = Undefined \<rparr>] \<rparr>,
      \<lparr> col_status = ''Completed'', col_label = ''Completed'', col_color = ''#4ade80'',
        col_count = 1, col_total = Fin 1500,
        col_orders =
          [\<lparr> card_name = Value ''SO-3'', card_customer = Value ''C2'', card_amount = Fin 1500,
             card_date = Value ''2026-01-12'', card_delivery_date = Undefined \<rparr>] \<rparr>]"
  have cols: "columns_of SO_STATUS_MAP so_status so_grand_total so_card ?S = ?C"
    by code_simp
  have scen: "erpnext_order_pipeline proto ?S = Inr ?C"
    if "pipeline_runs proto SO_STATUS_MAP [Value ''Draft'', Value ''Draft'', Value ''Completed'']"
    using that by (simp add: order_pipeline_eval cols)
  have fresh: "pipeline_runs [] SO_STATUS_MAP [Value ''Draft'', Value ''Draft'', Value ''Completed'']"
    by (simp add: pipeline_runs_fresh grouping_status_def object_prototype_keys_def)
  have polluted: "erpnext_order_pipeline [(''Draft'', Num (Fin 100))] ?S = Inl TypeError"
    by code_simp
  have runs: "(\<exists>cs. erpnext_order_pipeline proto orders = Inr cs)
        \<longleftrightarrow> pipeline_runs proto SO_STATUS_MAP (map so_status orders)"
    by (simp add: order_pipeline_eval)
  have err: "e = TypeError" if "erpnext_order_pipeline proto orders = Inl e"
    using that by (simp add: order_pipeline_eval split: if_splits)
  have fr: "pipeline_runs [] SO_STATUS_MAP (map so_status orders)
        \<longleftrightarrow> (\<forall>r \<in> set orders. grouping_status (so_status r) \<notin> set object_prototype_keys)"
    by (simp add: pipeline_runs_fresh)
  have sel: "(\<lambda>r. grouping_status (so_status r) = s)
           = (\<lambda>r. so_status r = Value s \<or> (s = ''Draft'' \<and> counts_as_draft (so_status r)))" for s
  proof (rule ext)
    fix r show "(grouping_status (so_status r) = s)
           = (so_status r = Value s \<or> (s = ''Draft'' \<and> counts_as_draft (so_status r)))"
      by (cases "so_status r") (auto simp: grouping_status_def counts_as_draft_def)
  qed
  have gen: "erpnext_order_pipeline proto
          (filter (\<lambda>r. mapped_status SO_STATUS_MAP (so_status r)) orders) = Inr cols
        \<and> (\<forall>c \<in> set cols.
              col_status c \<in> fst ` set SO_STATUS_MAP
              \<and> col_count c
                  = length (filter (\<lambda>r. so_status r = Value (col_status c)
                                        \<or> (col_status c = ''Draft'' \<and> counts_as_draft (so_status r)))
                              orders)
              \<and> col_total c
                  = sum_field so_grand_total
                      (filter (\<lambda>r. so_status r = Value (col_status c)
                                        \<or> (col_status c = ''Draft'' \<and> counts_as_draft (so_status r)))
                              orders)
              \<and> col_orders c
                  = map so_card
                      (filter (\<lambda>r. so_status r = Value (col_status c)
                                        \<or> (col_status c = ''Draft'' \<and> counts_as_draft (so_status r)))
                              orders))"
    if ok: "erpnext_order_pipeline proto orders = Inr cols"
  proof
    from ok have r: "pipeline_runs proto SO_STATUS_MAP (map so_status orders)"
      and c: "cols = columns_of SO_STATUS_MAP so_status so_grand_total so_card orders"
      by (auto simp: order_pipeline_eval split: if_splits)
    show "erpnext_order_pipeline proto
          (filter (\<lambda>r. mapped_status SO_STATUS_MAP (so_status r)) orders) = Inr cols"
      using pipeline_runs_drop_unmapped[OF r]
      by (simp add: order_pipeline_eval c columns_of_drop_unmapped)
    show "\<forall>c \<in> set cols.
              col_status c \<in> fst ` set SO_STATUS_MAP
              \<and> col_count c
                  = length (filter (\<lambda>r. so_status r = Value (col_status c)
                                        \<or> (col_status c = ''Draft'' \<and> counts_as_draft (so_status r)))
                              orders)
              \<and> col_total c
                  = sum_field so_grand_total
                      (filter (\<lambda>r. so_status r = Value (col_status c)
                                        \<or> (col_status c = ''Draft'' \<and> counts_as_draft (so_status r)))
                              orders)
              \<and> col_orders c
                  = map so_card
                      (filter (\<lambda>r. so_status r = Value (col_status c)
                                        \<or> (col_status c = ''Draft'' \<and> counts_as_draft (so_status r)))
                              orders)"
      unfolding sel[symmetric]
    proof
      fix x assume "x \<in> set cols"
      then obtain s l k where e: "(s, l, k) \<in> set SO_STATUS_MAP"
        and x: "x = \<lparr> col_status = s, col_label = l, col_color = k,
              col_count = length (filter (\<lambda>r. grouping_status (so_status r) = s) orders),
              col_total = sum_field so_grand_total
                            (filter (\<lambda>r. grouping_status (so_status r) = s) orders),
              col_orders = map so_card
                            (filter (\<lambda>r. grouping_status (so_status r) = s) orders) \<rparr>"
        unfolding c columns_of_def by auto
      have "fst (s, l, k) \<in> fst ` set SO_STATUS_MAP" using e by (rule imageI)
      then show "col_status x \<in> fst ` set SO_STATUS_MAP
              \<and> col_count x
                  = length (filter (\<lambda>r. grouping_status (so_status r) = col_status x) orders)
              \<and> col_total x
                  = sum_field so_grand_total
                      (filter (\<lambda>r. grouping_status (so_status r) = col_status x) orders)
              \<and> col_orders x
                  = map so_card
                      (filter (\<lambda>r. grouping_status (so_status r) = col_status x) orders)"
        by (simp add: x)
    qed
  qed
  show ?thesis using scen fresh polluted runs err fr gen by blast
qed

theorem order_pipeline_columns_witness:
  "erpnext_order_pipeline []
     [\<lparr> so_name = Value ''SO-7'', so_customer = Value ''C1'', so_customer_name = Value ''Acme'',
        so_status = Value ''On Hold'', so_grand_total = Value (Fin 700),
        so_transaction_date = Value ''2026-01-10'', so_delivery_date = Undefined \<rparr>,
      \<lparr> so_name = Value ''SO-8'', so_customer = Value ''C2'', so_customer_name = Null,
        so_status = Value ''Completed'', so_grand_total = Value (Fin 1500),
        so_transaction_date = Value ''2026-01-12'', so_delivery_date = Undefined \<rparr>]
   = Inr
     [\<lparr> col_status = ''Completed'', col_label = ''Completed'', col_color = ''#4ade80'',
        col_count = 1, col_total = Fin 1500,
        col_orders =
          [\<lparr> card_name = Value ''SO-8'', card_customer = Value ''C2'', card_amount = Fin 1500,
             card_date = Value ''2026-01-12'', card_delivery_date = Undefined \<rparr>] \<rparr>]
   \<and> erpnext_order_pipeline []
       (filter (\<lambda>r. mapped_status SO_STATUS_MAP (so_status r))
         [\<lparr> so_name = Value ''SO-7'', so_customer = Value ''C1'', so_customer_name = Value ''Acme'',
            so_status = Value ''On Hold'', so_grand_total = Value (Fin 700),
            so_transaction_date = Value ''2026-01-10'', so_delivery_date = Undefined \<rparr>,
          \<lparr> so_name = Value ''SO-8'', so_customer = Value ''C2'', so_customer_name = Null,
            so_status = Value ''Completed'', so_grand_total = Value (Fin 1500),
            so_transaction_date = Value ''2026-01-12'', so_delivery_date = Undefined \<rparr>])
   = Inr
     [\<lparr> col_status = ''Completed'', col_label = ''Completed'', col_color = ''#4ade80'',
        col_count = 1, col_total = Fin 1500,
        col_orders =
          [\<lparr> card_name = Value ''SO-8'', card_customer = Value ''C2'', card_amount = Fin 1500,
             card_date = Value ''2026-01-12'', card_delivery_date = Undefined \<rparr>] \<rparr>]
   \<and> erpnext_order_pipeline [(''Open'', Num (Fin 40))]
     [\<lparr> so_name = Value ''SO-1'', so_customer = Value ''C1'', so_customer_name = Value ''Acme'',
        so_status = Value ''Draft'', so_grand_total = Value (Fin 1000),
        so_transaction_date = Value ''2026-01-10'', so_delivery_date = Undefined \<rparr>,
      \<lparr> so_name = Value ''SO-2'', so_customer = Value ''C1'', so_customer_name = Value ''Acme'',
        so_status = Value ''Draft'', so_grand_total = Value (Fin 2000),
        so_transaction_date = Value ''2026-01-11'', so_delivery_date = Undefined \<rparr>,
      \<lparr> so_name = Value ''SO-3'', so_customer = Value ''C2'', so_customer_name = Null,
        so_status = Value ''Completed'', so_grand_total = Value (Fin 1500),
        so_transaction_date = Value ''2026-01-12'', so_delivery_date = Undefined \<rparr>]
    = Inr
     [\<lparr> col_status = ''Draft'', col_label = ''Draft'', col_color = ''#78716c'',
        col_count = 2, col_total = Fin 3000,
        col_orders =
          [\<lparr> card_name = Value ''SO-1'', card_customer = Value ''Acme'', card_amount = Fin 1000,
             card_date = Value ''2026-01-10'', card_delivery_date = Undefined \<rparr>,
           \<lparr> card_name = Value ''SO-2'', card_customer = Value ''Acme'', card_amount = Fin 2000,
             card_date = Value ''2026-01-11'', card_delivery_date = Undefined \<rparr>] \<rparr>,
      \<lparr> col_status = ''Completed'', col_label = ''Completed'', col_color = ''#4ade80'',
        col_count = 1, col_total = Fin 1500,
        col_orders =
          [\<lparr> card_name = Value ''SO-3'', card_customer = Value ''C2'', card_amount = Fin 1500,
             card_date = Value ''2026-01-12'', card_delivery_date = Undefined \<rparr>] \<rparr>]"
proof -
  let ?W = "[\<lparr> so_name = Value ''SO-7'', so_customer = Value ''C1'', so_customer_name = Value ''Acme'',
        so_status = Value ''On Hold'', so_grand_total = Value (Fin 700),
        so_transaction_date = Value ''2026-01-10'', so_delivery_date = Undefined \<rparr>,
      \<lparr> so_name = Value ''SO-8'', so_customer = Value ''C2'', so_customer_name = Null,
        so_status = Value ''Completed'', so_grand_total = Value (Fin 1500),
        so_transaction_date = Value ''2026-01-12'', so_delivery_date = Undefined \<rparr>]"
  let ?C = "[\<lparr> col_status = ''Completed'', col_label = ''Completed'', col_color = ''#4ade80'',
        col_count = 1, col_total = Fin 1500,
        col_orders =
          [\<lparr> card_name = Value ''SO-8'', card_customer = Value ''C2'', card_amount = Fin 1500,
             card_date = Value ''2026-01-12'', card_delivery_date = Undefined \<rparr>] \<rparr>]"
  have h: "erpnext_order_pipeline [] ?W = Inr ?C" by code_simp
  have p: "pipeline_runs [(''Open'', Num (Fin 40))] SO_STATUS_MAP
             [Value ''Draft'', Value ''Draft'', Value ''Completed'']"
    by code_simp
  from order_pipeline_columns[where proto = "[]" and orders = "?W" and cols = "?C"] h
  have a: "erpnext_order_pipeline []
             (filter (\<lambda>r. mapped_status SO_STATUS_MAP (so_status r)) ?W) = Inr ?C"
    by blast
  from order_pipeline_columns[where proto = "[(''Open'', Num (Fin 40))]"] p
  have b: "erpnext_order_pipeline [(''Open'', Num (Fin 40))]
     [\<lparr> so_name = Value ''SO-1'', so_customer = Value ''C1'', so_customer_name = Value ''Acme'',
        so_status = Value ''Draft'', so_grand_total = Value (Fin 1000),
        so_transaction_date = Value ''2026-01-10'', so_delivery_date = Undefined \<rparr>,
      \<lparr> so_name = Value ''SO-2'', so_customer = Value ''C1'', so_customer_name = Value ''Acme'',
        so_status = Value ''Draft'', so_grand_total = Value (Fin 2000),
        so_transaction_date = Value ''2026-01-11'', so_delivery_date = Undefined \<rparr>,
      \<lparr> so_name = Value ''SO-3'', so_customer = Value ''C2'', so_customer_name = Null,
        so_status = Value ''Completed'', so_grand_total = Value (Fin 1500),
        so_transaction_date = Value ''2026-01-12'', so_delivery_date = Undefined \<rparr>]
    = Inr
     [\<lparr> col_status = ''Draft'', col_label = ''Draft'', col_color = ''#78716c'',
        col_count = 2, col_total = Fin 3000,
        col_orders =
          [\<lparr> card_name = Value ''SO-1'', card_customer = Value ''Acme'', card_amount = Fin 1000,
             card_date = Value ''2026-01-10'', card_delivery_date = Undefined \<rparr>,
           \<lparr> card_name = Value ''SO-2'', card_customer = Value ''Acme'', card_amount = Fin 2000,
             card_date = Value ''2026-01-11'', card_delivery_date = Undefined \<rparr>] \<rparr>,
      \<lparr> col_status = ''Completed'', col_label = ''Completed'', col_color = ''#4ade80'',
        col_count = 1, col_total = Fin 1500,
        col_orders =
          [\<lparr> card_name = Value ''SO-3'', card_customer = Value ''C2'', card_amount = Fin 1500,
             card_date = Value ''2026-01-12'', card_delivery_date = Undefined \<rparr>] \<rparr>]"
    by blast
  from h a b show ?thesis by blast
qed

text \<open>
  Claim C10. In both pipelines a fetched record whose status is missing or null is put in
  the Draft bucket. Each handler returns columns exactly when no status of a fetched
  record (a missing or null one counting as Draft) reads as a truthy inherited value and
  no unused key of its status map reads as an inherited value of positive length; in a
  process that has not written to \<^verbatim>\<open>Object.prototype\<close> that is: exactly when no status is
  the name of a built-in property, so a missing or null status never stands in the way.
  Whenever that holds for a list holding a record without status, the handler does return
  columns, there is a Draft column among them, its count and total are those of all
  records that have no status, a null status or the status Draft, and the record's card
  is among the column's cards.
\<close>

theorem missing_status_is_draft:
  "(pipeline_runs proto SO_STATUS_MAP (map so_status orders) \<and> r \<in> set orders
      \<and> (so_status r = Undefined \<or> so_status r = Null) \<longrightarrow>
      (\<exists>cols. erpnext_order_pipeline proto orders = Inr cols
         \<and> (\<exists>c \<in> set cols.
               col_status c = ''Draft'' \<and> col_label c = ''Draft''
               \<and> col_count c = length (filter (\<lambda>x. counts_as_draft (so_status x)) orders)
               \<and> col_total c = sum_field so_grand_total
                                  (filter (\<lambda>x. counts_as_draft (so_status x)) orders)
               \<and> so_card r \<in> set (col_orders c))))
   \<and> (pipeline_runs proto PO_STATUS_MAP (map po_status porders) \<and> p \<in> set porders
      \<and> (po_status p = Undefined \<or> po_status p = Null) \<longrightarrow>
      (\<exists>pcols. erpnext_purchase_pipeline proto porders = Inr pcols
         \<and> (\<exists>c \<in> set pcols.
               col_status c = ''Draft'' \<and> col_label c = ''Draft''
               \<and> col_count c = length (filter (\<lambda>x. counts_as_draft (po_status x)) porders)
               \<and> col_total c = sum_field po_grand_total
                                  (filter (\<lambda>x. counts_as_draft (po_status x)) porders)
               \<and> po_card p \<in> set (col_orders c))))
   \<and> ((\<exists>cols. erpnext_order_pipeline proto orders = Inr cols)
        \<longleftrightarrow> pipeline_runs proto SO_STATUS_MAP (map so_status orders))
   \<and> ((\<exists>pcols. erpnext_purchase_pipeline proto porders = Inr pcols)
        \<longleftrightarrow> pipeline_runs proto PO_STATUS_MAP (map po_status porders))
   \<and> (pipeline_runs [] SO_STATUS_MAP (map so_status orders)
        \<longleftrightarrow> (\<forall>x \<in> set orders. \<forall>s. so_status x = Value s \<longrightarrow> s \<notin> set object_prototype_keys))
   \<and> (pipeline_runs [] PO_STATUS_MAP (map po_status porders)
        \<longleftrightarrow> (\<forall>x \<in> set porders. \<forall>s. po_status x = Value s \<longrightarrow> s \<notin> set object_prototype_keys))"
proof (intro conjI impI)
  assume a: "pipeline_runs proto SO_STATUS_MAP (map so_status orders) \<and> r \<in> set orders
      \<and> (so_status r = Undefined \<or> so_status r = Null)"
  let ?D = "filter (\<lambda>x. counts_as_draft (so_status x)) orders"
  let ?c = "\<lparr> col_status = ''Draft'', col_label = ''Draft'', col_color = ''#78716c'',
              col_count = length ?D, col_total = sum_field so_grand_total ?D,
              col_orders = map so_card ?D \<rparr>"
  have rD: "r \<in> set ?D" using a by (auto simp: counts_as_draft_def)
  then have ne: "?D \<noteq> []" by (metis empty_iff empty_set)
  have ok: "erpnext_order_pipeline proto orders
            = Inr (columns_of SO_STATUS_MAP so_status so_grand_total so_card orders)"
    using a by (simp add: order_pipeline_eval)
  have "?c \<in> set (columns_of SO_STATUS_MAP so_status so_grand_total so_card orders)"
    using ne by (simp add: columns_of_def SO_STATUS_MAP_def grouping_status_draft)
  moreover have "so_card r \<in> set (col_orders ?c)" using rD by simp
  ultimately have "\<exists>c \<in> set (columns_of SO_STATUS_MAP so_status so_grand_total so_card orders).
         col_status c = ''Draft'' \<and> col_label c = ''Draft''
         \<and> col_count c = length ?D
         \<and> col_total c = sum_field so_grand_total ?D
         \<and> so_card r \<in> set (col_orders c)"
    by (intro bexI[where x = ?c]) simp_all
  with ok show "\<exists>cols. erpnext_order_pipeline proto orders = Inr cols
         \<and> (\<exists>c \<in> set cols.
               col_status c = ''Draft'' \<and> col_label c = ''Draft''
               \<and> col_count c = length ?D
               \<and> col_total c = sum_field so_grand_total ?D
               \<and> so_card r \<in> set (col_orders c))"
    by blast
next
  assume a: "pipeline_runs proto PO_STATUS_MAP (map po_status porders) \<and> p \<in> set porders
      \<and> (po_status p = Undefined \<or> po_status p = Null)"
  let ?D = "filter (\<lambda>x. counts_as_draft (po_status x)) porders"
  let ?c = "\<lparr> col_status = ''Draft'', col_label = ''Draft'', col_color = ''#78716c'',
              col_count = length ?D, col_total = sum_field po_grand_total ?D,
              col_orders = map po_card ?D \<rparr>"
  have rD: "p \<in> set ?D" using a by (auto simp: counts_as_draft_def)
  then have ne: "?D \<noteq> []" by (metis empty_iff empty_set)
  have ok: "erpnext_purchase_pipeline proto porders
            = Inr (columns_of PO_STATUS_MAP po_status po_grand_total po_card porders)"
    using a by (simp add: purchase_pipeline_eval)
  have "?c \<in> set (columns_of PO_STATUS_MAP po_status po_grand_total po_card porders)"
    using ne by (simp add: columns_of_def PO_STATUS_MAP_def grouping_status_draft)
  moreover have "po_card p \<in> set (col_orders ?c)" using rD by simp
  ultimately have "\<exists>c \<in> set (columns_of PO_STATUS_MAP po_status po_grand_total po_card porders).
         col_status c = ''Draft'' \<and> col_label c = ''Draft''
         \<and> col_count c = length ?D
         \<and> col_total c = sum_field po_grand_total ?D
         \<and> po_card p \<in> set (col_orders c)"
    by (intro bexI[where x = ?c]) simp_all
  with ok show "\<exists>pcols. erpnext_purchase_pipeline proto porders = Inr pcols
         \<and> (\<exists>c \<in> set pcols.
               col_status c = ''Draft'' \<and> col_label c = ''Draft''
               \<and> col_count c = length ?D
               \<and> col_total c = sum_field po_grand_total ?D
               \<and> po_card p \<in> set (col_orders c))"
    by blast
next
  show "(\<exists>cols. erpnext_order_pipeline proto orders = Inr cols)
        \<longleftrightarrow> pipeline_runs proto SO_STATUS_MAP (map so_status orders)"
    by (simp add: order_pipeline_eval)
next
  show "(\<exists>pcols. erpnext_purchase_pipeline proto porders = Inr pcols)
        \<longleftrightarrow> pipeline_runs proto PO_STATUS_MAP (map po_status porders)"
    by (simp add: purchase_pipeline_eval)
next
  have k: "grouping_status s \<notin> set object_prototype_keys
           \<longleftrightarrow> (\<forall>t. s = Value t \<longrightarrow> t \<notin> set object_prototype_keys)" for s
    by (cases s) (simp_all add: grouping_status_def object_prototype_keys_def)
  show "pipeline_runs [] SO_STATUS_MAP (map so_status orders)
        \<longleftrightarrow> (\<forall>x \<in> set orders. \<forall>s. so_status x = Value s \<longrightarrow> s \<notin> set object_prototype_keys)"
    by (simp add: pipeline_runs_fresh k)
  show "pipeline_runs [] PO_STATUS_MAP (map po_status porders)
        \<longleftrightarrow> (\<forall>x \<in> set porders. \<forall>s. po_status x = Value s \<longrightarrow> s \<notin> set object_prototype_keys)"
    by (simp add: pipeline_runs_fresh k)
qed

theorem missing_status_is_draft_witness:
  "erpnext_order_pipeline []
     [\<lparr> so_name = Value ''SO-1'', so_customer = Value ''C1'', so_customer_name = Null,
        so_status = Null, so_grand_total = Value (Fin 1000),
        so_transaction_date = Undefined, so_delivery_date = Undefined \<rparr>,
      \<lparr> so_name = Value ''SO-2'', so_customer = Value ''C1'', so_customer_name = Null,
        so_status = Value ''Draft'', so_grand_total = Value (Fin 2000),
        so_transaction_date = Undefined, so_delivery_date = Undefined \<rparr>]
   = Inr
     [\<lparr> col_status = ''Draft'', col_label = ''Draft'', col_color = ''#78716c'',
        col_count = 2, col_total = Fin 3000,
        col_orders =
          [\<lparr> card_name = Value ''SO-1'', card_customer = Value ''C1'', card_amount = Fin 1000,
             card_date = Undefined, card_delivery_date = Undefined \<rparr>,
           \<lparr> card_name = Value ''SO-2'', card_customer = Value ''C1'', card_amount = Fin 2000,
             card_date = Undefined, card_delivery_date = Undefined \<rparr>] \<rparr>]
   \<and> erpnext_purchase_pipeline []
     [\<lparr> po_name = Value ''PO-1'', po_supplier = Value ''S1'', po_supplier_name = Null,
        po_status = Undefined, po_grand_total = Value (Fin 250),
        po_transaction_date = Undefined, po_schedule_date = Undefined \<rparr>]
   = Inr
     [\<lparr> col_status = ''Draft'', col_label = ''Draft'', col_color = ''#78716c'',
        col_count = 1, col_total = Fin 250,
        col_orders =
          [\<lparr> card_name = Value ''PO-1'', card_customer = Value ''S1'', card_amount = Fin 250,
             card_date = Undefined, card_delivery_date = Undefined \<rparr>] \<rparr>]
   \<and> (\<exists>cols. erpnext_order_pipeline []
         [\<lparr> so_name = Value ''SO-1'', so_customer = Value ''C1'', so_customer_name = Null,
            so_status = Null, so_grand_total = Value (Fin 1000),
            so_transaction_date = Undefined, so_delivery_date = Undefined \<rparr>,
          \<lparr> so_name = Value ''SO-2'', so_customer = Value ''C1'', so_customer_name = Null,
            so_status = Value ''Draft'', so_grand_total = Value (Fin 2000),
            so_transaction_date = Undefined, so_delivery_date = Undefined \<rparr>] = Inr cols
        \<and> (\<exists>c \<in> set cols. col_status c = ''Draft'' \<and> col_count c = 2
              \<and> \<lparr> card_name = Value ''SO-1'', card_customer = Value ''C1'',
                   card_amount = Fin 1000, card_date = Undefined,
                   card_delivery_date = Undefined \<rparr> \<in> set (col_orders c)))
   \<and> (\<exists>pcols. erpnext_purchase_pipeline []
         [\<lparr> po_name = Value ''PO-1'', po_supplier = Value ''S1'', po_supplier_name = Null,
            po_status = Undefined, po_grand_total = Value (Fin 250),
            po_transaction_date = Undefined, po_schedule_date = Undefined \<rparr>] = Inr pcols
        \<and> (\<exists>c \<in> set pcols. col_status c = ''Draft'' \<and> col_count c = 1
              \<and> \<lparr> card_name = Value ''PO-1'', card_customer = Value ''S1'',
                   card_amount = Fin 250, card_date = Undefined,
                   card_delivery_date = Undefined \<rparr> \<in> set (col_orders c)))"
proof -
  let ?r = "\<lparr> so_name = Value ''SO-1'', so_customer = Value ''C1'', so_customer_name = Null,
        so_status = Null, so_grand_total = Value (Fin 1000),
        so_transaction_date = Undefined, so_delivery_date = Undefined \<rparr>"
  let ?W = "[?r,
      \<lparr> so_name = Value ''SO-2'', so_customer = Value ''C1'', so_customer_name = Null,
        so_status = Value ''Draft'', so_grand_total = Value (Fin 2000),
        so_transaction_date = Undefined, so_delivery_date = Undefined \<rparr>]"
  let ?C = "[\<lparr> col_status = ''Draft'', col_label = ''Draft'', col_color = ''#78716c'',
        col_count = 2, col_total = Fin 3000,
        col_orders =
          [\<lparr> card_name = Value ''SO-1'', card_customer = Value ''C1'', card_amount = Fin 1000,
             card_date = Undefined, card_delivery_date = Undefined \<rparr>,
           \<lparr> card_name = Value ''SO-2'', card_customer = Value ''C1'', card_amount = Fin 2000,
             card_date = Undefined, card_delivery_date = Undefined \<rparr>] \<rparr>]"
  let ?p = "\<lparr> po_name = Value ''PO-1'', po_supplier = Value ''S1'', po_supplier_name = Null,
        po_status = Undefined, po_grand_total = Value (Fin 250),
        po_transaction_date = Undefined, po_schedule_date = Undefined \<rparr>"
  let ?PC = "[\<lparr> col_status = ''Draft'', col_label = ''Draft'', col_color = ''#78716c'',
        col_count = 1, col_total = Fin 250,
        col_orders =
          [\<lparr> card_name = Value ''PO-1'', card_customer = Value ''S1'', card_amount = Fin 250,
             card_date = Undefined, card_delivery_date = Undefined \<rparr>] \<rparr>]"
  have h1: "erpnext_order_pipeline [] ?W = Inr ?C" by code_simp
  have h2: "erpnext_purchase_pipeline [] [?p] = Inr ?PC" by code_simp
  have r1: "pipeline_runs [] SO_STATUS_MAP (map so_status ?W)" by code_simp
  have r2: "pipeline_runs [] PO_STATUS_MAP (map po_status [?p])" by code_simp
  have m: "?r \<in> set ?W" "so_status ?r = Undefined \<or> so_status ?r = Null"
    "?p \<in> set [?p]" "po_status ?p = Undefined \<or> po_status ?p = Null" by simp_all
  from missing_status_is_draft[where proto = "[]" and orders = "?W" and r = "?r" and porders = "[?p]" and p = "?p"] r1 r2 m
  have A: "\<exists>cols. erpnext_order_pipeline [] ?W = Inr cols
         \<and> (\<exists>c \<in> set cols.
               col_status c = ''Draft'' \<and> col_label c = ''Draft''
               \<and> col_count c = length (filter (\<lambda>x. counts_as_draft (so_status x)) ?W)
               \<and> col_total c = sum_field so_grand_total
                                  (filter (\<lambda>x. counts_as_draft (so_status x)) ?W)
               \<and> so_card ?r \<in> set (col_orders c))"
    and B: "\<exists>pcols. erpnext_purchase_pipeline [] [?p] = Inr pcols
         \<and> (\<exists>c \<in> set pcols.
               col_status c = ''Draft'' \<and> col_label c = ''Draft''
               \<and> col_count c = length (filter (\<lambda>x. counts_as_draft (po_status x)) [?p])
               \<and> col_total c = sum_field po_grand_total
                                  (filter (\<lambda>x. counts_as_draft (po_status x)) [?p])
               \<and> po_card ?p \<in> set (col_orders c))"
    by blast+
  have two: "Suc (Suc 0) = 2" by simp
  from A have A': "\<exists>cols. erpnext_order_pipeline [] ?W = Inr cols
        \<and> (\<exists>c \<in> set cols. col_status c = ''Draft'' \<and> col_count c = 2
              \<and> \<lparr> card_name = Value ''SO-1'', card_customer = Value ''C1'',
                   card_amount = Fin 1000, card_date = Undefined,
                   card_delivery_date = Undefined \<rparr> \<in> set (col_orders c))"
    by (auto simp: counts_as_draft_def so_card_def or_zero_def two)
  from B have B': "\<exists>pcols. erpnext_purchase_pipeline [] [?p] = Inr pcols
        \<and> (\<exists>c \<in> set pcols. col_status c = ''Draft'' \<and> col_count c = 1
              \<and> \<lparr> card_name = Value ''PO-1'', card_customer = Value ''S1'',
                   card_amount = Fin 250, card_date = Undefined,
                   card_delivery_date = Undefined \<rparr> \<in> set (col_orders c))"
    by (auto simp: counts_as_draft_def po_card_def or_zero_def)
  from h1 h2 A' B' show ?thesis by blast
qed

section \<open>Own properties of a table\<close>

lemma set_set_prop: "set (set_prop k v tbl) \<subseteq> insert (k, v) (set tbl)"
  by (induction tbl) (auto split: if_splits)

lemma map_fst_set_prop:
  "map fst (set_prop k v tbl)
   = (if map_of tbl k = None then map fst tbl @ [k] else map fst tbl)"
  by (induction tbl) auto

lemma map_of_None_keys: "map_of tbl k = None \<longleftrightarrow> k \<notin> fst ` set tbl"
  by (simp add: map_of_eq_None_iff)

lemma keys_set_prop: "fst ` set (set_prop k v tbl) = insert k (fst ` set tbl)"
proof -
  have "set (map fst (set_prop k v tbl)) = insert k (set (map fst tbl))"
    unfolding map_fst_set_prop by (auto simp: map_of_None_keys)
  then show ?thesis by simp
qed

lemma distinct_set_prop:
  "distinct (map fst tbl) \<Longrightarrow> distinct (map fst (set_prop k v tbl))"
  unfolding map_fst_set_prop by (auto simp: map_of_None_keys)

lemma length_set_prop:
  "length (set_prop k v tbl) = (if map_of tbl k = None then Suc (length tbl) else length tbl)"
  using arg_cong[OF map_fst_set_prop[of k v tbl], of length] by (simp split: if_splits)

lemma map_of_set_prop:
  "map_of (set_prop k v tbl) k' = (if k' = k then Some v else map_of tbl k')"
  by (induction tbl) (auto split: if_splits)

lemma in_set_prop:
  assumes "distinct (map fst tbl)"
  shows "(k', r) \<in> set (set_prop k v tbl) \<longleftrightarrow> (k' = k \<and> r = v) \<or> (k' \<noteq> k \<and> (k', r) \<in> set tbl)"
proof -
  have d: "distinct (map fst (set_prop k v tbl))" using assms by (rule distinct_set_prop)
  have "(k', r) \<in> set (set_prop k v tbl) \<longleftrightarrow> map_of (set_prop k v tbl) k' = Some r"
    using d by simp
  also have "\<dots> \<longleftrightarrow> (k' = k \<and> r = v) \<or> (k' \<noteq> k \<and> map_of tbl k' = Some r)"
    by (auto simp: map_of_set_prop)
  also have "\<dots> \<longleftrightarrow> (k' = k \<and> r = v) \<or> (k' \<noteq> k \<and> (k', r) \<in> set tbl)"
    using assms by simp
  finally show ?thesis .
qed

section \<open>Sorting, slicing and enumerating keep what was there\<close>

lemma set_insert_sorted: "set (insert_sorted cmp x xs) = insert x (set xs)"
  by (induction xs) auto

lemma length_insert_sorted: "length (insert_sorted cmp x xs) = Suc (length xs)"
  by (induction xs) auto

lemma set_js_sort: "set (js_sort cmp xs) = set xs"
  unfolding js_sort_def by (induction xs) (auto simp: set_insert_sorted)

lemma length_js_sort: "length (js_sort cmp xs) = length xs"
  unfolding js_sort_def by (induction xs) (auto simp: length_insert_sorted)

lemma set_slice0: "set (slice0 k xs) \<subseteq> set xs"
  by (cases k) (auto simp: Let_def dest: in_set_takeD)

lemma set_insert_by_index: "set (insert_by_index x xs) = insert x (set xs)"
  by (induction xs) auto

lemma set_index_sorted:
  "set (foldr insert_by_index xs []) = set xs"
  by (induction xs) (auto simp: set_insert_by_index)

lemma set_Object_entries: "set (Object_entries tbl) = set tbl"
proof -
  have "snd ` (\<lambda>(k, v). (the (array_index k), k, v)) ` A = A" for A :: "(string \<times> 'a) set"
    by force
  then have "set (Object_entries tbl)
        = {x \<in> set tbl. array_index (fst x) \<noteq> None} \<union> {x \<in> set tbl. array_index (fst x) = None}"
    by (auto simp: Object_entries_def set_index_sorted image_image case_prod_unfold)
  then show ?thesis by auto
qed

lemma distinct_insert_sorted:
  "distinct (map f (insert_sorted cmp x xs)) \<longleftrightarrow> f x \<notin> f ` set xs \<and> distinct (map f xs)"
  by (induction xs) (auto simp: set_insert_sorted)

lemma distinct_js_sort: "distinct (map f (js_sort cmp xs)) \<longleftrightarrow> distinct (map f xs)"
  unfolding js_sort_def
proof (induction xs)
  case Nil
  show ?case by simp
next
  case (Cons x xs)
  have "set (foldr (insert_sorted cmp) xs []) = set xs"
    using set_js_sort[of cmp xs] by (simp add: js_sort_def)
  then show ?case using Cons by (simp add: distinct_insert_sorted)
qed

lemma distinct_insert_by_index:
  "distinct (map f (insert_by_index x xs)) \<longleftrightarrow> f x \<notin> f ` set xs \<and> distinct (map f xs)"
  by (induction xs) (auto simp: set_insert_by_index)

lemma distinct_index_sorted:
  "distinct (map f (foldr insert_by_index xs [])) \<longleftrightarrow> distinct (map f xs)"
  by (induction xs) (simp_all add: distinct_insert_by_index set_index_sorted)

lemma length_insert_by_index: "length (insert_by_index x xs) = Suc (length xs)"
  by (induction xs) auto

lemma length_index_sorted: "length (foldr insert_by_index xs []) = length xs"
  by (induction xs) (simp_all add: length_insert_by_index)

lemma length_Object_entries: "length (Object_entries tbl) = length tbl"
proof -
  have "length (filter (\<lambda>(k, v). array_index k \<noteq> None) tbl)
        + length (filter (\<lambda>(k, v). array_index k = None) tbl) = length tbl"
    using sum_length_filter_compl[of "\<lambda>(k, v). array_index k \<noteq> None" tbl]
    by (simp add: case_prod_unfold)
  then show ?thesis by (simp add: Object_entries_def length_index_sorted)
qed

lemma distinct_Object_entries:
  assumes "distinct (map fst tbl)"
  shows "distinct (map fst (Object_entries tbl))"
proof -
  let ?P = "\<lambda>(k, v). array_index k \<noteq> None"
  let ?Q = "\<lambda>(k, v). array_index k = None"
  let ?g = "\<lambda>(k, v). (the (array_index k), k, v)"
  let ?A = "foldr insert_by_index (map ?g (filter ?P tbl)) []"
  have a: "distinct (map fst (map snd ?A))"
  proof -
    have "distinct (map (fst \<circ> snd) (map ?g (filter ?P tbl)))"
      using distinct_map_filter[OF assms, of ?P] by (simp add: comp_def case_prod_unfold)
    then have "distinct (map (fst \<circ> snd) ?A)" by (simp only: distinct_index_sorted)
    then show ?thesis by simp
  qed
  have b: "distinct (map fst (filter ?Q tbl))" using assms by (rule distinct_map_filter)
  have c: "set (map fst (map snd ?A)) \<inter> set (map fst (filter ?Q tbl)) = {}"
    by (auto simp: set_index_sorted)
  show ?thesis unfolding Object_entries_def using a b c by (simp only: map_append distinct_append)
qed

lemma slice0_take: "\<exists>m. slice0 k xs = take m xs"
proof (cases k)
  case (Fin r)
  then show ?thesis by (auto simp: Let_def)
next
  case PInf
  then show ?thesis by (auto intro: exI[of _ "length xs"])
next
  case NInf
  then show ?thesis by (auto intro: exI[of _ 0])
next
  case NaN
  then show ?thesis by (auto intro: exI[of _ 0])
qed

lemma distinct_slice0: "distinct (map f xs) \<Longrightarrow> distinct (map f (slice0 k xs))"
proof -
  assume d: "distinct (map f xs)"
  obtain m where m: "slice0 k xs = take m xs" using slice0_take by blast
  show ?thesis unfolding m using d by (simp add: take_map[symmetric])
qed

lemma slice0_all:
  "length xs \<le> L \<Longrightarrow> slice0 (Fin (of_nat L)) xs = xs"
  by (simp add: Let_def)

section \<open>Tables of rows of sums\<close>

lemma digits_of_chars: "\<forall>c \<in> set (digits_of fuel n). (of_char c :: nat) < 58"
proof (induction fuel arbitrary: n)
  case 0
  show ?case by simp
next
  case (Suc fuel)
  have a: "(of_char (char_of (48 + k)) :: nat) < 58" if "k < 10" for k :: nat
    using that by simp
  have "n mod 10 < 10" by simp
  then show ?case using Suc[of "n div 10"] a by auto
qed

lemma digits_of_nonempty: "digits_of (Suc fuel) n \<noteq> []"
  by simp

lemma int_to_string_not_builtin:
  assumes "0 \<le> i"
  shows "int_to_string i \<notin> set object_prototype_keys"
proof
  assume m: "int_to_string i \<in> set object_prototype_keys"
  have s: "int_to_string i = digits_of (Suc (nat i)) (nat i)"
    using assms by (simp add: int_to_string_def)
  have ne: "int_to_string i \<noteq> []" unfolding s by (rule digits_of_nonempty)
  then have "hd (int_to_string i) \<in> set (int_to_string i)" by simp
  then have lt: "(of_char (hd (int_to_string i)) :: nat) < 58"
    unfolding s using digits_of_chars by blast
  have "\<forall>k \<in> set object_prototype_keys. (58::nat) \<le> of_char (hd k)"
    by (simp add: object_prototype_keys_def)
  with m lt show False by fastforce
qed

lemma NaN_not_builtin: "''NaN'' \<notin> set object_prototype_keys"
  by (simp add: object_prototype_keys_def)

lemma rows_hold_empty: "rows_hold n skip cust target amt ([], proto) []"
  by (simp add: rows_hold_def)

lemma rows_hold_skip:
  assumes "rows_hold n skip cust target amt st done" "skip x"
  shows "rows_hold n skip cust target amt st (done @ [x])"
proof -
  have f: "filter (\<lambda>y. \<not> skip y \<and> P y) (done @ [x]) = filter (\<lambda>y. \<not> skip y \<and> P y) done" for P
    using assms(2) by simp
  have g: "filter (\<lambda>y. \<not> skip y) (done @ [x]) = filter (\<lambda>y. \<not> skip y) done"
    using assms(2) by simp
  show ?thesis
    using assms unfolding rows_hold_def f g by auto
qed

lemma rows_hold_update:
  assumes inv: "rows_hold n skip cust target amt (tbl, proto) done"
    and x: "\<not> skip x"
    and r: "length r = n"
      "\<forall>i<n. r ! i = foldl (\<lambda>s x. js_add s (amt x)) (Fin 0)
                      (filter (\<lambda>y. \<not> skip y \<and> cust y = cust x
                                    \<and> (\<exists>key. target y = Some (key, Some i))) done)"
    and own: "map_of tbl (cust x) = None \<or> map_of tbl (cust x) = Some r"
  shows "rows_hold n skip cust target amt
           (set_prop (cust x)
              (case target x of
                 Some (key, Some i) \<Rightarrow> r[i := js_add (r ! i) (amt x)]
               | _ \<Rightarrow> r) tbl, proto)
           (done @ [x])"
proof -
  let ?k = "cust x"
  let ?r' = "case target x of
                 Some (key, Some i) \<Rightarrow> r[i := js_add (r ! i) (amt x)]
               | _ \<Rightarrow> r"
  have d: "distinct (map fst tbl)" using inv by (simp add: rows_hold_def)
  have len: "length tbl \<le> length (filter (\<lambda>x. \<not> skip x) done)"
    using inv by (simp add: rows_hold_def)
  have rows: "(\<exists>y \<in> set done. \<not> skip y \<and> cust y = k) \<and> length row = n
            \<and> (\<forall>i<n. row ! i
                  = foldl (\<lambda>s x. js_add s (amt x)) (Fin 0)
                      (filter (\<lambda>x. \<not> skip x \<and> cust x = k
                                    \<and> (\<exists>key. target x = Some (key, Some i))) done))"
    if "(k, row) \<in> set tbl" for k row
    using inv that unfolding rows_hold_def by (simp only: fst_conv) blast
  have out: "cust y = ''__proto__'' \<or> inherited_at proto (cust y) = BuiltIn"
    if "y \<in> set done" "\<not> skip y" "target y \<noteq> None" "cust y \<notin> fst ` set tbl" for y
    using inv that unfolding rows_hold_def by (simp only: fst_conv snd_conv) blast
  have lr': "length ?r' = n" using r(1) by (simp split: option.splits prod.splits)
  have nr': "?r' ! i = (if \<exists>key. target x = Some (key, Some i)
                        then js_add (r ! i) (amt x) else r ! i)" if "i < n" for i
    using that r(1) by (auto split: option.splits prod.split simp: nth_list_update)
  have c1: "distinct (map fst (set_prop ?k ?r' tbl))" using d by (rule distinct_set_prop)
  have c2: "length (set_prop ?k ?r' tbl) \<le> length (filter (\<lambda>x. \<not> skip x) (done @ [x]))"
    using len x by (simp add: length_set_prop)
  have c3: "(\<exists>y \<in> set (done @ [x]). \<not> skip y \<and> cust y = k) \<and> length row = n
            \<and> (\<forall>i<n. row ! i
                  = foldl (\<lambda>s x. js_add s (amt x)) (Fin 0)
                      (filter (\<lambda>y. \<not> skip y \<and> cust y = k
                                    \<and> (\<exists>key. target y = Some (key, Some i))) (done @ [x])))"
    if m: "(k, row) \<in> set (set_prop ?k ?r' tbl)" for k row
  proof (cases "k = ?k")
    case True
    then have row: "row = ?r'" using m in_set_prop[OF d, of k row ?k ?r'] by simp
    have "(\<exists>y \<in> set (done @ [x]). \<not> skip y \<and> cust y = k)" using True x by auto
    moreover have "length row = n" using row lr' by simp
    moreover have "\<forall>i<n. row ! i
                  = foldl (\<lambda>s x. js_add s (amt x)) (Fin 0)
                      (filter (\<lambda>y. \<not> skip y \<and> cust y = k
                                    \<and> (\<exists>key. target y = Some (key, Some i))) (done @ [x]))"
      using r(2) x True by (simp add: row nr')
    ultimately show ?thesis by blast
  next
    case False
    then have "(k, row) \<in> set tbl" using m in_set_prop[OF d, of k row ?k ?r'] by simp
    from rows[OF this] False show ?thesis by auto
  qed
  have c4: "cust y = ''__proto__'' \<or> inherited_at proto (cust y) = BuiltIn"
    if "y \<in> set (done @ [x])" "\<not> skip y" "target y \<noteq> None"
      "cust y \<notin> fst ` set (set_prop ?k ?r' tbl)" for y
  proof -
    have nk: "cust y \<noteq> ?k" "cust y \<notin> fst ` set tbl"
      using that(4) by (simp_all add: keys_set_prop)
    then have "y \<in> set done" using that(1) by auto
    from out[OF this that(2,3) nk(2)] show ?thesis .
  qed
  show ?thesis
    unfolding rows_hold_def fst_conv snd_conv
    using c1 c2 c3 c4 by blast
qed

lemma rows_hold_untouched:
  assumes inv: "rows_hold n skip cust target amt (tbl, proto) done"
    and nk: "map_of tbl (cust x) = None"
    and x: "target x = None \<or> cust x = ''__proto__'' \<or> inherited_at proto' (cust x) = BuiltIn"
    and keep: "\<forall>c. inherited_at proto c = BuiltIn \<longrightarrow> inherited_at proto' c = BuiltIn"
    and ns: "\<not> skip x"
  shows "rows_hold n skip cust target amt (tbl, proto') (done @ [x])"
proof -
  have nk': "cust x \<notin> fst ` set tbl" using nk by (simp add: map_of_None_keys)
  have d: "distinct (map fst tbl)" using inv by (simp add: rows_hold_def)
  have len: "length tbl \<le> length (filter (\<lambda>x. \<not> skip x) done)"
    using inv by (simp add: rows_hold_def)
  have rows: "(\<exists>y \<in> set done. \<not> skip y \<and> cust y = k) \<and> length row = n
            \<and> (\<forall>i<n. row ! i
                  = foldl (\<lambda>s x. js_add s (amt x)) (Fin 0)
                      (filter (\<lambda>x. \<not> skip x \<and> cust x = k
                                    \<and> (\<exists>key. target x = Some (key, Some i))) done))"
    if "(k, row) \<in> set tbl" for k row
    using inv that unfolding rows_hold_def by (simp only: fst_conv) blast
  have out: "cust y = ''__proto__'' \<or> inherited_at proto (cust y) = BuiltIn"
    if "y \<in> set done" "\<not> skip y" "target y \<noteq> None" "cust y \<notin> fst ` set tbl" for y
    using inv that unfolding rows_hold_def by (simp only: fst_conv snd_conv) blast
  have c2: "length tbl \<le> length (filter (\<lambda>x. \<not> skip x) (done @ [x]))"
    using len by simp
  have c3: "(\<exists>y \<in> set (done @ [x]). \<not> skip y \<and> cust y = k) \<and> length row = n
            \<and> (\<forall>i<n. row ! i
                  = foldl (\<lambda>s x. js_add s (amt x)) (Fin 0)
                      (filter (\<lambda>y. \<not> skip y \<and> cust y = k
                                    \<and> (\<exists>key. target y = Some (key, Some i))) (done @ [x])))"
    if m: "(k, row) \<in> set tbl" for k row
  proof -
    have "k \<noteq> cust x" using m nk' by force
    with rows[OF m] show ?thesis by auto
  qed
  have c4: "cust y = ''__proto__'' \<or> inherited_at proto' (cust y) = BuiltIn"
    if "y \<in> set (done @ [x])" "\<not> skip y" "target y \<noteq> None" "cust y \<notin> fst ` set tbl" for y
  proof (cases "y \<in> set done")
    case True
    from out[OF True that(2,3,4)] keep show ?thesis by blast
  next
    case False
    then have "y = x" using that(1) by simp
    then show ?thesis using x that(3) by auto
  qed
  show ?thesis
    unfolding rows_hold_def fst_conv snd_conv
    using d c2 c3 c4 by blast
qed

lemma inherited_BuiltIn_add_assign:
  assumes "key \<notin> set object_prototype_keys" "inherited_at proto c = BuiltIn"
  shows "inherited_at (prototype_add_assign key v proto) c = BuiltIn"
proof -
  have c: "c \<noteq> ''__proto__''" "map_of proto c = None" "c \<in> set object_prototype_keys"
    using assms(2) by (auto simp: inherited_at_def split: if_splits option.splits)
  then have "c \<noteq> key" using assms(1) by auto
  then show ?thesis using c
    by (simp add: inherited_at_def prototype_add_assign_def map_of_set_prop)
qed

lemma rows_hold_step:
  assumes inv: "rows_hold n skip cust target amt st done"
    and run: "(if skip x then Inr st else upsert_add (cust x) fresh (target x) (amt x) st) = Inr st'"
    and fresh: "\<And>row. fresh = Inr row \<Longrightarrow> row = replicate n (Fin 0)"
    and keys: "\<And>key e. target x = Some (key, e) \<Longrightarrow> key \<notin> set object_prototype_keys"
  shows "rows_hold n skip cust target amt st' (done @ [x])"
proof (cases "skip x")
  case True
  then have "st' = st" using run by simp
  then show ?thesis using rows_hold_skip[OF inv True] by simp
next
  case ns: False
  obtain tbl proto where st: "st = (tbl, proto)" by (cases st)
  let ?k = "cust x"
  let ?add = "\<lambda>r. case target x of
                 Some (key, Some i) \<Rightarrow> r[i := js_add (r ! i) (amt x)]
               | _ \<Rightarrow> r"
  note inv' = inv[unfolded st]
  have run': "upsert_add ?k fresh (target x) (amt x) (tbl, proto) = Inr st'"
    using run ns st by simp
  have rows: "length row = n
            \<and> (\<forall>i<n. row ! i
                  = foldl (\<lambda>s x. js_add s (amt x)) (Fin 0)
                      (filter (\<lambda>y. \<not> skip y \<and> cust y = k
                                    \<and> (\<exists>key. target y = Some (key, Some i))) done))"
    if "(k, row) \<in> set tbl" for k row
    using inv' that unfolding rows_hold_def by (simp only: fst_conv) blast
  have out: "cust y = ''__proto__'' \<or> inherited_at proto (cust y) = BuiltIn"
    if "y \<in> set done" "\<not> skip y" "target y \<noteq> None" "cust y \<notin> fst ` set tbl" for y
    using inv' that unfolding rows_hold_def by (simp only: fst_conv snd_conv) blast
  show ?thesis
  proof (cases "map_of tbl ?k")
    case (Some row)
    then have s': "st' = (set_prop ?k (?add row) tbl, proto)"
      using run' by (simp add: upsert_add_def Let_def)
    have "(?k, row) \<in> set tbl" using Some by (rule map_of_SomeD)
    from rows[OF this] have r: "length row = n"
      "\<forall>i<n. row ! i = foldl (\<lambda>s x. js_add s (amt x)) (Fin 0)
                      (filter (\<lambda>y. \<not> skip y \<and> cust y = cust x
                                    \<and> (\<exists>key. target y = Some (key, Some i))) done)"
      by blast+
    show ?thesis unfolding s'
      by (rule rows_hold_update[OF inv' ns r]) (simp add: Some)
  next
    case None
    then have nk: "?k \<notin> fst ` set tbl" by (simp add: map_of_None_keys)
    have created: "rows_hold n skip cust target amt st' (done @ [x])"
      if vac: "?k \<noteq> ''__proto__''" "inherited_at proto ?k \<noteq> BuiltIn"
        and cr: "(case fresh of Inl e \<Rightarrow> Inl e
                  | Inr row \<Rightarrow> Inr (set_prop ?k (?add row) tbl, proto)) = Inr st'"
    proof -
      from cr obtain row0 where f: "fresh = Inr row0"
        and s': "st' = (set_prop ?k (?add row0) tbl, proto)"
        by (auto split: sum.splits)
      have r0: "row0 = replicate n (Fin 0)" using fresh[OF f] .
      have none: "filter (\<lambda>y. \<not> skip y \<and> cust y = cust x
                                    \<and> (\<exists>key. target y = Some (key, Some i))) done = []" for i
      proof -
        have "\<not> (\<not> skip y \<and> cust y = cust x \<and> (\<exists>key. target y = Some (key, Some i)))"
          if "y \<in> set done" for y
        proof
          assume a: "\<not> skip y \<and> cust y = cust x \<and> (\<exists>key. target y = Some (key, Some i))"
          then have "target y \<noteq> None" "cust y \<notin> fst ` set tbl" using nk by auto
          from out[OF that _ this] a vac show False by auto
        qed
        then show ?thesis by (simp add: filter_empty_conv)
      qed
      have r: "length row0 = n"
        "\<forall>i<n. row0 ! i = foldl (\<lambda>s x. js_add s (amt x)) (Fin 0)
                      (filter (\<lambda>y. \<not> skip y \<and> cust y = cust x
                                    \<and> (\<exists>key. target y = Some (key, Some i))) done)"
        by (simp_all add: r0 none)
      show ?thesis unfolding s'
        by (rule rows_hold_update[OF inv' ns r]) (simp add: None)
    qed
    show ?thesis
    proof (cases "inherited_at proto ?k")
      case Nothing
      then have "?k \<noteq> ''__proto__''" by (auto simp: inherited_at_def split: if_splits)
      moreover have "inherited_at proto ?k \<noteq> BuiltIn" using Nothing by simp
      moreover have "(case fresh of Inl e \<Rightarrow> Inl e
                  | Inr row \<Rightarrow> Inr (set_prop ?k (?add row) tbl, proto)) = Inr st'"
        using run' None Nothing by (simp add: upsert_add_def Let_def)
      ultimately show ?thesis by (rule created)
    next
      case (Cell c)
      then have np: "?k \<noteq> ''__proto__''" by (auto simp: inherited_at_def split: if_splits)
      have nb: "inherited_at proto ?k \<noteq> BuiltIn" using Cell by simp
      show ?thesis
      proof (cases "cell_truthy c")
        case False
        then have "(case fresh of Inl e \<Rightarrow> Inl e
                  | Inr row \<Rightarrow> Inr (set_prop ?k (?add row) tbl, proto)) = Inr st'"
          using run' None Cell by (simp add: upsert_add_def Let_def)
        with np nb show ?thesis by (rule created)
      next
        case True
        then have t: "target x = None" and s': "st' = (tbl, proto)"
          using run' None Cell by (auto simp: upsert_add_def Let_def split: option.splits)
        show ?thesis unfolding s'
          by (rule rows_hold_untouched[OF inv' None _ _ ns]) (simp_all add: t)
      qed
    next
      case BuiltIn
      then have s': "st' = (tbl, proto)"
        using run' None by (simp add: upsert_add_def Let_def)
      show ?thesis unfolding s'
        by (rule rows_hold_untouched[OF inv' None _ _ ns]) (simp_all add: BuiltIn)
    next
      case ThePrototype
      then have p: "?k = ''__proto__''"
        by (auto simp: inherited_at_def split: if_splits option.splits)
      show ?thesis
      proof (cases "target x")
        case None': None
        then have s': "st' = (tbl, proto)"
          using run' None ThePrototype by (simp add: upsert_add_def Let_def)
        show ?thesis unfolding s'
          by (rule rows_hold_untouched[OF inv' None _ _ ns]) (simp_all add: None')
      next
        case (Some t)
        obtain key e where t: "t = (key, e)" by (cases t)
        have s': "st' = (tbl, prototype_add_assign key (amt x) proto)"
          using run' None ThePrototype Some t by (simp add: upsert_add_def Let_def)
        have kk: "key \<notin> set object_prototype_keys" using keys Some t by simp
        show ?thesis unfolding s'
          by (rule rows_hold_untouched[OF inv' None _ _ ns])
             (simp_all add: p inherited_BuiltIn_add_assign[OF kk])
      qed
    qed
  qed
qed

lemma rows_hold_fold:
  assumes step: "\<And>x st. body x st
                   = (if skip x then Inr st
                      else upsert_add (cust x) fresh (target x) (amt x) st)"
    and fresh: "\<And>row. fresh = Inr row \<Longrightarrow> row = replicate n (Fin 0)"
    and keys: "\<And>x key e. target x = Some (key, e) \<Longrightarrow> key \<notin> set object_prototype_keys"
    and run: "fold_err body xs st = Inr st'"
    and inv: "rows_hold n skip cust target amt st done"
  shows "rows_hold n skip cust target amt st' (done @ xs)"
  using run inv
proof (induction xs arbitrary: st "done")
  case Nil
  then show ?case by simp
next
  case (Cons x xs)
  from Cons.prems(1) obtain st1 where s1: "body x st = Inr st1"
    and rest: "fold_err body xs st1 = Inr st'"
    by (auto split: sum.splits)
  have "rows_hold n skip cust target amt st1 (done @ [x])"
    by (rule rows_hold_step[OF Cons.prems(2) s1[unfolded step] fresh keys])
  from Cons.IH[OF rest this] show ?case by simp
qed

text \<open>Totality: nothing throws while every property added to the prototype is NaN.\<close>

lemma upsert_add_inert:
  assumes "\<forall>c \<in> snd ` set proto. c = Num NaN" "fresh = Inr row"
  shows "\<exists>tbl' proto'. upsert_add k fresh target v (tbl, proto) = Inr (tbl', proto')
           \<and> (\<forall>c \<in> snd ` set proto'. c = Num NaN)"
proof (cases "map_of tbl k")
  case (Some r)
  then show ?thesis using assms by (simp add: upsert_add_def Let_def)
next
  case None
  have cell: "c = Num NaN" if "map_of proto q = Some c" for q c
    using assms(1) that by (metis image_eqI map_of_SomeD snd_conv)
  show ?thesis
  proof (cases "inherited_at proto k")
    case Nothing
    then show ?thesis using assms None by (simp add: upsert_add_def Let_def)
  next
    case (Cell c)
    then have "map_of proto k = Some c"
      by (auto simp: inherited_at_def split: if_splits option.splits)
    then have "c = Num NaN" by (rule cell)
    then show ?thesis using assms None Cell by (simp add: upsert_add_def Let_def)
  next
    case BuiltIn
    then show ?thesis using assms None by (simp add: upsert_add_def Let_def)
  next
    case ThePrototype
    show ?thesis
    proof (cases target)
      case None': None
      then show ?thesis using assms None ThePrototype by (simp add: upsert_add_def Let_def)
    next
      case (Some t)
      obtain key e where t: "t = (key, e)" by (cases t)
      have "\<forall>c \<in> snd ` set (prototype_add_assign key v proto). c = Num NaN"
      proof
        fix c assume "c \<in> snd ` set (prototype_add_assign key v proto)"
        then obtain q where "(q, c) \<in> set (prototype_add_assign key v proto)" by auto
        then have "(q, c) = (key, case map_of proto key of Some c \<Rightarrow> cell_plus c v
                                   | None \<Rightarrow> Num NaN) \<or> (q, c) \<in> set proto"
          using set_set_prop unfolding prototype_add_assign_def by fastforce
        then show "c = Num NaN"
        proof
          assume "(q, c) = (key, case map_of proto key of Some c \<Rightarrow> cell_plus c v
                                   | None \<Rightarrow> Num NaN)"
          then show ?thesis using cell[of key] by (auto split: option.splits)
        next
          assume "(q, c) \<in> set proto"
          then show ?thesis using assms(1) by force
        qed
      qed
      then show ?thesis using None ThePrototype Some t by (simp add: upsert_add_def Let_def)
    qed
  qed
qed

lemma fold_err_inert:
  assumes step: "\<And>x st. body x st
                   = (if skip x then Inr st
                      else upsert_add (cust x) fresh (target x) (amt x) st)"
    and fresh: "fresh = Inr row"
    and inert: "\<forall>c \<in> snd ` set proto. c = Num NaN"
  shows "\<exists>st'. fold_err body xs (tbl, proto) = Inr st'"
  using inert
proof (induction xs arbitrary: tbl proto)
  case Nil
  show ?case by simp
next
  case (Cons x xs)
  show ?case
  proof (cases "skip x")
    case True
    then show ?thesis using Cons.IH[OF Cons.prems] by (simp add: step)
  next
    case False
    from upsert_add_inert[OF Cons.prems fresh, of "cust x" "target x" "amt x" tbl]
    obtain tbl' proto' where
      u: "upsert_add (cust x) fresh (target x) (amt x) (tbl, proto) = Inr (tbl', proto')"
      and i: "\<forall>c \<in> snd ` set proto'. c = Num NaN" by blast
    from Cons.IH[OF i, of tbl'] show ?thesis using False by (simp add: step u)
  qed
qed

section \<open>Aging days and aging buckets\<close>






lemma find_bucket_less: "find_bucket d bs = Some i \<Longrightarrow> i < length bs"
  by (induction d bs arbitrary: i rule: find_bucket.induct) (auto split: if_splits)




lemma ar_aging_total:
  assumes "\<forall>c \<in> snd ` set proto. c = Num NaN"
  shows "\<exists>chart. erpnext_ar_aging proto date_time today input_limit input_type invoices = Inr chart"
proof -
  have "\<exists>st'. fold_err (add_invoice date_time today) invoices ([], proto) = Inr st'"
    by (rule fold_err_inert[where skip = "\<lambda>x. False"
          and cust = "\<lambda>x. nullish_or (si_customer_name x) ''Unknown''"
          and fresh = "Inr (replicate (length BUCKETS) (Fin 0))"
          and target = "\<lambda>x. map_option (\<lambda>i. (int_to_string (int i), Some i))
                   (find_bucket (aging_days date_time today x) BUCKETS)"
          and amt = "\<lambda>x. or_zero (Number (si_outstanding_amount x))", OF _ refl assms])
       (simp add: add_invoice_def Let_def)
  then show ?thesis
    by (auto simp: erpnext_ar_aging_def Let_def split: sum.splits prod.splits)
qed



section \<open>Monthly series\<close>

lemma length_month_labels: "length (month_labels now n) = nat n"
  by (simp add: month_labels_def)

lemma zero_array_ok:
  "0 \<le> n \<Longrightarrow> n < 2 ^ 32 \<Longrightarrow> zero_array n = Inr (replicate (nat n) (Fin 0))"
  by (simp add: zero_array_def)

lemma zero_array_length: "zero_array n = Inr z \<Longrightarrow> length z = nat n"
  by (auto simp: zero_array_def split: if_splits)

lemma length_add_to_month: "length (add_to_month n i a totals) = length totals"
  by (simp add: add_to_month_def split: option.splits)

lemma length_monthly_fold:
  "length (foldl (\<lambda>totals r. add_to_month n (ix r) (amt r) totals) z rs) = length z"
  by (induction rs arbitrary: z) (simp_all add: length_add_to_month)


text \<open>The rows of the per-customer table, and the chart built from them.\<close>

lemma trend_rows:
  assumes run: "fold_err (add_customer_month n start dm) orders ([], proto) = Inr (tbl, proto')"
  shows "distinct (map fst tbl)"
    and "fst ` set tbl \<subseteq> (\<lambda>x. nullish_or (so_customer_name x) ''Unknown'') ` set orders"
    and "(k, row) \<in> set tbl \<Longrightarrow>
           (\<exists>y \<in> set orders.
              \<not> (case month_index start (dm (so_transaction_date y)) of
                    Some i \<Rightarrow> i < 0 \<or> n \<le> i | None \<Rightarrow> False)
              \<and> nullish_or (so_customer_name y) ''Unknown'' = k)
           \<and> length row = nat n
           \<and> (\<forall>i < nat n. row ! i
                 = sum_field so_grand_total
                     (filter (\<lambda>x. nullish_or (so_customer_name x) ''Unknown'' = k
                                   \<and> month_index start (dm (so_transaction_date x)) = Some (int i))
                        orders))"
    and "x \<in> set orders \<Longrightarrow>
           \<not> (case month_index start (dm (so_transaction_date x)) of
                 Some i \<Rightarrow> i < 0 \<or> n \<le> i | None \<Rightarrow> False) \<Longrightarrow>
           nullish_or (so_customer_name x) ''Unknown'' \<notin> set object_prototype_keys \<Longrightarrow>
           nullish_or (so_customer_name x) ''Unknown'' \<in> fst ` set tbl"
proof -
  let ?mIdx = "\<lambda>x. month_index start (dm (so_transaction_date x))"
  let ?skip = "\<lambda>x. case ?mIdx x of Some i \<Rightarrow> i < 0 \<or> n \<le> i | None \<Rightarrow> False"
  let ?cust = "\<lambda>x. nullish_or (so_customer_name x) ''Unknown''"
  let ?target = "\<lambda>x. if ?skip x then None
                     else Some (case ?mIdx x of
                                  Some i \<Rightarrow> (int_to_string i, Some (nat i))
                                | None \<Rightarrow> (''NaN'', None))"
  let ?amt = "\<lambda>x. or_zero (Number (so_grand_total x))"
  have "rows_hold (nat n) ?skip ?cust ?target ?amt (tbl, proto') ([] @ orders)"
  proof (rule rows_hold_fold[where body = "add_customer_month n start dm"
          and fresh = "zero_array n" and st = "([], proto)"])
    show "add_customer_month n start dm x st
          = (if ?skip x then Inr st
             else upsert_add (?cust x) (zero_array n) (?target x) (?amt x) st)" for x st
      by (simp add: add_customer_month_def Let_def)
    show "row = replicate (nat n) (Fin 0)" if "zero_array n = Inr row" for row
      using that by (auto simp: zero_array_def split: if_splits)
    show "key \<notin> set object_prototype_keys" if "?target x = Some (key, e)" for x key e
    proof (cases "?mIdx x")
      case None
      then show ?thesis using that NaN_not_builtin by (auto split: if_splits)
    next
      case (Some i)
      then have "0 \<le> i" "key = int_to_string i" using that by (auto split: if_splits)
      then show ?thesis using int_to_string_not_builtin by simp
    qed
    show "fold_err (add_customer_month n start dm) orders ([], proto) = Inr (tbl, proto')"
      by (rule run)
    show "rows_hold (nat n) ?skip ?cust ?target ?amt ([], proto) []"
      by (rule rows_hold_empty)
  qed
  then have h: "rows_hold (nat n) ?skip ?cust ?target ?amt (tbl, proto') orders" by simp
  note h' = h[unfolded rows_hold_def fst_conv snd_conv]
  show "distinct (map fst tbl)" using h' by blast
  have m: "\<not> ?skip x \<and> ?cust x = k \<and> (\<exists>key. ?target x = Some (key, Some i))
           \<longleftrightarrow> ?cust x = k \<and> ?mIdx x = Some (int i)" if "i < nat n" for x k i
  proof (cases "?mIdx x")
    case None
    then show ?thesis by simp
  next
    case (Some j)
    have "(\<not> (j < 0 \<or> n \<le> j) \<and> nat j = i) \<longleftrightarrow> j = int i" using that by linarith
    then show ?thesis using Some by auto
  qed
  have rows: "(\<exists>y \<in> set orders. \<not> ?skip y \<and> ?cust y = k)
           \<and> length row = nat n
           \<and> (\<forall>i < nat n. row ! i
                 = sum_field so_grand_total
                     (filter (\<lambda>x. ?cust x = k \<and> ?mIdx x = Some (int i)) orders))"
    if "(k, row) \<in> set tbl" for k row
  proof -
    from h' that have a: "\<exists>y \<in> set orders. \<not> ?skip y \<and> ?cust y = k"
      and b: "length row = nat n"
      and c: "\<forall>i < nat n. row ! i
                  = foldl (\<lambda>s x. js_add s (?amt x)) (Fin 0)
                      (filter (\<lambda>x. \<not> ?skip x \<and> ?cust x = k
                                    \<and> (\<exists>key. ?target x = Some (key, Some i))) orders)"
      by blast+
    have "row ! i = sum_field so_grand_total
                     (filter (\<lambda>x. ?cust x = k \<and> ?mIdx x = Some (int i)) orders)"
      if i: "i < nat n" for i
    proof -
      have "filter (\<lambda>x. \<not> ?skip x \<and> ?cust x = k
                                    \<and> (\<exists>key. ?target x = Some (key, Some i))) orders
            = filter (\<lambda>x. ?cust x = k \<and> ?mIdx x = Some (int i)) orders"
        by (rule filter_cong[OF refl]) (rule m[OF i])
      then show ?thesis using c i by (simp add: sum_field_def)
    qed
    with a b show ?thesis by blast
  qed
  show "(\<exists>y \<in> set orders. \<not> ?skip y \<and> ?cust y = k)
           \<and> length row = nat n
           \<and> (\<forall>i < nat n. row ! i
                 = sum_field so_grand_total
                     (filter (\<lambda>x. ?cust x = k \<and> ?mIdx x = Some (int i)) orders))"
    if "(k, row) \<in> set tbl"
    using rows[OF that] .
  show "fst ` set tbl \<subseteq> ?cust ` set orders"
  proof
    fix k assume "k \<in> fst ` set tbl"
    then obtain row where "(k, row) \<in> set tbl" by auto
    from rows[OF this] show "k \<in> ?cust ` set orders" by auto
  qed
  show "?cust x \<in> fst ` set tbl"
    if "x \<in> set orders" "\<not> ?skip x" "?cust x \<notin> set object_prototype_keys"
  proof (rule ccontr)
    assume n: "?cust x \<notin> fst ` set tbl"
    have "?target x \<noteq> None" using that(2) by simp
    with h' that(1,2) n
    have "?cust x = ''__proto__'' \<or> inherited_at proto' (?cust x) = BuiltIn"
      by blast
    then show False using that(3)
      by (auto simp: inherited_at_def object_prototype_keys_def split: if_splits option.splits)
  qed
qed

lemma length_le_card_keys:
  assumes "distinct (map fst tbl)" "fst ` set tbl \<subseteq> A" "finite A"
  shows "length tbl \<le> card A"
proof -
  have "length tbl = length (map fst tbl)" by simp
  also have "\<dots> = card (set (map fst tbl))" using assms(1) by (simp only: distinct_card)
  also have "\<dots> \<le> card A" using assms(2,3) by (simp add: card_mono)
  finally show ?thesis .
qed

lemma revenue_trend_customer_chart:
  assumes run: "erpnext_revenue_trend proto dm now input_months input_type input_group_by orders
                = Inr c"
    and cm: "nullish_or input_group_by ''total'' = ''customer''"
    and n: "nullish_or input_months 6 = n"
    and start: "start = Date_ym (fst now) (snd now - n + 1)"
  shows "labels c = month_labels now n"
    and "distinct (map ds_label (datasets c))"
    and "length (datasets c) \<le> 5"
    and "d \<in> set (datasets c) \<Longrightarrow>
           (\<exists>y \<in> set orders.
              \<not> (case month_index start (dm (so_transaction_date y)) of
                    Some i \<Rightarrow> i < 0 \<or> n \<le> i | None \<Rightarrow> False)
              \<and> nullish_or (so_customer_name y) ''Unknown'' = ds_label d)
           \<and> length (ds_values d) = nat n
           \<and> (\<forall>i < nat n. ds_values d ! i
                 = sum_field so_grand_total
                     (filter (\<lambda>x. nullish_or (so_customer_name x) ''Unknown'' = ds_label d
                                   \<and> month_index start (dm (so_transaction_date x)) = Some (int i))
                        orders))"
    and "x \<in> set orders \<Longrightarrow>
           \<not> (case month_index start (dm (so_transaction_date x)) of
                 Some i \<Rightarrow> i < 0 \<or> n \<le> i | None \<Rightarrow> False) \<Longrightarrow>
           nullish_or (so_customer_name x) ''Unknown'' \<notin> set object_prototype_keys \<Longrightarrow>
           card ((\<lambda>x. nullish_or (so_customer_name x) ''Unknown'') ` set orders) \<le> 5 \<Longrightarrow>
           nullish_or (so_customer_name x) ''Unknown'' \<in> ds_label ` set (datasets c)"
proof -
  from run cm n start obtain tbl proto' where
    f: "fold_err (add_customer_month n start dm) orders ([], proto) = Inr (tbl, proto')"
    by (auto simp: erpnext_revenue_trend_def Let_def split: sum.splits if_splits)
  define sorted where "sorted = slice0 (Fin 5)
                         (js_sort (\<lambda>a b. js_sub (foldl js_add (Fin 0) (snd b))
                                                 (foldl js_add (Fin 0) (snd a)))
                            (Object_entries tbl))"
  have c: "c = \<lparr> chart_title = ''Revenue by Customer'',
                  chart_type = nullish_or input_type ''line'', labels = month_labels now n,
                  datasets = map (\<lambda>(name, values). \<lparr> ds_label = name, ds_values = values \<rparr>)
                                 sorted \<rparr>"
    using run cm n start f
    by (auto simp: erpnext_revenue_trend_def Let_def sorted_def split: if_splits)
  note rows = trend_rows[OF f]
  have lab: "map ds_label (datasets c) = map fst sorted"
    by (simp add: c case_prod_unfold comp_def)
  have sub: "set sorted \<subseteq> set tbl"
    using set_slice0[of "Fin 5"] unfolding sorted_def
    by (fastforce simp: set_js_sort set_Object_entries)
  show "labels c = month_labels now n" by (simp add: c)
  show "distinct (map ds_label (datasets c))"
    unfolding lab sorted_def
    by (rule distinct_slice0) (simp add: distinct_js_sort distinct_Object_entries rows(1))
  show "length (datasets c) \<le> 5"
    by (simp add: c sorted_def Let_def)
  show "(\<exists>y \<in> set orders.
              \<not> (case month_index start (dm (so_transaction_date y)) of
                    Some i \<Rightarrow> i < 0 \<or> n \<le> i | None \<Rightarrow> False)
              \<and> nullish_or (so_customer_name y) ''Unknown'' = ds_label d)
           \<and> length (ds_values d) = nat n
           \<and> (\<forall>i < nat n. ds_values d ! i
                 = sum_field so_grand_total
                     (filter (\<lambda>x. nullish_or (so_customer_name x) ''Unknown'' = ds_label d
                                   \<and> month_index start (dm (so_transaction_date x)) = Some (int i))
                        orders))"
    if "d \<in> set (datasets c)"
  proof -
    from that obtain k row where kr: "(k, row) \<in> set sorted"
      and d: "d = \<lparr> ds_label = k, ds_values = row \<rparr>"
      by (auto simp: c)
    have "(k, row) \<in> set tbl" using kr sub by blast
    from rows(3)[OF this] show ?thesis by (simp add: d)
  qed
  show "nullish_or (so_customer_name x) ''Unknown'' \<in> ds_label ` set (datasets c)"
    if "x \<in> set orders"
      "\<not> (case month_index start (dm (so_transaction_date x)) of
                 Some i \<Rightarrow> i < 0 \<or> n \<le> i | None \<Rightarrow> False)"
      "nullish_or (so_customer_name x) ''Unknown'' \<notin> set object_prototype_keys"
      "card ((\<lambda>x. nullish_or (so_customer_name x) ''Unknown'') ` set orders) \<le> 5"
  proof -
    have k: "nullish_or (so_customer_name x) ''Unknown'' \<in> fst ` set tbl"
      by (rule rows(4)[OF that(1,2,3)])
    have "length tbl \<le> card ((\<lambda>x. nullish_or (so_customer_name x) ''Unknown'') ` set orders)"
      by (rule length_le_card_keys[OF rows(1) rows(2)]) simp
    then have "length (js_sort (\<lambda>a b. js_sub (foldl js_add (Fin 0) (snd b))
                                                 (foldl js_add (Fin 0) (snd a)))
                            (Object_entries tbl)) \<le> 5"
      using that(4) by (simp add: length_js_sort length_Object_entries)
    then have "slice0 (Fin (of_nat 5))
                 (js_sort (\<lambda>a b. js_sub (foldl js_add (Fin 0) (snd b))
                                                 (foldl js_add (Fin 0) (snd a)))
                            (Object_entries tbl))
               = js_sort (\<lambda>a b. js_sub (foldl js_add (Fin 0) (snd b))
                                                 (foldl js_add (Fin 0) (snd a)))
                            (Object_entries tbl)"
      by (rule slice0_all)
    then have s: "sorted = js_sort (\<lambda>a b. js_sub (foldl js_add (Fin 0) (snd b))
                                                 (foldl js_add (Fin 0) (snd a)))
                            (Object_entries tbl)"
      by (simp add: sorted_def)
    have "set (map ds_label (datasets c)) = fst ` set tbl"
      unfolding lab s by (simp add: set_js_sort set_Object_entries)
    then show ?thesis using k by simp
  qed
qed

lemma revenue_trend_total:
  assumes "nullish_or input_months 6 = n" "0 \<le> n" "n < 2 ^ 32"
    and "valid_date (Date_ym (fst now) (snd now - n + 1))"
    and "nullish_or input_group_by ''total'' = ''customer'' \<longrightarrow> (\<forall>c \<in> snd ` set proto. c = Num NaN)"
  shows "\<exists>c. erpnext_revenue_trend proto dm now input_months input_type input_group_by orders
              = Inr c"
proof (cases "nullish_or input_group_by ''total'' = ''customer''")
  case True
  let ?start = "Date_ym (fst now) (snd now - n + 1)"
  have za: "zero_array n = Inr (replicate (nat n) (Fin 0))"
    using assms by (simp add: zero_array_ok)
  have inert: "\<forall>c \<in> snd ` set proto. c = Num NaN" using assms(5) True by blast
  have "\<exists>st'. fold_err (add_customer_month n ?start dm) orders ([], proto) = Inr st'"
    by (rule fold_err_inert[where
          skip = "\<lambda>x. case month_index ?start (dm (so_transaction_date x)) of
                        Some i \<Rightarrow> i < 0 \<or> n \<le> i | None \<Rightarrow> False"
          and cust = "\<lambda>x. nullish_or (so_customer_name x) ''Unknown''"
          and fresh = "zero_array n"
          and target = "\<lambda>x. Some (case month_index ?start (dm (so_transaction_date x)) of
                                  Some i \<Rightarrow> (int_to_string i, Some (nat i))
                                | None \<Rightarrow> (''NaN'', None))"
          and amt = "\<lambda>x. or_zero (Number (so_grand_total x))", OF _ za inert])
       (simp add: add_customer_month_def Let_def)
  then show ?thesis
    using assms True
    by (auto simp: erpnext_revenue_trend_def Let_def split: sum.splits prod.splits)
next
  case False
  have za: "zero_array n = Inr (replicate (nat n) (Fin 0))"
    using assms by (simp add: zero_array_ok)
  show ?thesis using assms False za by (simp add: erpnext_revenue_trend_def Let_def)
qed



section \<open>Every chart's datasets are aligned with its labels\<close>

lemma aligned_stock_chart: "aligned (erpnext_stock_chart input_limit input_type bins)"
  by (simp add: erpnext_stock_chart_def aligned_def Let_def)

lemma aligned_sales_chart:
  "aligned (erpnext_sales_chart input_limit input_group_by status_invoices items invoices)"
  by (simp add: erpnext_sales_chart_def aligned_def Let_def)

lemma aligned_order_breakdown:
  assumes "erpnext_order_breakdown proto input_type input_limit orders = Inr c"
  shows "aligned c"
  using assms
  by (auto simp: erpnext_order_breakdown_def aligned_def Let_def list_all_iff
      split: if_splits sum.splits)

lemma aligned_revenue_vs_orders: "aligned (erpnext_revenue_vs_orders input_limit orders)"
  by (simp add: erpnext_revenue_vs_orders_def aligned_def Let_def)

lemma aligned_stock_treemap: "aligned (erpnext_stock_treemap input_group_by bins)"
  by (simp add: erpnext_stock_treemap_def aligned_def Let_def)

lemma aligned_price_vs_qty: "aligned (erpnext_price_vs_qty input_limit items soItems)"
  by (simp add: erpnext_price_vs_qty_def aligned_def Let_def)

lemma aligned_product_radar:
  "aligned (erpnext_product_radar input_items topBins bins_for soItems)"
  by (simp add: erpnext_product_radar_def aligned_def Let_def list_all_iff)

lemma aligned_ar_aging:
  assumes "erpnext_ar_aging proto date_time today input_limit input_type invoices = Inr c"
  shows "aligned c"
  using assms
  by (auto simp: erpnext_ar_aging_def aligned_def Let_def list_all_iff
      split: if_splits sum.splits prod.splits)

lemma aligned_gross_profit:
  "aligned (erpnext_gross_profit input_limit input_group_by siItems bins invoices)"
  by (simp add: erpnext_gross_profit_def aligned_def Let_def)

lemma aligned_profit_loss:
  assumes "erpnext_profit_loss date_month now input_months input_type salesOrders purchaseOrders
           = Inr c"
  shows "aligned c"
proof -
  let ?n = "nullish_or input_months 6"
  from assms obtain zeros where z: "zero_array ?n = Inr zeros"
    by (auto simp: erpnext_profit_loss_def Let_def split: if_splits sum.splits)
  have lz: "length zeros = nat ?n" by (rule zero_array_length[OF z])
  show ?thesis
    using assms z lz
    by (auto simp: erpnext_profit_loss_def Let_def aligned_def length_month_labels
          length_monthly_fold split: if_splits)
qed

lemma aligned_revenue_trend:
  assumes "erpnext_revenue_trend proto date_month now input_months input_type input_group_by
             orders = Inr c"
  shows "aligned c"
proof -
  let ?n = "nullish_or input_months 6"
  show ?thesis
  proof (cases "nullish_or input_group_by ''total'' = ''customer''")
    case True
    note ch = revenue_trend_customer_chart[OF assms True refl refl]
    show ?thesis
      unfolding aligned_def using ch(4)
      by (simp add: list_all_iff ch(1) length_month_labels)
  next
    case False
    from assms False obtain zeros where z: "zero_array ?n = Inr zeros"
      by (auto simp: erpnext_revenue_trend_def Let_def split: if_splits sum.splits)
    have lz: "length zeros = nat ?n" by (rule zero_array_length[OF z])
    show ?thesis
      using assms False z lz
      by (auto simp: erpnext_revenue_trend_def Let_def aligned_def length_month_labels
            length_monthly_fold split: if_splits)
  qed
qed

lemma profit_loss_total:
  assumes "0 \<le> nullish_or input_months 6" "nullish_or input_months 6 < 2 ^ 32"
    and "valid_date (Date_ym (fst now) (snd now - nullish_or input_months 6 + 1))"
  shows "\<exists>c. erpnext_profit_loss date_month now input_months input_type salesOrders
               purchaseOrders = Inr c"
  using assms by (simp add: erpnext_profit_loss_def Let_def zero_array_ok)

text \<open>
  In a process that has not written to \<^verbatim>\<open>Object.prototype\<close>, the order breakdown returns a
  payload: always for the pie and donut variants, and for the stacked variant whenever no
  customer is named like a built-in property.
\<close>

lemma accumulate_in_fresh: "\<exists>t. accumulate_in [] [] k v tbl = Inr t"
  by (simp add: accumulate_in_def inherited_at_def split: option.splits)

lemma fold_accumulate_fresh:
  "\<exists>t. fold_err (\<lambda>x. accumulate_in [] [] (key x) (amt x)) xs tbl = Inr t"
proof (induction xs arbitrary: tbl)
  case Nil
  show ?case by simp
next
  case (Cons x xs)
  obtain t where "accumulate_in [] [] (key x) (amt x) tbl = Inr t"
    using accumulate_in_fresh by blast
  then show ?case using Cons[of t] by simp
qed

lemma add_order_status_fresh:
  assumes "bd_proto st = []" "bd_written st = []"
    and "nullish_or (so_customer_name x) ''Unknown'' \<notin> set object_prototype_keys"
  shows "\<exists>st'. add_order_status x st = Inr st' \<and> bd_proto st' = [] \<and> bd_written st' = []"
proof -
  let ?c = "nullish_or (so_customer_name x) ''Unknown''"
  have i: "inherited_at [] ?c = Nothing"
    using assms(3) by (auto simp: inherited_at_def object_prototype_keys_def)
  show ?thesis
  proof (cases "map_of (bd_rows st) ?c")
    case None
    obtain t where "accumulate_in [] [] (nullish_or (so_status x) ''Draft'')
                       (or_zero (Number (so_grand_total x))) [] = Inr t"
      using accumulate_in_fresh by blast
    then show ?thesis using assms(1,2) None i by (simp add: add_order_status_def Let_def)
  next
    case (Some inner)
    obtain t where "accumulate_in [] [] (nullish_or (so_status x) ''Draft'')
                       (or_zero (Number (so_grand_total x))) inner = Inr t"
      using accumulate_in_fresh by blast
    then show ?thesis using assms(1,2) Some by (simp add: add_order_status_def Let_def)
  qed
qed

lemma fold_order_status_fresh:
  assumes "bd_proto st = []" "bd_written st = []"
    and "\<forall>x \<in> set xs. nullish_or (so_customer_name x) ''Unknown'' \<notin> set object_prototype_keys"
  shows "\<exists>st'. fold_err add_order_status xs st = Inr st' \<and> bd_written st' = []"
  using assms
proof (induction xs arbitrary: st)
  case Nil
  then show ?case by simp
next
  case (Cons x xs)
  have "nullish_or (so_customer_name x) ''Unknown'' \<notin> set object_prototype_keys"
    using Cons.prems(3) by simp
  from add_order_status_fresh[OF Cons.prems(1,2) this]
  obtain st1 where s1: "add_order_status x st = Inr st1" "bd_proto st1 = []" "bd_written st1 = []"
    by blast
  have "\<forall>x \<in> set xs. nullish_or (so_customer_name x) ''Unknown'' \<notin> set object_prototype_keys"
    using Cons.prems(3) by simp
  from Cons.IH[OF s1(2,3) this] show ?case by (simp add: s1(1))
qed

lemma order_breakdown_total:
  assumes "nullish_or input_type ''stacked-bar'' = ''pie''
           \<or> nullish_or input_type ''stacked-bar'' = ''donut''
           \<or> (\<forall>x \<in> set orders.
                 nullish_or (so_customer_name x) ''Unknown'' \<notin> set object_prototype_keys)"
  shows "\<exists>c. erpnext_order_breakdown [] input_type input_limit orders = Inr c"
proof (cases "nullish_or input_type ''stacked-bar'' = ''pie''
           \<or> nullish_or input_type ''stacked-bar'' = ''donut''")
  case True
  obtain t where t: "fold_err (\<lambda>o'. accumulate_in [] []
                                       (nullish_or (so_customer_name o') ''Unknown'')
                                       (or_zero (Number (so_grand_total o'))))
                      orders [] = Inr t"
    using fold_accumulate_fresh[of "\<lambda>o'. nullish_or (so_customer_name o') ''Unknown''"
        "\<lambda>o'. or_zero (Number (so_grand_total o'))" orders "[]"] by blast
  show ?thesis
    unfolding erpnext_order_breakdown_def Let_def if_P[OF True] t by simp
next
  case False
  with assms have "\<forall>x \<in> set orders.
                 nullish_or (so_customer_name x) ''Unknown'' \<notin> set object_prototype_keys"
    by blast
  from fold_order_status_fresh[OF _ _ this,
      of "\<lparr> bd_rows = [], bd_proto = [], bd_written = [] \<rparr>"]
  obtain st' where s: "fold_err add_order_status orders
                      \<lparr> bd_rows = [], bd_proto = [], bd_written = [] \<rparr> = Inr st'"
    and w: "bd_written st' = []" by auto
  show ?thesis
    unfolding erpnext_order_breakdown_def Let_def if_not_P[OF False] s by (simp add: w)
qed

text \<open>
  Claim C8. In every chart payload an analytics handler produces, each dataset's values
  have exactly the length of the payload's labels: for the stock chart, the three sales
  charts, the composed revenue against orders chart, the radar and the two gross profit
  charts; and, in every state of \<^verbatim>\<open>Object.prototype\<close>, for the order breakdown (pie, donut
  and stacked), the aging chart (stacked, horizontal and treemap), the revenue trend and
  the profit and loss chart whenever they return a payload; the treemap and scatter
  payloads have no labels and no datasets. The two time series do return a payload for
  every window that is an array length with a valid first month, and so does the aging
  chart for every fetched list (both in every process in which all properties added to
  \<^verbatim>\<open>Object.prototype\<close> so far are NaN); the order breakdown does in a process that has not
  written to \<^verbatim>\<open>Object.prototype\<close>, for the stacked variant provided that no customer is
  named like a built-in property.
\<close>

theorem analytics_charts_aligned:
  "aligned (erpnext_stock_chart stock_limit stock_type stock_bins)
   \<and> aligned (erpnext_sales_chart sales_limit sales_group_by status_invoices invoice_items
                customer_invoices)
   \<and> (case erpnext_order_breakdown proto breakdown_type breakdown_limit breakdown_orders of
         Inr c \<Rightarrow> aligned c | Inl e \<Rightarrow> True)
   \<and> aligned (erpnext_revenue_vs_orders composed_limit composed_orders)
   \<and> aligned (erpnext_stock_treemap treemap_group_by treemap_bins)
   \<and> aligned (erpnext_price_vs_qty scatter_limit prices order_items)
   \<and> aligned (erpnext_product_radar radar_items top_bins bins_for radar_order_items)
   \<and> (case erpnext_ar_aging proto date_time today aging_limit aging_type aging_invoices of
         Inr c \<Rightarrow> aligned c | Inl e \<Rightarrow> True)
   \<and> aligned (erpnext_gross_profit profit_limit profit_group_by profit_items profit_bins
                profit_invoices)
   \<and> (case erpnext_revenue_trend proto date_month now months trend_type trend_group_by
             trend_orders of
         Inr c \<Rightarrow> aligned c | Inl e \<Rightarrow> True)
   \<and> (case erpnext_profit_loss date_month now months pl_type pl_sales pl_purchases of
         Inr c \<Rightarrow> aligned c | Inl e \<Rightarrow> True)
   \<and> (0 \<le> nullish_or months 6 \<and> nullish_or months 6 < 2 ^ 32
        \<and> valid_date (Date_ym (fst now) (snd now - nullish_or months 6 + 1)) \<longrightarrow>
        ((\<forall>c \<in> snd ` set proto. c = Num NaN) \<longrightarrow>
           (\<exists>c. erpnext_revenue_trend proto date_month now months trend_type trend_group_by
                   trend_orders = Inr c))
        \<and> (\<exists>c. erpnext_profit_loss date_month now months pl_type pl_sales pl_purchases
               = Inr c))
   \<and> ((\<forall>c \<in> snd ` set proto. c = Num NaN) \<longrightarrow>
        (\<exists>c. erpnext_ar_aging proto date_time today aging_limit aging_type aging_invoices
               = Inr c))
   \<and> (nullish_or breakdown_type ''stacked-bar'' = ''pie''
        \<or> nullish_or breakdown_type ''stacked-bar'' = ''donut''
        \<or> (\<forall>x \<in> set breakdown_orders.
              nullish_or (so_customer_name x) ''Unknown'' \<notin> set object_prototype_keys) \<longrightarrow>
        (\<exists>c. erpnext_order_breakdown [] breakdown_type breakdown_limit breakdown_orders
               = Inr c))"
proof -
  have b: "case erpnext_order_breakdown proto breakdown_type breakdown_limit breakdown_orders of
             Inr c \<Rightarrow> aligned c | Inl e \<Rightarrow> True"
    by (auto split: sum.splits intro: aligned_order_breakdown)
  have a: "case erpnext_ar_aging proto date_time today aging_limit aging_type aging_invoices of
             Inr c \<Rightarrow> aligned c | Inl e \<Rightarrow> True"
    by (auto split: sum.splits intro: aligned_ar_aging)
  have t: "case erpnext_revenue_trend proto date_month now months trend_type trend_group_by
                  trend_orders of Inr c \<Rightarrow> aligned c | Inl e \<Rightarrow> True"
    by (auto split: sum.splits intro: aligned_revenue_trend)
  have p: "case erpnext_profit_loss date_month now months pl_type pl_sales pl_purchases of
             Inr c \<Rightarrow> aligned c | Inl e \<Rightarrow> True"
    by (auto split: sum.splits intro: aligned_profit_loss)
  have tt: "\<exists>c. erpnext_revenue_trend proto date_month now months trend_type trend_group_by
                   trend_orders = Inr c"
    if "0 \<le> nullish_or months 6 \<and> nullish_or months 6 < 2 ^ 32
        \<and> valid_date (Date_ym (fst now) (snd now - nullish_or months 6 + 1))"
      "\<forall>c \<in> snd ` set proto. c = Num NaN"
    using that by (intro revenue_trend_total[OF refl]) blast+
  have pt: "\<exists>c. erpnext_profit_loss date_month now months pl_type pl_sales pl_purchases = Inr c"
    if "0 \<le> nullish_or months 6 \<and> nullish_or months 6 < 2 ^ 32
        \<and> valid_date (Date_ym (fst now) (snd now - nullish_or months 6 + 1))"
    using that by (intro profit_loss_total) blast+
  have at: "\<exists>c. erpnext_ar_aging proto date_time today aging_limit aging_type aging_invoices
               = Inr c"
    if "\<forall>c \<in> snd ` set proto. c = Num NaN"
    using that by (rule ar_aging_total)
  have bt: "\<exists>c. erpnext_order_breakdown [] breakdown_type breakdown_limit breakdown_orders
               = Inr c"
    if "nullish_or breakdown_type ''stacked-bar'' = ''pie''
        \<or> nullish_or breakdown_type ''stacked-bar'' = ''donut''
        \<or> (\<forall>x \<in> set breakdown_orders.
              nullish_or (so_customer_name x) ''Unknown'' \<notin> set object_prototype_keys)"
    using that by (rule order_breakdown_total)
  have plain: "aligned (erpnext_stock_chart stock_limit stock_type stock_bins)
   \<and> aligned (erpnext_sales_chart sales_limit sales_group_by status_invoices invoice_items
                customer_invoices)
   \<and> aligned (erpnext_revenue_vs_orders composed_limit composed_orders)
   \<and> aligned (erpnext_stock_treemap treemap_group_by treemap_bins)
   \<and> aligned (erpnext_price_vs_qty scatter_limit prices order_items)
   \<and> aligned (erpnext_product_radar radar_items top_bins bins_for radar_order_items)
   \<and> aligned (erpnext_gross_profit profit_limit profit_group_by profit_items profit_bins
                profit_invoices)"
    by (simp add: aligned_stock_chart aligned_sales_chart
          aligned_revenue_vs_orders aligned_stock_treemap aligned_price_vs_qty
          aligned_product_radar aligned_gross_profit)
  show ?thesis using plain b a t p tt pt at bt by blast
qed

theorem analytics_charts_aligned_witness:
  "(0::int) \<le> nullish_or (Value 3) 6 \<and> nullish_or (Value 3) 6 < (2::int) ^ 32
   \<and> valid_date (Date_ym (fst (2026::int, 2::int)) (snd (2026::int, 2::int) - nullish_or (Value 3) 6 + 1))
   \<and> (\<exists>c. erpnext_profit_loss (\<lambda>f. Some (2026, 1)) (2026, 2) (Value 3) Undefined
              [\<lparr> so_name = Undefined, so_customer = Undefined,
                 so_customer_name = Value ''Acme'', so_status = Undefined,
                 so_grand_total = Value (Fin 400),
                 so_transaction_date = Value ''2026-02-15'', so_delivery_date = Undefined \<rparr>]
              [] = Inr c
          \<and> aligned c)
   \<and> nullish_or (so_customer_name
        \<lparr> so_name = Undefined, so_customer = Undefined,
           so_customer_name = Value ''Acme'', so_status = Value ''Draft'',
           so_grand_total = Value (Fin 400),
           so_transaction_date = Undefined, so_delivery_date = Undefined \<rparr>) ''Unknown''
       \<notin> set object_prototype_keys
   \<and> (\<exists>c. erpnext_order_breakdown [] Undefined Undefined
        [\<lparr> so_name = Undefined, so_customer = Undefined,
           so_customer_name = Value ''Acme'', so_status = Value ''Draft'',
           so_grand_total = Value (Fin 400),
           so_transaction_date = Undefined, so_delivery_date = Undefined \<rparr>] = Inr c
          \<and> aligned c)
   \<and> (\<exists>c. erpnext_ar_aging [] (\<lambda>s. NaN) (Fin 1769938200000) Undefined Undefined
        [\<lparr> si_name = Undefined, si_customer = Undefined, si_customer_name = Value ''Acme'',
           si_status = Undefined, si_grand_total = Undefined,
           si_outstanding_amount = Value (Fin 500), si_due_date = Null,
           si_posting_date = Undefined \<rparr>] = Inr c
          \<and> aligned c)"
proof -
  let ?so = "\<lparr> so_name = Undefined, so_customer = Undefined,
                 so_customer_name = Value ''Acme'', so_status = Undefined,
                 so_grand_total = Value (Fin 400),
                 so_transaction_date = Value ''2026-02-15'', so_delivery_date = Undefined \<rparr>"
  let ?bo = "\<lparr> so_name = Undefined, so_customer = Undefined,
           so_customer_name = Value ''Acme'', so_status = Value ''Draft'',
           so_grand_total = Value (Fin 400),
           so_transaction_date = Undefined, so_delivery_date = Undefined \<rparr>"
  let ?inv = "\<lparr> si_name = Undefined, si_customer = Undefined, si_customer_name = Value ''Acme'',
           si_status = Undefined, si_grand_total = Undefined,
           si_outstanding_amount = Value (Fin 500), si_due_date = Null,
           si_posting_date = Undefined \<rparr>"
  let ?run = "erpnext_profit_loss (\<lambda>f. Some (2026, 1)) (2026, 2) (Value 3) Undefined [?so] []"
  let ?brk = "erpnext_order_breakdown [] Undefined Undefined [?bo]"
  let ?age = "erpnext_ar_aging [] (\<lambda>s. NaN) (Fin 1769938200000) Undefined Undefined [?inv]"
  have h: "(0::int) \<le> nullish_or (Value 3) 6 \<and> nullish_or (Value 3) 6 < (2::int) ^ 32
      \<and> valid_date (Date_ym (fst (2026::int, 2::int)) (snd (2026::int, 2::int) - nullish_or (Value 3) 6 + 1))"
    by (simp add: valid_date_def Date_ym_def)
  have k: "nullish_or (so_customer_name ?bo) ''Unknown'' \<notin> set object_prototype_keys"
    by (simp add: object_prototype_keys_def)
  then have k': "\<forall>x \<in> set [?bo].
              nullish_or (so_customer_name x) ''Unknown'' \<notin> set object_prototype_keys"
    by simp
  have i: "\<forall>c \<in> snd ` set ([] :: prototype). c = Num NaN" by simp
  note inst = analytics_charts_aligned[where proto = "[]" and months = "Value 3"
      and now = "(2026::int, 2::int)"
      and date_month = "\<lambda>f. Some (2026, 1)" and pl_type = Undefined
      and pl_sales = "[?so]" and pl_purchases = "[]"
      and breakdown_type = Undefined and breakdown_limit = Undefined
      and breakdown_orders = "[?bo]"
      and date_time = "\<lambda>s. NaN" and today = "Fin 1769938200000"
      and aging_limit = Undefined and aging_type = Undefined and aging_invoices = "[?inv]"]
  note c2' = conjunct2
  note brk = inst[THEN c2', THEN c2', THEN conjunct1]
  note age = inst[THEN c2', THEN c2', THEN c2', THEN c2', THEN c2', THEN c2', THEN c2',
      THEN conjunct1]
  note rest = inst[THEN c2', THEN c2', THEN c2', THEN c2', THEN c2', THEN c2', THEN c2',
      THEN c2', THEN c2', THEN c2']
  have a1: "case ?run of Inr c \<Rightarrow> aligned c | Inl e \<Rightarrow> True"
    by (rule rest[THEN conjunct1])
  have a2: "\<exists>c. ?run = Inr c"
    by (rule rest[THEN c2', THEN conjunct1, THEN mp, OF h, THEN c2'])
  have b1: "case ?brk of Inr c \<Rightarrow> aligned c | Inl e \<Rightarrow> True"
    by (rule brk)
  have b2: "\<exists>c. ?brk = Inr c"
    by (rule rest[THEN c2', THEN c2', THEN c2', THEN mp]) (use k' in blast)
  have c1: "case ?age of Inr c \<Rightarrow> aligned c | Inl e \<Rightarrow> True"
    by (rule age)
  have c2: "\<exists>c. ?age = Inr c"
    by (rule rest[THEN c2', THEN c2', THEN conjunct1, THEN mp, OF i])
  from a1 a2 have A: "\<exists>c. ?run = Inr c \<and> aligned c" by auto
  from b1 b2 have B: "\<exists>c. ?brk = Inr c \<and> aligned c" by auto
  from c1 c2 have C: "\<exists>c. ?age = Inr c \<and> aligned c" by auto
  from h k A B C show ?thesis by blast
qed

end
